(* ===== verification/Prelude.thy ===== *)
theory Prelude
  imports Complex_Main
begin

text \<open>
  Shared vocabulary of the development: the named theorem collections that the
  component theories feed, the type synonyms for times, element handles and
  JavaScript strings, and the generic lemmas on lists, folds and options that
  the component proofs share.
\<close>

named_theorems js_simps "evaluation equations of the JavaScript value layer"
named_theorems dom_simps "frame equations of the DOM state models"

text \<open>
  A time stamp in milliseconds (\<open>performance.now()\<close>, the time stamp given to a
  \<open>requestAnimationFrame\<close> callback, a \<open>setTimeout\<close> delay) is a JavaScript
  number; the model reads it as an exact rational.  A DOM element is an opaque
  handle, a natural number; the document order of a \<open>querySelectorAll\<close> result
  is a list of handles.
\<close>

type_synonym ms = rat
type_synonym elem = nat
type_synonym js_string = string

subsection \<open>Folds that keep a property\<close>

text \<open>
  A callback that processes the entries of a batch one after another
  (\<open>entries.forEach(...)\<close>) is a left fold over the batch; a property that each
  step keeps holds after the whole batch.
\<close>

lemma foldl_keep:
  assumes "P s" and "\<And>s x. P s \<Longrightarrow> x \<in> set xs \<Longrightarrow> P (f s x)"
  shows "P (foldl f s xs)"
  using assms by (induction xs arbitrary: s) auto

lemma foldl_keep_eq:
  assumes "\<And>s x. x \<in> set xs \<Longrightarrow> g (f s x) = g s"
  shows "g (foldl f s xs) = g s"
  using assms by (induction xs arbitrary: s) auto

lemma foldl_establish:
  assumes "x \<in> set xs" and "\<And>s. Q (f s x)" and "\<And>s y. Q s \<Longrightarrow> Q (f s y)"
  shows "Q (foldl f s xs)"
  using assms(1)
proof (induction xs arbitrary: s rule: rev_induct)
  case Nil
  then show ?case by simp
next
  case (snoc y ys)
  show ?case
  proof (cases "x \<in> set ys")
    case True
    then show ?thesis using snoc.IH assms(3) by simp
  next
    case False
    with snoc.prems have "x = y" by simp
    then show ?thesis using assms(2) by simp
  qed
qed

subsection \<open>Lists\<close>

lemma dropWhile_none: "(\<forall>x \<in> set xs. \<not> P x) \<Longrightarrow> dropWhile P xs = xs"
  by (induction xs) auto

lemma dropWhile_all: "(\<forall>x \<in> set xs. P x) \<Longrightarrow> dropWhile P xs = []"
  by (induction xs) auto

lemma takeWhile_all: "(\<forall>x \<in> set xs. P x) \<Longrightarrow> takeWhile P xs = xs"
  by (induction xs) auto

end
