(* ===== verification/JS_Number.thy ===== *)
theory JS_Number
  imports Prelude
begin

text \<open>
  The JavaScript Number type as the script uses it.  A Number is a finite value,
  one of the two infinities, or NaN.  Finite values are exact rationals: the
  rounding of IEEE double arithmetic, the signed zero and the finite range of
  doubles are not modelled (see the header of the root theory).  Each operation
  below follows the corresponding abstract operation of ECMA-262
  (\<open>Number::add\<close>, \<open>Number::multiply\<close>, \<open>Number::divide\<close>,
  \<open>Number::lessThan\<close>, \<open>Math.min\<close>, \<open>Math.max\<close>, \<open>Math.floor\<close>,
  \<open>Math.round\<close>, \<open>Math.pow\<close> with an integer exponent, \<open>ToBoolean\<close>).
\<close>

datatype jsnum = Fin rat | PosInf | NegInf | NaN

abbreviation js_int :: "int \<Rightarrow> jsnum" where
  "js_int k \<equiv> Fin (of_int k)"

fun js_neg :: "jsnum \<Rightarrow> jsnum" where
  "js_neg (Fin a) = Fin (- a)"
| "js_neg PosInf = NegInf"
| "js_neg NegInf = PosInf"
| "js_neg NaN = NaN"

fun js_add :: "jsnum \<Rightarrow> jsnum \<Rightarrow> jsnum" where
  "js_add (Fin a) (Fin b) = Fin (a + b)"
| "js_add NaN _ = NaN"
| "js_add _ NaN = NaN"
| "js_add PosInf NegInf = NaN"
| "js_add NegInf PosInf = NaN"
| "js_add PosInf _ = PosInf"
| "js_add NegInf _ = NegInf"
| "js_add _ PosInf = PosInf"
| "js_add _ NegInf = NegInf"

definition js_sub :: "jsnum \<Rightarrow> jsnum \<Rightarrow> jsnum" where
  "js_sub a b = js_add a (js_neg b)"

text \<open>The sign of an infinite product or quotient: \<open>s\<close> is the sign of the other factor.\<close>

definition inf_signed :: "bool \<Rightarrow> jsnum" where
  "inf_signed pos = (if pos then PosInf else NegInf)"

fun js_mul :: "jsnum \<Rightarrow> jsnum \<Rightarrow> jsnum" where
  "js_mul (Fin a) (Fin b) = Fin (a * b)"
| "js_mul NaN _ = NaN"
| "js_mul _ NaN = NaN"
| "js_mul (Fin a) PosInf = (if a = 0 then NaN else inf_signed (0 < a))"
| "js_mul (Fin a) NegInf = (if a = 0 then NaN else inf_signed (a < 0))"
| "js_mul PosInf (Fin b) = (if b = 0 then NaN else inf_signed (0 < b))"
| "js_mul NegInf (Fin b) = (if b = 0 then NaN else inf_signed (b < 0))"
| "js_mul PosInf PosInf = PosInf"
| "js_mul PosInf NegInf = NegInf"
| "js_mul NegInf PosInf = NegInf"
| "js_mul NegInf NegInf = PosInf"

text \<open>Division by a (positive) zero: \<open>x / 0\<close> is an infinity of the sign of \<open>x\<close>, \<open>0 / 0\<close> is NaN.\<close>

fun js_div :: "jsnum \<Rightarrow> jsnum \<Rightarrow> jsnum" where
  "js_div (Fin a) (Fin b) =
     (if b = 0 then (if a = 0 then NaN else inf_signed (0 < a)) else Fin (a / b))"
| "js_div NaN _ = NaN"
| "js_div _ NaN = NaN"
| "js_div (Fin a) PosInf = Fin 0"
| "js_div (Fin a) NegInf = Fin 0"
| "js_div PosInf (Fin b) = inf_signed (0 \<le> b)"
| "js_div NegInf (Fin b) = inf_signed (b < 0)"
| "js_div _ _ = NaN"

text \<open>\<open>x < y\<close> on Numbers: false whenever NaN is involved.\<close>

fun js_less :: "jsnum \<Rightarrow> jsnum \<Rightarrow> bool" where
  "js_less (Fin a) (Fin b) = (a < b)"
| "js_less NegInf (Fin _) = True"
| "js_less NegInf PosInf = True"
| "js_less (Fin _) PosInf = True"
| "js_less _ _ = False"

definition js_le :: "jsnum \<Rightarrow> jsnum \<Rightarrow> bool" where
  "js_le a b = (js_less a b \<or> (a = b \<and> a \<noteq> NaN))"

text \<open>\<open>Math.min\<close> and \<open>Math.max\<close> of two arguments: NaN if either is NaN.\<close>

definition js_min :: "jsnum \<Rightarrow> jsnum \<Rightarrow> jsnum" where
  "js_min a b = (if a = NaN \<or> b = NaN then NaN else if js_less b a then b else a)"

definition js_max :: "jsnum \<Rightarrow> jsnum \<Rightarrow> jsnum" where
  "js_max a b = (if a = NaN \<or> b = NaN then NaN else if js_less a b then b else a)"

fun js_floor :: "jsnum \<Rightarrow> jsnum" where
  "js_floor (Fin a) = Fin (of_int \<lfloor>a\<rfloor>)"
| "js_floor x = x"

text \<open>\<open>Math.round\<close>: the nearest integer, ties towards \<open>+\<infinity>\<close>.\<close>

fun js_round :: "jsnum \<Rightarrow> jsnum" where
  "js_round (Fin a) = Fin (of_int \<lfloor>a + 1 / 2\<rfloor>)"
| "js_round x = x"

text \<open>\<open>Math.pow(b, n)\<close> for a non-negative integer exponent \<open>n\<close>.\<close>

fun js_pow_nat :: "jsnum \<Rightarrow> nat \<Rightarrow> jsnum" where
  "js_pow_nat _ 0 = Fin 1"
| "js_pow_nat (Fin a) n = Fin (a ^ n)"
| "js_pow_nat PosInf (Suc _) = PosInf"
| "js_pow_nat NegInf (Suc n) = inf_signed (odd n)"
| "js_pow_nat NaN (Suc _) = NaN"

text \<open>\<open>ToBoolean\<close> of a Number, and the \<open>a || b\<close> operator on Numbers.\<close>

fun js_truthy :: "jsnum \<Rightarrow> bool" where
  "js_truthy (Fin a) = (a \<noteq> 0)"
| "js_truthy NaN = False"
| "js_truthy _ = True"

definition js_or :: "jsnum \<Rightarrow> jsnum \<Rightarrow> jsnum" where
  "js_or a b = (if js_truthy a then a else b)"

declare js_sub_def [js_simps] js_le_def [js_simps] js_min_def [js_simps]
  js_max_def [js_simps] js_or_def [js_simps] inf_signed_def [js_simps]

subsection \<open>Facts shared by the component theories\<close>

lemma js_or_not_NaN: "b \<noteq> NaN \<Longrightarrow> js_or a b \<noteq> NaN"
  by (cases a) (auto simp: js_or_def)

text \<open>
  The clamping idiom \<open>Math.max(lo, Math.min(hi, x))\<close>: on a Number that is not
  NaN it yields a finite value between the bounds, whatever \<open>x\<close> is.
\<close>

lemma js_clamp_Fin:
  "lo \<le> hi \<Longrightarrow> js_max (Fin lo) (js_min (Fin hi) (Fin a)) = Fin (max lo (min hi a))"
  by (auto simp: js_max_def js_min_def)

lemma js_clamp_cases:
  assumes "lo \<le> hi" and "x \<noteq> NaN"
  shows "\<exists>v. js_max (Fin lo) (js_min (Fin hi) x) = Fin v \<and> lo \<le> v \<and> v \<le> hi"
  using assms by (cases x) (auto simp: js_max_def js_min_def)

lemma js_clamp_PosInf: "lo \<le> hi \<Longrightarrow> js_max (Fin lo) (js_min (Fin hi) PosInf) = Fin hi"
  by (simp add: js_max_def js_min_def)

lemma js_clamp_NegInf: "lo \<le> hi \<Longrightarrow> js_max (Fin lo) (js_min (Fin hi) NegInf) = Fin lo"
  by (simp add: js_max_def js_min_def)

lemma js_min_Fin [simp]: "js_min (Fin a) (Fin b) = Fin (min a b)"
  by (simp add: js_min_def min_def)

lemma js_max_Fin [simp]: "js_max (Fin a) (Fin b) = Fin (max a b)"
  by (simp add: js_max_def max_def)

lemma js_le_Fin [simp]: "js_le (Fin a) (Fin b) = (a \<le> b)"
  by (auto simp: js_le_def)

lemma js_round_of_int [simp]: "js_round (Fin (of_int k)) = Fin (of_int k)"
  by (simp add: floor_eq_iff)

lemma js_floor_of_int [simp]: "js_floor (Fin (of_int k)) = Fin (of_int k)"
  by simp

lemma js_round_mono: "a \<le> b \<Longrightarrow> \<lfloor>a + 1 / 2\<rfloor> \<le> \<lfloor>b + 1 / 2\<rfloor>"
  for a b :: rat
  by (simp add: floor_mono)

end
