(* ===== verification/JS_String.thy ===== *)
theory JS_String
  imports JS_Number
begin

text \<open>
  The string operations of the script, after ECMA-262: \<open>String.prototype.trim\<close>,
  \<open>replace\<close> with a string pattern, \<open>slice\<close>, \<open>toUpperCase\<close>, \<open>includes\<close>,
  the global \<open>parseInt\<close>, \<open>Number(string)\<close> (StringToNumber) and
  \<open>Number::toString\<close> on integral values.  Strings are lists of ASCII characters;
  white space is the ASCII part of WhiteSpace and LineTerminator (TAB, LF, VT, FF,
  CR, SPACE).
\<close>

definition is_js_ws :: "char \<Rightarrow> bool" where
  "is_js_ws c = (of_char c \<in> {9, 10, 11, 12, 13, 32 :: nat})"

definition js_trim_start :: "string \<Rightarrow> string" where
  "js_trim_start s = dropWhile is_js_ws s"

definition js_trim :: "string \<Rightarrow> string" where
  "js_trim s = rev (dropWhile is_js_ws (rev (dropWhile is_js_ws s)))"

text \<open>\<open>s.replace(pat, rep)\<close> with a string pattern replaces the first occurrence only.\<close>

fun js_replace_first :: "string \<Rightarrow> string \<Rightarrow> string \<Rightarrow> string" where
  "js_replace_first [] pat rep = (if pat = [] then rep else [])"
| "js_replace_first (c # cs) pat rep =
     (if take (length pat) (c # cs) = pat then rep @ drop (length pat) (c # cs)
      else c # js_replace_first cs pat rep)"

text \<open>\<open>s.includes(t)\<close>.\<close>

fun js_includes :: "string \<Rightarrow> string \<Rightarrow> bool" where
  "js_includes [] t = (t = [])"
| "js_includes (c # cs) t = (take (length t) (c # cs) = t \<or> js_includes cs t)"

text \<open>
  \<open>s.slice(a, b)\<close>: a negative index counts from the end, both are clamped to
  \<open>[0, length s]\<close>, and an empty string results when the start is not below the end.
\<close>

definition js_rel_index :: "nat \<Rightarrow> int \<Rightarrow> nat" where
  "js_rel_index len k = (if k < 0 then nat (max (int len + k) 0) else min (nat k) len)"

definition js_slice :: "string \<Rightarrow> int \<Rightarrow> int \<Rightarrow> string" where
  "js_slice s a b =
     (let from = js_rel_index (length s) a; to = js_rel_index (length s) b
      in take (to - from) (drop from s))"

definition js_slice_from :: "string \<Rightarrow> int \<Rightarrow> string" where
  "js_slice_from s a = js_slice s a (int (length s))"

definition ascii_upper :: "char \<Rightarrow> char" where
  "ascii_upper c =
     (let n = of_char c :: nat in if 97 \<le> n \<and> n \<le> 122 then char_of (n - 32) else c)"

definition js_upper :: "string \<Rightarrow> string" where
  "js_upper s = map ascii_upper s"

text \<open>\<open>v || d\<close> where \<open>v\<close> is a string or \<open>undefined\<close> (a missing attribute):
  the empty string and \<open>undefined\<close> are falsy.\<close>

definition js_str_or :: "string option \<Rightarrow> string \<Rightarrow> string" where
  "js_str_or v d = (case v of Some x \<Rightarrow> if x = [] then d else x | None \<Rightarrow> d)"

subsection \<open>Digits\<close>

text \<open>The value of a character as a digit of radix up to 36 (\<open>0-9\<close>, \<open>a-z\<close>, \<open>A-Z\<close>).\<close>

definition digit_value :: "char \<Rightarrow> nat option" where
  "digit_value c =
     (let n = of_char c :: nat in
      if 48 \<le> n \<and> n \<le> 57 then Some (n - 48)
      else if 97 \<le> n \<and> n \<le> 122 then Some (n - 87)
      else if 65 \<le> n \<and> n \<le> 90 then Some (n - 55)
      else None)"

definition is_radix_digit :: "nat \<Rightarrow> char \<Rightarrow> bool" where
  "is_radix_digit r c = (case digit_value c of Some d \<Rightarrow> d < r | None \<Rightarrow> False)"

definition digits_value :: "nat \<Rightarrow> string \<Rightarrow> nat" where
  "digits_value r ds = foldl (\<lambda>n c. r * n + (case digit_value c of Some d \<Rightarrow> d | None \<Rightarrow> 0)) 0 ds"

text \<open>Decimal digits of a natural number, most significant first (\<open>0\<close> is \<open>''0''\<close>).\<close>

fun nat_to_dec :: "nat \<Rightarrow> string" where
  "nat_to_dec n =
     (if n < 10 then [char_of (48 + n)] else nat_to_dec (n div 10) @ [char_of (48 + n mod 10)])"

declare nat_to_dec.simps [simp del]

subsection \<open>parseInt\<close>

text \<open>
  \<open>parseInt(string, radix)\<close>, ECMA-262 19.2.5.  The radix argument is
  \<open>ToInt32(radix)\<close>; an absent radix is 0.  A leading \<open>0x\<close>/\<open>0X\<close> selects
  radix 16 when the radix is 0 or 16.  The longest prefix of radix digits is read;
  no digit at all gives NaN.  (The negative zero of \<open>parseInt(''-0'')\<close> is 0 here.)
\<close>

definition js_parse_int :: "string \<Rightarrow> int \<Rightarrow> jsnum" where
  "js_parse_int input radix =
     (let s0 = js_trim_start input;
          sign = (case s0 of c # _ \<Rightarrow> if c = CHR ''-'' then -1 else 1 | [] \<Rightarrow> (1::int));
          s1 = (case s0 of c # r \<Rightarrow> if c = CHR ''+'' \<or> c = CHR ''-'' then r else s0 | [] \<Rightarrow> s0)
      in if radix \<noteq> 0 \<and> (radix < 2 \<or> 36 < radix) then NaN
         else
           (let strip = (radix = 0 \<or> radix = 16);
                r0 = (if radix = 0 then 10 else nat radix);
                hex = strip \<and> take 2 s1 \<in> {''0x'', ''0X''};
                r = (if hex then 16 else r0);
                s2 = (if hex then drop 2 s1 else s1);
                z = takeWhile (is_radix_digit r) s2
            in if z = [] then NaN else Fin (of_int (sign * int (digits_value r z)))))"

subsection \<open>Number(string)\<close>

text \<open>
  StringToNumber (ECMA-262 7.1.4.1.1): surrounding white space is ignored, the
  empty string is 0, a StrDecimalLiteral is an optional sign and either
  \<open>Infinity\<close> or decimal digits with an optional fraction and exponent, a
  NonDecimalIntegerLiteral is \<open>0x\<close>, \<open>0o\<close> or \<open>0b\<close> and digits (no sign);
  anything else is NaN.
\<close>

definition is_dec_digit :: "char \<Rightarrow> bool" where
  "is_dec_digit = is_radix_digit 10"

definition pow10_int :: "int \<Rightarrow> rat" where
  "pow10_int e = (if 0 \<le> e then 10 ^ nat e else 1 / 10 ^ nat (- e))"

definition parse_signed_digits :: "string \<Rightarrow> int option" where
  "parse_signed_digits s =
     (let (sg, r) = (case s of c # r' \<Rightarrow>
                       if c = CHR ''+'' then (1, r') else if c = CHR ''-'' then (-1, r') else (1, s)
                     | [] \<Rightarrow> (1::int, s))
      in if r \<noteq> [] \<and> list_all is_dec_digit r then Some (sg * int (digits_value 10 r)) else None)"

definition parse_exponent :: "string \<Rightarrow> int option" where
  "parse_exponent s =
     (case s of [] \<Rightarrow> Some 0
      | c # r \<Rightarrow> if c = CHR ''e'' \<or> c = CHR ''E'' then parse_signed_digits r else None)"

definition parse_unsigned_decimal :: "string \<Rightarrow> jsnum option" where
  "parse_unsigned_decimal s =
     (if s = ''Infinity'' then Some PosInf
      else
        (let ip = takeWhile is_dec_digit s;
             r1 = dropWhile is_dec_digit s;
             (fp, r2) = (case r1 of c # r' \<Rightarrow>
                           if c = CHR ''.'' then (takeWhile is_dec_digit r', dropWhile is_dec_digit r')
                           else ([], r1)
                         | [] \<Rightarrow> ([], []))
         in if ip = [] \<and> fp = [] then None
            else map_option
                   (\<lambda>e. Fin (of_nat (digits_value 10 (ip @ fp)) / 10 ^ length fp * pow10_int e))
                   (parse_exponent r2)))"

definition non_decimal_radix :: "char \<Rightarrow> nat option" where
  "non_decimal_radix c =
     (if c \<in> {CHR ''x'', CHR ''X''} then Some 16
      else if c \<in> {CHR ''o'', CHR ''O''} then Some 8
      else if c \<in> {CHR ''b'', CHR ''B''} then Some 2 else None)"

text \<open>A string that is no numeric literal converts to NaN.\<close>

definition or_nan :: "jsnum option \<Rightarrow> jsnum" where
  "or_nan r = (case r of Some v \<Rightarrow> v | None \<Rightarrow> NaN)"

definition js_string_to_number :: "string \<Rightarrow> jsnum" where
  "js_string_to_number input =
     (let t = js_trim input in
      if t = [] then Fin 0
      else case t of
        c0 # c1 # ds \<Rightarrow>
          (if c0 = CHR ''0'' \<and> non_decimal_radix c1 \<noteq> None then
             (let r = the (non_decimal_radix c1) in
              if ds \<noteq> [] \<and> list_all (is_radix_digit r) ds then Fin (of_nat (digits_value r ds))
              else NaN)
           else if c0 = CHR ''+'' then or_nan (parse_unsigned_decimal (c1 # ds))
           else if c0 = CHR ''-'' then or_nan (map_option js_neg (parse_unsigned_decimal (c1 # ds)))
           else or_nan (parse_unsigned_decimal t))
      | _ \<Rightarrow> or_nan (parse_unsigned_decimal t))"

subsection \<open>Number::toString on integral values\<close>

text \<open>
  \<open>Number::toString(x)\<close> for an integral \<open>x\<close> (ECMA-262 6.1.6.1.20): with
  \<open>n\<close> decimal digits, \<open>n \<le> 21\<close> prints the digits, more prints the significant
  digits in exponent form (\<open>1e+21\<close>, \<open>1.5e+22\<close>).  The callers apply it to the
  results of \<open>Math.round\<close> and \<open>Math.floor\<close> only, which are integral.
\<close>

definition strip_trailing_zeros :: "string \<Rightarrow> string" where
  "strip_trailing_zeros ds = rev (dropWhile (\<lambda>c. c = CHR ''0'') (rev ds))"

definition js_int_to_string :: "int \<Rightarrow> string" where
  "js_int_to_string k =
     (let d = nat_to_dec (nat \<bar>k\<bar>); sg = (if k < 0 then ''-'' else [])
      in if length d \<le> 21 then sg @ d
         else sg @ (case strip_trailing_zeros d of
                      [c] \<Rightarrow> [c]
                    | c # r \<Rightarrow> c # CHR ''.'' # r
                    | [] \<Rightarrow> [])
                 @ ''e+'' @ nat_to_dec (length d - 1))"

fun js_integral_to_string :: "jsnum \<Rightarrow> string" where
  "js_integral_to_string (Fin a) = js_int_to_string \<lfloor>a\<rfloor>"
| "js_integral_to_string PosInf = ''Infinity''"
| "js_integral_to_string NegInf = ''-Infinity''"
| "js_integral_to_string NaN = ''NaN''"

subsection \<open>Digits and printing\<close>

lemma nat_to_dec_unfold: "nat_to_dec n =
     (if n < 10 then [char_of (48 + n)] else nat_to_dec (n div 10) @ [char_of (48 + n mod 10)])"
  by (rule nat_to_dec.simps)

lemma digit_value_char [simp]: "d < (10::nat) \<Longrightarrow> digit_value (char_of (48 + d)) = Some d"
  by (simp add: digit_value_def)

lemma dec_digit_char [simp]: "d < (10::nat) \<Longrightarrow> is_dec_digit (char_of (48 + d))"
  by (simp add: is_dec_digit_def is_radix_digit_def)

lemma nat_to_dec_digits: "\<forall>c \<in> set (nat_to_dec n). is_dec_digit c"
  by (induction n rule: nat_to_dec.induct) (subst nat_to_dec_unfold; simp)

lemma nat_to_dec_ne [simp]: "nat_to_dec n \<noteq> []"
  by (subst nat_to_dec_unfold) simp

lemma digits_value_snoc: "digits_value r (xs @ [c]) = r * digits_value r xs + (case digit_value c of Some d \<Rightarrow> d | None \<Rightarrow> 0)"
  by (simp add: digits_value_def)

lemma digits_value_nat_to_dec [simp]: "digits_value 10 (nat_to_dec n) = n"
proof (induction n rule: nat_to_dec.induct)
  case (1 n)
  show ?case
  proof (cases "n < 10")
    case True
    then show ?thesis by (subst nat_to_dec_unfold) (simp add: digits_value_def)
  next
    case False
    with "1.IH" show ?thesis
      by (subst nat_to_dec_unfold) (simp add: digits_value_snoc)
  qed
qed

lemma nat_to_dec_length: "n < 10 ^ k \<Longrightarrow> 0 < k \<Longrightarrow> length (nat_to_dec n) \<le> k"
proof (induction n arbitrary: k rule: nat_to_dec.induct)
  case (1 n)
  show ?case
  proof (cases "n < 10")
    case True
    with "1.prems" show ?thesis by (subst nat_to_dec_unfold) simp
  next
    case False
    obtain k' where k: "k = Suc k'"
      using "1.prems"(2) by (cases k) auto
    have "0 < k'"
    proof (rule ccontr)
      assume "\<not> 0 < k'"
      with k "1.prems"(1) have "n < 10" by simp
      with False show False by simp
    qed
    have "n div 10 < 10 ^ k'"
      using "1.prems"(1) k by (simp add: div_less_iff_less_mult mult.commute)
    with "1.IH" False \<open>0 < k'\<close> have "length (nat_to_dec (n div 10)) \<le> k'" by simp
    with False k show ?thesis by (subst nat_to_dec_unfold) simp
  qed
qed

subsection \<open>Parsing what was printed\<close>

lemma dec_digit_not_ws: "is_dec_digit c \<Longrightarrow> \<not> is_js_ws c"
  by (auto simp: is_dec_digit_def is_radix_digit_def digit_value_def is_js_ws_def Let_def
      split: if_splits)

lemma dec_digit_code: "is_dec_digit c \<Longrightarrow> 48 \<le> (of_char c :: nat) \<and> (of_char c :: nat) \<le> 57"
  by (auto simp: is_dec_digit_def is_radix_digit_def digit_value_def Let_def split: if_splits)

lemma js_trim_id: "(\<forall>c \<in> set s. \<not> is_js_ws c) \<Longrightarrow> js_trim s = s"
  by (simp add: js_trim_def dropWhile_none)

lemma js_trim_start_id: "(\<forall>c \<in> set s. \<not> is_js_ws c) \<Longrightarrow> js_trim_start s = s"
  by (simp add: js_trim_start_def dropWhile_none)

lemma js_replace_first_last: "c \<notin> set xs \<Longrightarrow> js_replace_first (xs @ [c]) [c] [] = xs"
  by (induction xs) auto

lemma dec_digit_neq:
  assumes "is_dec_digit c" and "(of_char d :: nat) < 48 \<or> 57 < (of_char d :: nat)"
  shows "c \<noteq> d"
  using dec_digit_code [OF assms(1)] assms(2) by auto

lemma digit_not_special:
  "is_dec_digit c \<Longrightarrow> c \<noteq> CHR ''%'' \<and> c \<noteq> CHR ''-'' \<and> c \<noteq> CHR ''+'' \<and> c \<noteq> CHR ''I''"
  by (intro conjI; erule dec_digit_neq; simp)

lemma digit_non_decimal_radix: "is_dec_digit c \<Longrightarrow> non_decimal_radix c = None"
proof -
  assume "is_dec_digit c"
  then have b: "48 \<le> (of_char c :: nat) \<and> (of_char c :: nat) \<le> 57" by (rule dec_digit_code)
  have "c \<notin> {CHR ''x'', CHR ''X'', CHR ''o'', CHR ''O'', CHR ''b'', CHR ''B''}"
  proof
    assume "c \<in> {CHR ''x'', CHR ''X'', CHR ''o'', CHR ''O'', CHR ''b'', CHR ''B''}"
    then have "(of_char c :: nat) \<in> {120, 88, 111, 79, 98, 66}" by auto
    with b show False by auto
  qed
  then show ?thesis by (simp add: non_decimal_radix_def)
qed

lemma parse_unsigned_digits:
  assumes "ds \<noteq> []" and "\<forall>c \<in> set ds. is_dec_digit c"
  shows "parse_unsigned_decimal ds = Some (Fin (of_nat (digits_value 10 ds)))"
proof -
  have ne: "ds \<noteq> ''Infinity''"
  proof
    assume "ds = ''Infinity''"
    with assms(2) have "is_dec_digit (CHR ''I'')" by simp
    then show False using digit_not_special by blast
  qed
  have tw: "takeWhile is_dec_digit ds = ds" using assms(2) by (rule takeWhile_all)
  have dw: "dropWhile is_dec_digit ds = []" using assms(2) by (rule dropWhile_all)
  show ?thesis
    unfolding parse_unsigned_decimal_def using ne assms(1)
    by (simp only: tw dw Let_def if_False if_not_P) (simp add: parse_exponent_def pow10_int_def)
qed

lemma string_to_number_digits:
  assumes "ds \<noteq> []" and "\<forall>c \<in> set ds. is_dec_digit c"
  shows "js_string_to_number ds = Fin (of_nat (digits_value 10 ds))"
proof -
  have trim: "js_trim ds = ds"
    using assms(2) dec_digit_not_ws by (blast intro: js_trim_id)
  show ?thesis
  proof (cases ds)
    case Nil
    with assms show ?thesis by simp
  next
    case (Cons c0 rest)
    show ?thesis
    proof (cases rest)
      case Nil
      with Cons assms trim show ?thesis
        by (simp add: js_string_to_number_def parse_unsigned_digits or_nan_def)
    next
      case (Cons c1 rest')
      with \<open>ds = c0 # rest\<close> assms have "non_decimal_radix c1 = None"
        and "c0 \<noteq> CHR ''+''" and "c0 \<noteq> CHR ''-''"
        using digit_not_special digit_non_decimal_radix by simp_all
      with Cons \<open>ds = c0 # rest\<close> assms trim show ?thesis
        by (simp add: js_string_to_number_def parse_unsigned_digits or_nan_def)
    qed
  qed
qed

lemma string_to_number_neg_digits:
  assumes "ds \<noteq> []" and "\<forall>c \<in> set ds. is_dec_digit c"
  shows "js_string_to_number (CHR ''-'' # ds) = Fin (- of_nat (digits_value 10 ds))"
proof -
  have trim: "js_trim (CHR ''-'' # ds) = CHR ''-'' # ds"
    using assms(2) dec_digit_not_ws by (intro js_trim_id) (auto simp: is_js_ws_def)
  obtain c1 rest where ds: "ds = c1 # rest"
    using assms(1) by (cases ds) auto
  with trim assms show ?thesis
    by (simp add: js_string_to_number_def parse_unsigned_digits or_nan_def)
qed

lemma js_int_to_string_short:
  "\<bar>k\<bar> < 10 ^ 21 \<Longrightarrow>
   js_int_to_string k = (if k < 0 then CHR ''-'' # nat_to_dec (nat \<bar>k\<bar>) else nat_to_dec (nat \<bar>k\<bar>))"
proof -
  assume "\<bar>k\<bar> < 10 ^ 21"
  then have "nat \<bar>k\<bar> < 10 ^ 21" by (simp add: nat_less_iff)
  then have "length (nat_to_dec (nat \<bar>k\<bar>)) \<le> 21" by (simp add: nat_to_dec_length)
  then show ?thesis by (simp add: js_int_to_string_def Let_def)
qed

text \<open>Printing an integer of fewer than 22 digits with \<open>Number::toString\<close> and
  reading it back with \<open>Number(string)\<close> gives the integer back.\<close>

lemma js_number_of_int_string:
  assumes "\<bar>k\<bar> < 10 ^ 21"
  shows "js_string_to_number (js_int_to_string k) = Fin (of_int k)"
proof (cases "k < 0")
  case True
  have s: "js_int_to_string k = CHR ''-'' # nat_to_dec (nat \<bar>k\<bar>)"
    using js_int_to_string_short [OF assms] True by simp
  have "js_string_to_number (CHR ''-'' # nat_to_dec (nat \<bar>k\<bar>)) = Fin (- of_nat (nat \<bar>k\<bar>))"
    using string_to_number_neg_digits [OF nat_to_dec_ne nat_to_dec_digits] by simp
  with s True show ?thesis by simp
next
  case False
  have s: "js_int_to_string k = nat_to_dec (nat \<bar>k\<bar>)"
    using js_int_to_string_short [OF assms] False by simp
  have "js_string_to_number (nat_to_dec (nat \<bar>k\<bar>)) = Fin (of_nat (nat \<bar>k\<bar>))"
    using string_to_number_digits [OF nat_to_dec_ne nat_to_dec_digits] by simp
  with s False show ?thesis by simp
qed

text \<open>\<open>parseInt(String(k), 10)\<close> gives back every integer of fewer than 22 digits.\<close>

lemma js_parse_int_of_int_string:
  assumes "\<bar>k\<bar> < 10 ^ 21"
  shows "js_parse_int (js_int_to_string k) 10 = Fin (of_int k)"
proof -
  let ?ds = "nat_to_dec (nat \<bar>k\<bar>)"
  have dig: "\<forall>c \<in> set ?ds. is_radix_digit 10 c"
    using nat_to_dec_digits by (simp add: is_dec_digit_def)
  have nows: "\<forall>c \<in> set ?ds. \<not> is_js_ws c"
    using nat_to_dec_digits dec_digit_not_ws by blast
  obtain c1 rest where ds: "?ds = c1 # rest"
    by (cases ?ds) auto
  have c1: "c1 \<noteq> CHR ''-'' \<and> c1 \<noteq> CHR ''+''"
    using nat_to_dec_digits [of "nat \<bar>k\<bar>"] ds digit_not_special by auto
  have dv: "digits_value 10 (c1 # rest) = nat \<bar>k\<bar>"
    using ds digits_value_nat_to_dec by metis
  show ?thesis
  proof (cases "k < 0")
    case True
    have "js_trim_start (CHR ''-'' # ?ds) = CHR ''-'' # ?ds"
      using nows by (intro js_trim_start_id) (auto simp: is_js_ws_def)
    with True assms dig show ?thesis
      by (simp add: js_int_to_string_short js_parse_int_def takeWhile_all)
  next
    case False
    have "js_trim_start ?ds = ?ds" using nows by (rule js_trim_start_id)
    with False assms dig ds c1 dv show ?thesis
      by (simp add: js_int_to_string_short js_parse_int_def takeWhile_all)
  qed
qed

lemma js_str_or_int_string:
  "\<bar>k\<bar> < 10 ^ 21 \<Longrightarrow> js_str_or (Some (js_int_to_string k)) d = js_int_to_string k"
  using nat_to_dec_ne [of "nat \<bar>k\<bar>"] by (simp add: js_str_or_def js_int_to_string_short)

lemma js_slice_prefix [simp]: "0 \<le> k \<Longrightarrow> js_slice s 0 k = take (nat k) s"
  by (simp add: js_slice_def js_rel_index_def min_def)

lemma js_parse_int_no_hex:
  assumes "take 2 (case js_trim_start u of c # r \<Rightarrow> if c = CHR ''+'' \<or> c = CHR ''-'' then r else js_trim_start u
                   | [] \<Rightarrow> js_trim_start u) \<notin> {''0x'', ''0X''}"
  shows "js_parse_int u 0 = js_parse_int u 10"
  using assms by (simp add: js_parse_int_def Let_def)

lemma take2_no_x:
  assumes "CHR ''x'' \<notin> set u" and "CHR ''X'' \<notin> set u"
  shows "take 2 (case js_trim_start u of c # r \<Rightarrow> if c = CHR ''+'' \<or> c = CHR ''-'' then r else js_trim_start u
                 | [] \<Rightarrow> js_trim_start u) \<notin> {''0x'', ''0X''}"
proof -
  let ?s1 = "case js_trim_start u of c # r \<Rightarrow> if c = CHR ''+'' \<or> c = CHR ''-'' then r else js_trim_start u | [] \<Rightarrow> js_trim_start u"
  have "set ?s1 \<subseteq> set (js_trim_start u)" by (auto split: list.split)
  also have "\<dots> \<subseteq> set u" by (simp add: js_trim_start_def set_dropWhileD subsetI)
  finally have "set (take 2 ?s1) \<subseteq> set u" using set_take_subset by fast
  then show ?thesis using assms by auto
qed

lemma js_parse_int_hex:
  assumes "ds \<noteq> []" and "\<forall>c \<in> set ds. is_radix_digit 16 c"
  shows "js_parse_int (''0x'' @ ds) 10 = Fin 0 \<and> js_parse_int (''0x'' @ ds) 0 = Fin (of_nat (digits_value 16 ds))"
proof -
  have ws: "js_trim_start (''0x'' @ ds) = ''0x'' @ ds" by (simp add: js_trim_start_def is_js_ws_def)
  have d0: "is_radix_digit 10 (CHR ''0'')" and dx: "\<not> is_radix_digit 10 (CHR ''x'')"
    by (simp_all add: is_radix_digit_def digit_value_def)
  have v0: "digits_value 10 ''0'' = 0" by (simp add: digits_value_def digit_value_def)
  have tw: "takeWhile (is_radix_digit 16) ds = ds" using assms(2) by (rule takeWhile_all)
  show ?thesis using assms(1) ws d0 dx v0 by (simp add: js_parse_int_def Let_def tw)
qed

end
