(* ===== verification/Intersection_Observer.thy ===== *)
theory Intersection_Observer
  imports Prelude
begin

text \<open>
  The browser's IntersectionObserver, the environment that drives the three
  view-triggered features of the script (skill bars, stat counters, lazy reveal).
  It is not code of the repository: it is modelled after the W3C Intersection
  Observer specification, at the level the script depends on.  An observer keeps,
  per observed target, the threshold index and the intersecting flag of its last
  update, and a queue of entries not yet delivered.  An update of a target whose
  threshold index or intersecting flag changed queues an entry; delivery hands the
  whole queue to the callback as one batch; \<open>unobserve\<close> forgets the target and
  drops its queued entries, but cannot touch a batch already delivered.
\<close>

record io_entry =
  ent_target :: elem
  ent_intersecting :: bool
  ent_ratio :: rat

record io_obs =
  io_thresholds :: "rat list"
  io_targets :: "elem \<Rightarrow> (int \<times> bool) option"
  io_queue :: "io_entry list"

definition io_new :: "rat list \<Rightarrow> io_obs" where
  "io_new ths = \<lparr>io_thresholds = ths, io_targets = Map.empty, io_queue = []\<rparr>"

text \<open>\<open>observe(t)\<close> on a target already observed does nothing; a new target starts
  with threshold index -1, so that its first update always queues an entry.\<close>

definition io_observe :: "elem \<Rightarrow> io_obs \<Rightarrow> io_obs" where
  "io_observe t ob =
     (if io_targets ob t = None then ob\<lparr>io_targets := (io_targets ob)(t \<mapsto> (-1, False))\<rparr> else ob)"

text \<open>\<open>unobserve(t)\<close> removes the target.  The W3C \<open>unobserve\<close> leaves entries
  already queued for it; dropping them here changes nothing in the models of
  src/script.js, which call \<open>unobserve\<close> only from a callback, after the
  delivery has emptied the queue.\<close>

definition io_unobserve :: "elem \<Rightarrow> io_obs \<Rightarrow> io_obs" where
  "io_unobserve t ob =
     ob\<lparr>io_targets := (io_targets ob)(t := None),
       io_queue := filter (\<lambda>e. ent_target e \<noteq> t) (io_queue ob)\<rparr>"

text \<open>The index of the first threshold above the ratio (thresholds ascending).\<close>

definition threshold_index :: "rat list \<Rightarrow> rat \<Rightarrow> int" where
  "threshold_index ths r = int (length (takeWhile (\<lambda>th. th \<le> r) ths))"

definition io_update :: "elem \<Rightarrow> rat \<Rightarrow> bool \<Rightarrow> io_obs \<Rightarrow> io_obs" where
  "io_update t r isect ob =
     (case io_targets ob t of
        None \<Rightarrow> ob
      | Some (prev_idx, prev_isect) \<Rightarrow>
          (let idx = threshold_index (io_thresholds ob) r in
           if idx \<noteq> prev_idx \<or> isect \<noteq> prev_isect then
             ob\<lparr>io_targets := (io_targets ob)(t \<mapsto> (idx, isect)),
               io_queue := io_queue ob @ [\<lparr>ent_target = t, ent_intersecting = isect, ent_ratio = r\<rparr>]\<rparr>
           else ob))"

definition io_take :: "io_obs \<Rightarrow> io_entry list \<times> io_obs" where
  "io_take ob = (io_queue ob, ob\<lparr>io_queue := []\<rparr>)"

text \<open>An update from the browser is well formed when the ratio is a fraction and a
  target that does not intersect has ratio 0.\<close>

definition io_update_ok :: "rat \<Rightarrow> bool \<Rightarrow> bool" where
  "io_update_ok r isect = (0 \<le> r \<and> r \<le> 1 \<and> (isect \<or> r = 0))"

text \<open>\<open>t\<close> is among the observer's targets.\<close>

definition io_observing :: "io_obs \<Rightarrow> elem \<Rightarrow> bool" where
  "io_observing ob t = (case io_targets ob t of None \<Rightarrow> False | Some _ \<Rightarrow> True)"

text \<open>Every queued entry belongs to an observed target: the invariant the
  observer keeps by construction.\<close>

definition io_wf :: "io_obs \<Rightarrow> bool" where
  "io_wf ob = (\<forall>e \<in> set (io_queue ob). io_targets ob (ent_target e) \<noteq> None)"

lemma io_wf_new [simp]: "io_wf (io_new ths)"
  by (simp add: io_wf_def io_new_def)

lemma io_wf_observe: "io_wf ob \<Longrightarrow> io_wf (io_observe t ob)"
  by (auto simp: io_wf_def io_observe_def)

lemma io_wf_unobserve: "io_wf ob \<Longrightarrow> io_wf (io_unobserve t ob)"
  by (auto simp: io_wf_def io_unobserve_def)

lemma io_wf_update: "io_wf ob \<Longrightarrow> io_wf (io_update t r i ob)"
  by (auto simp: io_wf_def io_update_def Let_def split: option.splits)

lemma io_wf_take: "io_wf ob \<Longrightarrow> io_wf (snd (io_take ob))"
  by (simp add: io_wf_def io_take_def)

lemmas io_wf_ops = io_wf_observe io_wf_unobserve io_wf_update io_wf_take

lemma io_targets_update [simp]: "io_targets (io_update t r i ob) t' = None \<longleftrightarrow> io_targets ob t' = None"
  by (auto simp: io_update_def Let_def split: option.splits)

lemma io_targets_take [simp]: "io_targets (snd (io_take ob)) = io_targets ob"
  by (simp add: io_take_def)

lemma io_observing_observe [simp]: "io_observing (io_observe t ob) t"
  by (simp add: io_observing_def io_observe_def split: option.splits)

lemma io_observing_iff: "io_observing ob t = (io_targets ob t \<noteq> None)"
  by (simp add: io_observing_def split: option.split)

lemma io_observing_update [simp]: "io_observing (io_update t r i ob) t' = io_observing ob t'"
  by (simp only: io_observing_iff io_targets_update)

lemma io_observing_take [simp]: "io_observing (snd (io_take ob)) t = io_observing ob t"
  by (simp add: io_observing_def)

lemma io_observing_keep: "io_observing ob t' \<Longrightarrow> io_observing (io_observe t ob) t'"
  by (simp add: io_observing_def io_observe_def split: option.splits)

lemma io_queue_fst_take [simp]: "fst (io_take ob) = io_queue ob"
  by (simp add: io_take_def)

lemma io_queue_take [simp]: "io_queue (snd (io_take ob)) = []"
  by (simp add: io_take_def)

lemma io_targets_unobserve [simp]: "io_targets (io_unobserve t ob) = (io_targets ob)(t := None)"
  by (simp add: io_unobserve_def)

lemma io_thresholds_ops [simp]:
  "io_thresholds (io_observe t ob) = io_thresholds ob"
  "io_thresholds (io_unobserve t ob) = io_thresholds ob"
  "io_thresholds (io_update t r i ob) = io_thresholds ob"
  "io_thresholds (snd (io_take ob)) = io_thresholds ob"
  by (auto simp: io_observe_def io_unobserve_def io_update_def io_take_def Let_def
      split: option.splits)

text \<open>A queued entry of a target exists only while the target is observed.\<close>

lemma io_queue_unobserve: "e \<in> set (io_queue (io_unobserve t ob)) \<Longrightarrow> ent_target e \<noteq> t"
  by (simp add: io_unobserve_def)

end
