(* ===== verification/Counters.thy ===== *)
theory Counters
  imports JS_String Intersection_Observer
begin

text \<open>
  The stat counters and the reveal-on-scroll observer (src/script.js, lines 28-34
  and 108-152).  On the window's \<open>load\<close> event the preloader is hidden,
  \<open>initCounters\<close> starts a count-up on the \<open>h3\<close> of every \<open>.stat-item\<close>, and
  \<open>revealOnLoad\<close> observes every \<open>.fade-in\<close> element with threshold 0.15: an
  intersecting one gets the class \<open>visible\<close>, and if it is a \<open>.stat-item\<close> whose
  \<open>h3\<close> has no \<open>data-animated\<close> yet, its count-up is started (again) and the
  attribute set.  \<open>animateValue\<close> counts from \<open>start\<close> to \<open>end\<close> linearly over
  \<open>duration\<close> ms, writing \<open>Math.floor\<close> of the value each frame, with a \<open>%\<close>
  suffix when \<open>end >= 100\<close> and the element has \<open>data-percent="true"\<close>.

  \<open>counters_dom\<close> is the page structure the handlers read; \<open>counters_state\<close>
  what they write.  \<open>ct_started\<close> (every \<open>animateValue\<close> call) and
  \<open>ct_revealed\<close> (the calls made by the observer) are instrumentation.
\<close>

record stat_item =
  si_elem :: elem
  si_target :: "string option"
  si_display :: "elem option"

record counters_dom =
  cd_preloader :: "elem option"
  cd_stats :: "stat_item list"
  cd_fades :: "elem list"
  cd_percent :: "elem \<Rightarrow> string option"
  cd_animated0 :: "elem \<Rightarrow> string option"

text \<open>The \<open>step\<close> closure of one \<open>animateValue\<close> call: element, start, end,
  duration, and the closure's variable \<open>startTime\<close> (\<open>None\<close> is \<open>null\<close>).\<close>

datatype value_task = Value_Step elem jsnum jsnum jsnum "ms option"

record counters_state =
  ct_loaded :: bool
  ct_hidden :: "elem set"
  ct_visible :: "elem set"
  ct_text :: "elem \<Rightarrow> string option"
  ct_animated :: "elem \<Rightarrow> string option"
  ct_obs :: "io_obs option"
  ct_raf :: "value_task list"
  ct_now :: ms
  ct_started :: "elem list"
  ct_revealed :: "elem list"

definition counters_start :: "counters_dom \<Rightarrow> ms \<Rightarrow> counters_state" where
  "counters_start pg t0 =
     \<lparr>ct_loaded = False, ct_hidden = {}, ct_visible = {}, ct_text = Map.empty,
      ct_animated = cd_animated0 pg, ct_obs = None, ct_raf = [], ct_now = t0,
      ct_started = [], ct_revealed = []\<rparr>"

subsection \<open>animateValue\<close>

text \<open>\<open>animateValue(el, start, end, duration)\<close> (lines 111-121): a fresh
  \<open>startTime = null\<close> and the first frame request.\<close>

definition animateValue :: "elem \<Rightarrow> jsnum \<Rightarrow> jsnum \<Rightarrow> jsnum \<Rightarrow> counters_state \<Rightarrow> counters_state" where
  "animateValue el start end duration s =
     s\<lparr>ct_raf := ct_raf s @ [Value_Step el start end duration None],
       ct_started := ct_started s @ [el]\<rparr>"

text \<open>\<open>!startTime\<close> holds for \<open>null\<close> and for 0.\<close>

definition start_falsy :: "ms option \<Rightarrow> bool" where
  "start_falsy st = (st = None \<or> st = Some 0)"

text \<open>The \<open>step\<close> closure (lines 113-119) run at a frame with time stamp \<open>timestamp\<close>.\<close>

definition value_step ::
  "counters_dom \<Rightarrow> elem \<Rightarrow> jsnum \<Rightarrow> jsnum \<Rightarrow> jsnum \<Rightarrow> ms option \<Rightarrow> ms \<Rightarrow> counters_state \<Rightarrow> counters_state" where
  "value_step pg el start end duration st0 timestamp s =
     (let startTime = (if start_falsy st0 then timestamp else the st0);
          progress = js_min (js_div (js_sub (Fin timestamp) (Fin startTime)) duration) (Fin 1);
          value = js_floor (js_add (js_mul progress (js_sub end start)) start);
          shown = js_integral_to_string value @
                  (if js_le (Fin 100) end \<and> cd_percent pg el = Some ''true'' then ''%'' else []);
          s' = s\<lparr>ct_text := (ct_text s)(el \<mapsto> shown)\<rparr>
      in if js_less progress (Fin 1)
         then s'\<lparr>ct_raf := ct_raf s' @ [Value_Step el start end duration (Some startTime)]\<rparr>
         else s')"

fun run_value_task :: "counters_dom \<Rightarrow> ms \<Rightarrow> counters_state \<Rightarrow> value_task \<Rightarrow> counters_state" where
  "run_value_task pg t s (Value_Step el a b d st) = value_step pg el a b d st t s"

definition counters_frame :: "counters_dom \<Rightarrow> ms \<Rightarrow> counters_state \<Rightarrow> counters_state" where
  "counters_frame pg t s = foldl (run_value_task pg t) (s\<lparr>ct_raf := [], ct_now := t\<rparr>) (ct_raf s)"

subsection \<open>initCounters and revealOnLoad\<close>

text \<open>\<open>initCounters\<close> (lines 122-130).\<close>

definition initCounters :: "counters_dom \<Rightarrow> counters_state \<Rightarrow> counters_state" where
  "initCounters pg s =
     foldl (\<lambda>s item.
              (let target = js_parse_int (js_str_or (si_target item) ''0'') 10 in
               case si_display item of
                 Some display \<Rightarrow> animateValue display (Fin 0) target (Fin 1600) s
               | None \<Rightarrow> s))
       s (cd_stats pg)"

text \<open>\<open>e.target.matches('.stat-item')\<close>: the stat item whose element the target is.\<close>

definition find_stat :: "counters_dom \<Rightarrow> elem \<Rightarrow> stat_item option" where
  "find_stat pg e = find (\<lambda>i. si_elem i = e) (cd_stats pg)"

text \<open>The body of \<open>entries.forEach\<close> in \<open>revealOnLoad\<close> (lines 137-149).
  \<open>parseInt(e.target.dataset.target||0)\<close> has no radix; \<open>||0\<close> yields the
  number 0, whose string is \<open>'0'\<close>.\<close>

definition reveal_on_entry :: "counters_dom \<Rightarrow> counters_state \<Rightarrow> io_entry \<Rightarrow> counters_state" where
  "reveal_on_entry pg s e =
     (if \<not> ent_intersecting e then s
      else
        (let t = ent_target e;
             s1 = s\<lparr>ct_visible := insert t (ct_visible s)\<rparr>
         in case find_stat pg t of
              None \<Rightarrow> s1
            | Some item \<Rightarrow>
                (case si_display item of
                   None \<Rightarrow> s1
                 | Some h \<Rightarrow>
                     if js_str_or (ct_animated s1 h) [] = [] then
                       (let s2 = animateValue h (Fin 0) (js_parse_int (js_str_or (si_target item) ''0'') 0) (Fin 1600) s1
                        in s2\<lparr>ct_animated := (ct_animated s2)(h \<mapsto> ''1''),
                              ct_revealed := ct_revealed s2 @ [h]\<rparr>)
                     else s1)))"

definition reveal_callback :: "counters_dom \<Rightarrow> io_entry list \<Rightarrow> counters_state \<Rightarrow> counters_state" where
  "reveal_callback pg es s = foldl (reveal_on_entry pg) s es"

text \<open>\<open>revealOnLoad\<close> (lines 135-152): the observer and its targets.\<close>

definition revealOnLoad :: "counters_dom \<Rightarrow> counters_state \<Rightarrow> counters_state" where
  "revealOnLoad pg s =
     s\<lparr>ct_obs := Some (foldl (\<lambda>ob el. io_observe el ob) (io_new [15 / 100]) (cd_fades pg))\<rparr>"

text \<open>The \<open>load\<close> handler (lines 28-34).\<close>

definition on_load :: "counters_dom \<Rightarrow> counters_state \<Rightarrow> counters_state" where
  "on_load pg s =
     (let s1 = (case cd_preloader pg of Some pre \<Rightarrow> s\<lparr>ct_hidden := insert pre (ct_hidden s)\<rparr> | None \<Rightarrow> s)
      in revealOnLoad pg (initCounters pg s1))"

subsection \<open>The component in its environment\<close>

datatype ct_event = Ct_Load | Ct_Update elem rat bool | Ct_Deliver | Ct_Frame ms | Ct_Clock ms

fun counters_step :: "counters_dom \<Rightarrow> counters_state \<Rightarrow> ct_event \<Rightarrow> counters_state" where
  "counters_step pg s Ct_Load = on_load pg (s\<lparr>ct_loaded := True\<rparr>)"
| "counters_step pg s (Ct_Update t r i) = s\<lparr>ct_obs := map_option (io_update t r i) (ct_obs s)\<rparr>"
| "counters_step pg s Ct_Deliver =
     (case ct_obs s of
        None \<Rightarrow> s
      | Some ob \<Rightarrow> reveal_callback pg (fst (io_take ob)) (s\<lparr>ct_obs := Some (snd (io_take ob))\<rparr>))"
| "counters_step pg s (Ct_Frame t) = counters_frame pg t s"
| "counters_step pg s (Ct_Clock t) = s\<lparr>ct_now := t\<rparr>"

fun ct_event_ok :: "counters_state \<Rightarrow> ct_event \<Rightarrow> bool" where
  "ct_event_ok s Ct_Load = (\<not> ct_loaded s)"
| "ct_event_ok s (Ct_Update t r i) = io_update_ok r i"
| "ct_event_ok s Ct_Deliver = True"
| "ct_event_ok s (Ct_Frame t) = (ct_now s \<le> t)"
| "ct_event_ok s (Ct_Clock t) = (ct_now s \<le> t)"

definition counters_run :: "counters_dom \<Rightarrow> counters_state \<Rightarrow> ct_event list \<Rightarrow> counters_state" where
  "counters_run pg s es = foldl (counters_step pg) s es"

fun ct_run_ok :: "counters_dom \<Rightarrow> counters_state \<Rightarrow> ct_event list \<Rightarrow> bool" where
  "ct_run_ok pg s [] = True"
| "ct_run_ok pg s (e # es) = (ct_event_ok s e \<and> ct_run_ok pg (counters_step pg s e) es)"

inductive ct_reach :: "counters_dom \<Rightarrow> counters_state \<Rightarrow> bool" for pg where
  start: "ct_reach pg (counters_start pg t0)"
| step: "ct_reach pg s \<Longrightarrow> ct_event_ok s e \<Longrightarrow> ct_reach pg (counters_step pg s e)"

subsection \<open>Invariant and example page\<close>

text \<open>Every display the observer has animated carries \<open>data-animated\<close>, and
  none was animated twice by it.\<close>

definition ct_reveal_inv :: "counters_state \<Rightarrow> bool" where
  "ct_reveal_inv s =
     (distinct (ct_revealed s) \<and> (\<forall>h \<in> set (ct_revealed s). ct_animated s h = Some ''1''))"

text \<open>\<open>el\<close> is among the targets of the reveal observer.\<close>

definition ct_observed :: "counters_state \<Rightarrow> elem \<Rightarrow> bool" where
  "ct_observed s el = (case ct_obs s of Some ob \<Rightarrow> io_observing ob el | None \<Rightarrow> False)"

text \<open>After the load event every fade-in element stays observed.\<close>

definition ct_observe_inv :: "counters_dom \<Rightarrow> counters_state \<Rightarrow> bool" where
  "ct_observe_inv pg s = (ct_loaded s \<longrightarrow> (\<forall>el \<in> set (cd_fades pg). ct_observed s el))"

text \<open>A page with one stat item 1 that is also \<open>.fade-in\<close>, its \<open>h3\<close> 2 with
  \<open>data-percent="true"\<close>, and the given \<open>data-target\<close>.\<close>

definition ct_page :: "string \<Rightarrow> counters_dom" where
  "ct_page tgt =
     \<lparr>cd_preloader = Some 9, cd_stats = [\<lparr>si_elem = 1, si_target = Some tgt, si_display = Some 2\<rparr>],
      cd_fades = [1], cd_percent = (\<lambda>e. if e = 2 then Some ''true'' else None),
      cd_animated0 = Map.empty\<rparr>"

definition ct_run :: "string \<Rightarrow> ct_event list \<Rightarrow> counters_state" where
  "ct_run tgt es = counters_run (ct_page tgt) (counters_start (ct_page tgt) 0) es"

subsection \<open>Evaluation of a frame step\<close>

lemma value_step_Fin:
  assumes "st \<noteq> 0" and "0 < d"
  shows "value_step pg el (Fin a) (Fin b) (Fin d) (Some st) t s =
    (let p = min ((t - st) / d) 1;
         s' = s\<lparr>ct_text := (ct_text s)(el \<mapsto> js_int_to_string \<lfloor>p * (b - a) + a\<rfloor> @
                   (if 100 \<le> b \<and> cd_percent pg el = Some ''true'' then ''%'' else []))\<rparr>
     in if p < 1 then s'\<lparr>ct_raf := ct_raf s' @ [Value_Step el (Fin a) (Fin b) (Fin d) (Some st)]\<rparr> else s')"
  using assms by (simp add: value_step_def start_falsy_def js_sub_def Let_def)

lemma value_step_keeps [simp]:
  "ct_revealed (value_step pg el a b d st t s) = ct_revealed s"
  "ct_animated (value_step pg el a b d st t s) = ct_animated s"
  "ct_obs (value_step pg el a b d st t s) = ct_obs s"
  "ct_loaded (value_step pg el a b d st t s) = ct_loaded s"
  by (simp_all add: value_step_def Let_def)

lemma animateValue_keeps [simp]:
  "ct_revealed (animateValue el a b d s) = ct_revealed s"
  "ct_animated (animateValue el a b d s) = ct_animated s"
  "ct_obs (animateValue el a b d s) = ct_obs s"
  "ct_loaded (animateValue el a b d s) = ct_loaded s"
  "ct_raf (animateValue el a b d s) = ct_raf s @ [Value_Step el a b d None]"
  by (simp_all add: animateValue_def)

lemma run_value_task_keeps [simp]:
  "ct_revealed (run_value_task pg t s k) = ct_revealed s"
  "ct_animated (run_value_task pg t s k) = ct_animated s"
  "ct_obs (run_value_task pg t s k) = ct_obs s"
  "ct_loaded (run_value_task pg t s k) = ct_loaded s"
  by (cases k, simp)+

lemma counters_frame_keeps [simp]:
  "ct_revealed (counters_frame pg t s) = ct_revealed s"
  "ct_animated (counters_frame pg t s) = ct_animated s"
  "ct_obs (counters_frame pg t s) = ct_obs s"
  "ct_loaded (counters_frame pg t s) = ct_loaded s"
  by (simp_all add: counters_frame_def foldl_keep_eq)

lemma initCounters_keeps [simp]:
  "ct_revealed (initCounters pg s) = ct_revealed s"
  "ct_animated (initCounters pg s) = ct_animated s"
  unfolding initCounters_def
  by (rule foldl_keep_eq, simp add: Let_def split: option.split)+

lemma ct_reveal_inv_cong:
  "ct_reveal_inv s \<Longrightarrow> ct_revealed s' = ct_revealed s \<Longrightarrow> ct_animated s' = ct_animated s \<Longrightarrow> ct_reveal_inv s'"
  by (simp add: ct_reveal_inv_def)

lemma reveal_on_entry_inv:
  assumes "ct_reveal_inv s"
  shows "ct_reveal_inv (reveal_on_entry pg s e)"
proof -
  have fresh: "h \<notin> set (ct_revealed s)" if "js_str_or (ct_animated s h) [] = []" for h
    using assms that by (auto simp: ct_reveal_inv_def js_str_or_def)
  show ?thesis
    using assms fresh
    by (auto simp: reveal_on_entry_def ct_reveal_inv_def Let_def split: option.split)
qed

lemma on_load_keeps [simp]:
  "ct_revealed (on_load pg s) = ct_revealed s"
  "ct_animated (on_load pg s) = ct_animated s"
  by (simp_all add: on_load_def revealOnLoad_def Let_def split: option.split)

lemma counters_step_inv:
  assumes inv: "ct_reveal_inv s"
  shows "ct_reveal_inv (counters_step pg s e)"
proof (cases "e = Ct_Deliver")
  case True
  show ?thesis
  proof (cases "ct_obs s")
    case (Some ob)
    have "ct_reveal_inv (foldl (reveal_on_entry pg) (s\<lparr>ct_obs := Some (snd (io_take ob))\<rparr>) (fst (io_take ob)))"
      by (rule foldl_keep [where P = ct_reveal_inv]) (use inv ct_reveal_inv_cong in \<open>simp_all add: reveal_on_entry_inv\<close>)
    with True Some show ?thesis by (simp add: reveal_callback_def)
  qed (use True inv in simp)
next
  case False
  then have "ct_revealed (counters_step pg s e) = ct_revealed s \<and> ct_animated (counters_step pg s e) = ct_animated s"
    by (cases e) simp_all
  then show ?thesis using inv ct_reveal_inv_cong by blast
qed

lemma ct_reach_inv: "ct_reach pg s \<Longrightarrow> ct_reveal_inv s"
  by (induction rule: ct_reach.induct) (simp add: ct_reveal_inv_def counters_start_def, rule counters_step_inv)

lemma ct_reach_run:
  "ct_reach pg s \<Longrightarrow> ct_run_ok pg s es \<Longrightarrow> ct_reach pg (counters_run pg s es)"
proof (induction es arbitrary: s)
  case Nil
  then show ?case by (simp add: counters_run_def)
next
  case (Cons e es)
  then have "ct_reach pg (counters_step pg s e)" by (simp add: ct_reach.step)
  with Cons show ?case by (simp add: counters_run_def)
qed

lemma reveal_callback_keeps [simp]:
  "ct_obs (reveal_callback pg es s) = ct_obs s"
  "ct_loaded (reveal_callback pg es s) = ct_loaded s"
  unfolding reveal_callback_def
  by (rule foldl_keep_eq, simp add: reveal_on_entry_def Let_def split: option.split)+

lemma revealOnLoad_observed:
  assumes "el \<in> set (cd_fades pg)"
  shows "ct_observed (revealOnLoad pg s) el"
proof -
  have "io_observing (foldl (\<lambda>ob e. io_observe e ob) (io_new [15 / 100]) (cd_fades pg)) el"
    by (rule foldl_establish [where Q = "\<lambda>ob. io_observing ob el", OF assms]) (simp_all add: io_observing_keep)
  then show ?thesis by (simp add: revealOnLoad_def ct_observed_def)
qed

lemma on_load_observed: "el \<in> set (cd_fades pg) \<Longrightarrow> ct_observed (on_load pg s) el"
  unfolding on_load_def Let_def by (rule revealOnLoad_observed)

lemma counters_step_other:
  assumes "e \<noteq> Ct_Load"
  shows "ct_observed (counters_step pg s e) el = ct_observed s el"
    and "ct_loaded (counters_step pg s e) = ct_loaded s"
  using assms by (cases e; simp add: ct_observed_def split: option.split)+

lemma counters_step_observe_inv:
  "ct_observe_inv pg s \<Longrightarrow> ct_observe_inv pg (counters_step pg s e)"
  by (cases "e = Ct_Load") (simp_all add: ct_observe_inv_def on_load_observed counters_step_other)

lemma ct_reach_observe_inv: "ct_reach pg s \<Longrightarrow> ct_observe_inv pg s"
  by (induction rule: ct_reach.induct) (simp add: ct_observe_inv_def counters_start_def, rule counters_step_observe_inv)

lemma initCounters_started:
  "ct_started (initCounters pg s) = ct_started s @ List.map_filter si_display (cd_stats pg)"
proof -
  have "ct_started (foldl (\<lambda>s item. let target = js_parse_int (js_str_or (si_target item) ''0'') 10
                      in case si_display item of Some display \<Rightarrow> animateValue display (Fin 0) target (Fin 1600) s | None \<Rightarrow> s) s xs)
        = ct_started s @ List.map_filter si_display xs" for xs s
    by (induction xs arbitrary: s) (auto simp: map_filter_simps animateValue_def Let_def split: option.split)
  then show ?thesis by (simp add: initCounters_def)
qed

lemma on_load_started: "ct_started (on_load pg s) = ct_started s @ List.map_filter si_display (cd_stats pg)"
  by (simp add: on_load_def revealOnLoad_def initCounters_started Let_def split: option.split)

subsection \<open>Properties of the counters\<close>

text \<open>C15: In every reachable state of the counters component the reveal observer has started the count-up of each stat display at most once: the list of displays it animated has no repetition (the data-animated guard, lines 142-145).\<close>

lemma ct_reach_reveal_once:
  "ct_reach pg s \<Longrightarrow> distinct (ct_revealed s)"
  using ct_reach_inv by (simp add: ct_reveal_inv_def)

lemma ct_reach_reveal_once_witness:
  "distinct (ct_revealed (ct_run ''83'' [Ct_Load, Ct_Update 1 (1/2) True, Ct_Deliver, Ct_Update 1 0 False, Ct_Update 1 (1/2) True, Ct_Deliver]))"
proof -
  have "ct_run_ok (ct_page ''83'') (counters_start (ct_page ''83'') 0) [Ct_Load, Ct_Update 1 (1/2) True, Ct_Deliver, Ct_Update 1 0 False, Ct_Update 1 (1/2) True, Ct_Deliver]"
    by code_simp
  then show ?thesis unfolding ct_run_def
    by (intro ct_reach_reveal_once [where pg = "ct_page ''83''"] ct_reach_run ct_reach.start)
qed

text \<open>C16: A stat item that is also a fade-in element is counted up twice: the load handler's initCounters starts a count-up of every stat display, and without setting data-animated, so when the item first intersects, the reveal observer starts a second count-up of the same display.\<close>

lemma ct_double_animation:
  assumes "find_stat pg (si_elem item) = Some item" and "si_display item = Some h"
    and "js_str_or (ct_animated s h) [] = []" and "ent_intersecting e" and "ent_target e = si_elem item"
  shows "ct_started (reveal_on_entry pg (on_load pg s) e) = ct_started s @ List.map_filter si_display (cd_stats pg) @ [h]
         \<and> h \<in> set (List.map_filter si_display (cd_stats pg))"
proof -
  have "item \<in> set (cd_stats pg)" using assms(1) by (auto simp: find_stat_def find_Some_iff)
  then have "h \<in> set (List.map_filter si_display (cd_stats pg))"
    using assms(2) by (force simp: map_filter_def)
  moreover have "ct_started (reveal_on_entry pg (on_load pg s) e) = ct_started (on_load pg s) @ [h]"
    using assms by (simp add: reveal_on_entry_def animateValue_def Let_def)
  ultimately show ?thesis by (simp add: on_load_started)
qed

lemma ct_double_animation_witness:
  "ct_started (reveal_on_entry (ct_page ''83'') (on_load (ct_page ''83'') (counters_start (ct_page ''83'') 0))
      \<lparr>ent_target = 1, ent_intersecting = True, ent_ratio = 1 / 2\<rparr>) = [2, 2]"
  using ct_double_animation [of "ct_page ''83''" "\<lparr>si_elem = 1, si_target = Some ''83'', si_display = Some 2\<rparr>" 2
      "counters_start (ct_page ''83'') 0" "\<lparr>ent_target = 1, ent_intersecting = True, ent_ratio = 1 / 2\<rparr>"]
  by (simp add: ct_page_def find_stat_def counters_start_def js_str_or_def map_filter_simps)

text \<open>C17: A frame at or after startTime + duration (startTime set and non-zero, duration positive) writes the target value exactly, as its decimal string, with a percent sign precisely when the target is at least 100 and data-percent is "true", and requests no further frame.\<close>

lemma value_step_final:
  assumes "st \<noteq> 0" and "0 < d" and "st + d \<le> t"
  shows "ct_text (value_step pg el (Fin 0) (js_int k) (Fin d) (Some st) t s) el =
           Some (js_int_to_string k @ (if 100 \<le> k \<and> cd_percent pg el = Some ''true'' then ''%'' else []))
         \<and> ct_raf (value_step pg el (Fin 0) (js_int k) (Fin d) (Some st) t s) = ct_raf s"
proof -
  have "min ((t - st) / d) 1 = 1" using assms by (simp add: le_divide_eq)
  then show ?thesis using assms by (simp add: value_step_Fin Let_def)
qed

lemma value_step_final_witness:
  "ct_text (value_step (ct_page ''100'') 2 (Fin 0) (js_int 100) (Fin 1600) (Some 5) 1605 (counters_start (ct_page ''100'') 0)) 2 = Some (js_int_to_string 100 @ ''%'')"
  using value_step_final [of 5 1600 1605 "ct_page ''100''" 2 100 "counters_start (ct_page ''100'') 0"] by (simp add: ct_page_def)

text \<open>C18: A frame strictly before startTime + duration writes an integer between 0 and the (non-negative) target, with the same suffix rule, and requests the next frame with the same startTime.\<close>

lemma value_step_running:
  assumes "st \<noteq> 0" and "0 < d" and "st \<le> t" and "t < st + d" and "0 \<le> k"
  shows "\<exists>v. 0 \<le> v \<and> v \<le> k \<and>
           ct_text (value_step pg el (Fin 0) (js_int k) (Fin d) (Some st) t s) el =
             Some (js_int_to_string v @ (if 100 \<le> k \<and> cd_percent pg el = Some ''true'' then ''%'' else []))
         \<and> ct_raf (value_step pg el (Fin 0) (js_int k) (Fin d) (Some st) t s) =
             ct_raf s @ [Value_Step el (Fin 0) (js_int k) (Fin d) (Some st)]"
proof -
  let ?p = "(t - st) / d"
  have p: "0 \<le> ?p" "?p < 1" using assms by (simp_all add: divide_less_eq)
  then have m: "min ?p 1 = ?p" by simp
  have "0 \<le> \<lfloor>?p * of_int k\<rfloor>" using p assms by simp
  moreover have "\<lfloor>?p * of_int k\<rfloor> \<le> k"
  proof -
    have "?p * of_int k \<le> 1 * of_int k" using p assms by (intro mult_right_mono) simp_all
    then show ?thesis by (simp add: floor_le_iff)
  qed
  ultimately show ?thesis using assms p m
    by (intro exI [of _ "\<lfloor>?p * of_int k\<rfloor>"]) (simp add: value_step_Fin Let_def)
qed

lemma value_step_running_witness:
  "\<exists>v. 0 \<le> v \<and> v \<le> 83 \<and>
     ct_text (value_step (ct_page ''83'') 2 (Fin 0) (js_int 83) (Fin 1600) (Some 5) 805 (counters_start (ct_page ''83'') 0)) 2 =
       Some (js_int_to_string v)
     \<and> ct_raf (value_step (ct_page ''83'') 2 (Fin 0) (js_int 83) (Fin 1600) (Some 5) 805 (counters_start (ct_page ''83'') 0)) =
       [Value_Step 2 (Fin 0) (js_int 83) (Fin 1600) (Some 5)]"
  using value_step_running [of 5 1600 805 83 "ct_page ''83''" 2 "counters_start (ct_page ''83'') 0"] by (simp add: ct_page_def counters_start_def)

text \<open>C19: initCounters schedules, for every stat item with an h3 whose data-target is the decimal string of an integer k, a count-up of that h3 from 0 to k over 1600 ms.\<close>

lemma initCounters_schedules:
  assumes "item \<in> set (cd_stats pg)" and "si_target item = Some (js_int_to_string k)"
    and "si_display item = Some h" and "\<bar>k\<bar> < 10 ^ 21"
  shows "Value_Step h (Fin 0) (js_int k) (Fin 1600) None \<in> set (ct_raf (initCounters pg s))"
proof -
  let ?task = "Value_Step h (Fin 0) (js_int k) (Fin 1600) None"
  let ?f = "\<lambda>s item. let target = js_parse_int (js_str_or (si_target item) ''0'') 10
                      in case si_display item of Some display \<Rightarrow> animateValue display (Fin 0) target (Fin 1600) s | None \<Rightarrow> s"
  have here: "?task \<in> set (ct_raf (?f s' item))" for s'
    using assms(2,3) js_str_or_int_string [OF assms(4)] js_parse_int_of_int_string [OF assms(4)] by simp
  have keep: "?task \<in> set (ct_raf (?f s' y))" if "?task \<in> set (ct_raf s')" for s' y
    using that by (simp add: Let_def split: option.split)
  show ?thesis unfolding initCounters_def
    by (rule foldl_establish [where Q = "\<lambda>s. ?task \<in> set (ct_raf s)" and f = ?f, OF assms(1) here keep])
qed

lemma initCounters_schedules_witness:
  "Value_Step 2 (Fin 0) (js_int 83) (Fin 1600) None \<in> set (ct_raf (initCounters (ct_page (js_int_to_string 83)) (counters_start (ct_page (js_int_to_string 83)) 0)))"
  using initCounters_schedules [of "\<lparr>si_elem = 1, si_target = Some (js_int_to_string 83), si_display = Some 2\<rparr>"
      "ct_page (js_int_to_string 83)" 83 2 "counters_start (ct_page (js_int_to_string 83)) 0"]
  by (simp add: ct_page_def)

text \<open>C20: A running count-up never goes backwards: for frames t1 <= t2 of the same step closure (startTime set and non-zero, positive duration, non-negative target) the integer shown at t2 is at least the one shown at t1, with the same suffix.\<close>

lemma ct_value_monotone:
  assumes "st \<noteq> 0" and "0 < d" and "t1 \<le> t2" and "0 \<le> k"
  shows "\<exists>v1 v2. v1 \<le> v2
     \<and> ct_text (value_step pg el (Fin 0) (js_int k) (Fin d) (Some st) t1 s1) el =
         Some (js_int_to_string v1 @ (if 100 \<le> k \<and> cd_percent pg el = Some ''true'' then ''%'' else []))
     \<and> ct_text (value_step pg el (Fin 0) (js_int k) (Fin d) (Some st) t2 s2) el =
         Some (js_int_to_string v2 @ (if 100 \<le> k \<and> cd_percent pg el = Some ''true'' then ''%'' else []))"
proof -
  have "(t1 - st) / d \<le> (t2 - st) / d" using assms(2,3) by (simp add: divide_right_mono)
  then have "min ((t1 - st) / d) 1 * of_int k \<le> min ((t2 - st) / d) 1 * of_int k"
    using assms(4) by (intro mult_right_mono) auto
  then have "\<lfloor>min ((t1 - st) / d) 1 * of_int k\<rfloor> \<le> \<lfloor>min ((t2 - st) / d) 1 * of_int k\<rfloor>"
    by (rule floor_mono)
  then show ?thesis using assms(1,2)
    by (intro exI [of _ "\<lfloor>min ((t1 - st) / d) 1 * of_int k\<rfloor>"] exI [of _ "\<lfloor>min ((t2 - st) / d) 1 * of_int k\<rfloor>"])
      (simp add: value_step_Fin Let_def)
qed

lemma ct_value_monotone_witness:
  "\<exists>v1 v2. v1 \<le> v2
     \<and> ct_text (value_step (ct_page ''83'') 2 (Fin 0) (js_int 83) (Fin 1600) (Some 5) 400 (counters_start (ct_page ''83'') 0)) 2 =
         Some (js_int_to_string v1 @ (if 100 \<le> (83::int) \<and> cd_percent (ct_page ''83'') 2 = Some ''true'' then ''%'' else []))
     \<and> ct_text (value_step (ct_page ''83'') 2 (Fin 0) (js_int 83) (Fin 1600) (Some 5) 900 (counters_start (ct_page ''83'') 0)) 2 =
         Some (js_int_to_string v2 @ (if 100 \<le> (83::int) \<and> cd_percent (ct_page ''83'') 2 = Some ''true'' then ''%'' else []))"
  by (rule ct_value_monotone) simp_all



text \<open>C22: A frame time stamp of 0 is falsy (line 114), so a step closure whose startTime was set to 0 takes the time of its next frame as a new start: whatever the time, that frame shows 0 again and re-requests a frame with the new startTime, so the count-up restarts.\<close>

lemma ct_zero_timestamp_restart:
  assumes "0 < d"
  shows "ct_text (value_step pg el (Fin 0) (js_int k) (Fin d) (Some 0) t s) el =
           Some (js_int_to_string 0 @ (if 100 \<le> k \<and> cd_percent pg el = Some ''true'' then ''%'' else []))
         \<and> ct_raf (value_step pg el (Fin 0) (js_int k) (Fin d) (Some 0) t s) =
           ct_raf s @ [Value_Step el (Fin 0) (js_int k) (Fin d) (Some t)]"
  using assms by (simp add: value_step_def start_falsy_def js_sub_def Let_def)

lemma ct_zero_timestamp_restart_witness:
  "ct_text (value_step (ct_page ''83'') 2 (Fin 0) (js_int 83) (Fin 1600) (Some 0) 1600 (counters_start (ct_page ''83'') 0)) 2 =
     Some (js_int_to_string 0 @ (if 100 \<le> (83::int) \<and> cd_percent (ct_page ''83'') 2 = Some ''true'' then ''%'' else []))
   \<and> ct_raf (value_step (ct_page ''83'') 2 (Fin 0) (js_int 83) (Fin 1600) (Some 0) 1600 (counters_start (ct_page ''83'') 0)) =
     ct_raf (counters_start (ct_page ''83'') 0) @ [Value_Step 2 (Fin 0) (js_int 83) (Fin 1600) (Some 1600)]"
  by (rule ct_zero_timestamp_restart) simp

text \<open>C23: The reveal observer never stops observing: in every reachable state after the load event each fade-in element is still a target of the observer, unlike the skill observer, which unobserves its container (lines 135-152).\<close>

lemma ct_never_unobserves:
  assumes "ct_reach pg s" and "ct_loaded s" and "el \<in> set (cd_fades pg)"
  shows "\<exists>ob. ct_obs s = Some ob \<and> io_observing ob el"
  using ct_reach_observe_inv [OF assms(1)] assms(2,3)
  by (auto simp: ct_observe_inv_def ct_observed_def split: option.splits)

lemma ct_never_unobserves_witness:
  "\<exists>ob. ct_obs (ct_run ''83'' [Ct_Load, Ct_Update 1 (1/2) True, Ct_Deliver]) = Some ob \<and> io_observing ob 1"
proof -
  have "ct_run_ok (ct_page ''83'') (counters_start (ct_page ''83'') 0) [Ct_Load, Ct_Update 1 (1/2) True, Ct_Deliver]"
    by code_simp
  then have r: "ct_reach (ct_page ''83'') (ct_run ''83'' [Ct_Load, Ct_Update 1 (1/2) True, Ct_Deliver])"
    unfolding ct_run_def by (intro ct_reach_run ct_reach.start)
  have l: "ct_loaded (ct_run ''83'' [Ct_Load, Ct_Update 1 (1/2) True, Ct_Deliver])"
    by code_simp
  show ?thesis
    by (rule ct_never_unobserves [OF r l]) (simp add: ct_page_def)
qed

end
