(* ===== verification/Toast.thy ===== *)
theory Toast
  imports Prelude
begin

text \<open>
  The toast helper \<open>showToast\<close> (src/script.js, lines 13-24), which every
  user-facing handler calls.  A call appends a \<open>div.toast\<close> to
  \<open>#toast-container\<close> and sets two timers: after 20 ms the toast gets the class
  \<open>visible\<close>, after \<open>timeout + 200\<close> ms it is removed.  Without a container the
  call does nothing.

  \<open>toast_state\<close> holds the toasts in the container (in document order), the
  pending timers with their due times, and the log of all messages shown; the
  browser's timer queue is \<open>toast_advance\<close>, which runs every timer due by a
  given time, earliest first and, among timers due at the same time, in the
  order they were set.
\<close>

record toast =
  tt_id :: nat
  tt_text :: string
  tt_visible :: bool

datatype toast_timer = Toast_Show nat | Toast_Remove nat

record toast_state =
  ts_items :: "toast list"
  ts_next :: nat
  ts_timers :: "(ms \<times> toast_timer) list"
  ts_log :: "string list"

definition toast_empty :: toast_state where
  "toast_empty = \<lparr>ts_items = [], ts_next = 0, ts_timers = [], ts_log = []\<rparr>"

text \<open>\<open>showToast(message, timeout=3000)\<close> called at time \<open>now\<close>; \<open>has_container\<close>
  is whether \<open>$('#toast-container')\<close> finds the element.\<close>

definition showToast :: "bool \<Rightarrow> string \<Rightarrow> ms \<Rightarrow> ms \<Rightarrow> toast_state \<Rightarrow> toast_state" where
  "showToast has_container message timeout now s =
     (if \<not> has_container then s
      else
        (let t = ts_next s in
         s\<lparr>ts_items := ts_items s @ [\<lparr>tt_id = t, tt_text = message, tt_visible = False\<rparr>],
           ts_next := t + 1,
           ts_timers := ts_timers s @ [(now + 20, Toast_Show t), (now + (timeout + 200), Toast_Remove t)],
           ts_log := ts_log s @ [message]\<rparr>))"

text \<open>The default \<open>timeout\<close> of 3000 ms.\<close>

abbreviation show_toast :: "bool \<Rightarrow> string \<Rightarrow> ms \<Rightarrow> toast_state \<Rightarrow> toast_state" where
  "show_toast c m now \<equiv> showToast c m 3000 now"

text \<open>The two timer callbacks: \<open>t.classList.add('visible')\<close> (on a toast already
  removed it changes nothing in the document) and \<open>t.remove()\<close>.\<close>

fun toast_fire :: "toast_state \<Rightarrow> toast_timer \<Rightarrow> toast_state" where
  "toast_fire s (Toast_Show t) =
     s\<lparr>ts_items := map (\<lambda>x. if tt_id x = t then x\<lparr>tt_visible := True\<rparr> else x) (ts_items s)\<rparr>"
| "toast_fire s (Toast_Remove t) = s\<lparr>ts_items := filter (\<lambda>x. tt_id x \<noteq> t) (ts_items s)\<rparr>"

definition toast_advance :: "ms \<Rightarrow> toast_state \<Rightarrow> toast_state" where
  "toast_advance now s =
     (let due = sort_key fst (filter (\<lambda>d. fst d \<le> now) (ts_timers s))
      in foldl toast_fire (s\<lparr>ts_timers := filter (\<lambda>d. \<not> fst d \<le> now) (ts_timers s)\<rparr>) (map snd due))"

text \<open>The states the helper goes through: every caller of src/script.js uses the
  default timeout, and the clock only moves forward.\<close>

inductive toast_reach :: "ms \<Rightarrow> toast_state \<Rightarrow> bool" where
  empty: "toast_reach 0 toast_empty"
| call: "toast_reach now s \<Longrightarrow> toast_reach now (show_toast c m now s)"
| advance: "toast_reach now s \<Longrightarrow> now \<le> t \<Longrightarrow> toast_reach t (toast_advance t s)"

text \<open>Every toast in the container has its removal pending, due after the
  current time and at most 3200 ms from it.\<close>

definition toast_pending :: "ms \<Rightarrow> toast_state \<Rightarrow> bool" where
  "toast_pending now s =
     (\<forall>x \<in> set (ts_items s). \<exists>d. (d, Toast_Remove (tt_id x)) \<in> set (ts_timers s) \<and> now < d \<and> d \<le> now + 3200)"

subsection \<open>Timers\<close>

lemma toast_fire_items_subset: "set (map tt_id (ts_items (toast_fire s a))) \<subseteq> set (map tt_id (ts_items s))"
  by (cases a) auto

lemma toast_fire_timers [simp]: "ts_timers (toast_fire s a) = ts_timers s"
  by (cases a) simp_all

lemma foldl_toast_fire_timers [simp]: "ts_timers (foldl toast_fire s as) = ts_timers s"
  by (rule foldl_keep_eq) simp

lemma toast_fire_remove_gone: "\<forall>x \<in> set (ts_items (toast_fire s (Toast_Remove t))). tt_id x \<noteq> t"
  by simp

lemma toast_fire_keeps_gone:
  "\<forall>x \<in> set (ts_items s). tt_id x \<noteq> t \<Longrightarrow> \<forall>x \<in> set (ts_items (toast_fire s a)). tt_id x \<noteq> t"
  by (cases a) auto

lemma toast_advance_removes:
  assumes "(d, Toast_Remove t) \<in> set (ts_timers s)" and "d \<le> now"
  shows "\<forall>x \<in> set (ts_items (toast_advance now s)). tt_id x \<noteq> t"
proof -
  have "Toast_Remove t \<in> set (map snd (sort_key fst (filter (\<lambda>d. fst d \<le> now) (ts_timers s))))"
    using assms by (force simp: image_iff)
  then show ?thesis unfolding toast_advance_def Let_def
    by (rule foldl_establish [where Q = "\<lambda>s. \<forall>x \<in> set (ts_items s). tt_id x \<noteq> t"])
       (simp, rule toast_fire_keeps_gone)
qed

lemma foldl_toast_fire_ids:
  "set (map tt_id (ts_items (foldl toast_fire s as))) \<subseteq> set (map tt_id (ts_items s))"
  by (induction as arbitrary: s) (use toast_fire_items_subset in fastforce)+

lemma toast_advance_pending:
  assumes "toast_pending now s" and "now \<le> t"
  shows "toast_pending t (toast_advance t s)"
  unfolding toast_pending_def
proof
  fix x assume x: "x \<in> set (ts_items (toast_advance t s))"
  have "tt_id x \<in> set (map tt_id (ts_items s))"
    using x foldl_toast_fire_ids unfolding toast_advance_def Let_def by fastforce
  then obtain y where "y \<in> set (ts_items s)" "tt_id y = tt_id x" by auto
  then obtain d where d: "(d, Toast_Remove (tt_id x)) \<in> set (ts_timers s)" "d \<le> now + 3200"
    using assms(1) by (fastforce simp: toast_pending_def)
  have "\<not> d \<le> t" using toast_advance_removes [OF d(1)] x by auto
  with d assms(2) show "\<exists>d. (d, Toast_Remove (tt_id x)) \<in> set (ts_timers (toast_advance t s)) \<and> t < d \<and> d \<le> t + 3200"
    by (auto simp: toast_advance_def Let_def)
qed

lemma show_toast_pending: "toast_pending now s \<Longrightarrow> toast_pending now (show_toast c m now s)"
  by (auto simp: toast_pending_def showToast_def Let_def)

lemma toast_reach_pending: "toast_reach now s \<Longrightarrow> toast_pending now s"
proof (induction rule: toast_reach.induct)
  case empty
  then show ?case by (simp add: toast_pending_def toast_empty_def)
next
  case (call now s c m)
  show ?case using call.IH by (rule show_toast_pending)
next
  case (advance now s t)
  show ?case using advance.IH advance.hyps(2) by (rule toast_advance_pending)
qed

lemma toast_removed_after:
  assumes "now + (timeout + 200) \<le> t"
  shows "ts_next s \<notin> tt_id ` set (ts_items (toast_advance t (showToast True m timeout now s)))"
  using toast_advance_removes [of "now + (timeout + 200)" "ts_next s" "showToast True m timeout now s" t] assms
  by (auto simp: showToast_def Let_def)

subsection \<open>Properties of the toasts\<close>

text \<open>C36: Toasts do not pile up: in every state the helper reaches, the container is empty again 3.2 s later unless new toasts were shown, because every toast shown with the default timeout has its removal timer pending for at most 3200 ms.\<close>

lemma toast_all_removed:
  assumes "toast_reach now s" and "now + 3200 \<le> t"
  shows "ts_items (toast_advance t s) = []"
proof -
  have "\<forall>x \<in> set (ts_items (toast_advance t s)). False"
  proof
    fix x assume x: "x \<in> set (ts_items (toast_advance t s))"
    have "tt_id x \<in> set (map tt_id (ts_items s))"
      using x foldl_toast_fire_ids unfolding toast_advance_def Let_def by fastforce
    then obtain d where "(d, Toast_Remove (tt_id x)) \<in> set (ts_timers s)" "d \<le> now + 3200"
      using toast_reach_pending [OF assms(1)] by (fastforce simp: toast_pending_def)
    then show False using toast_advance_removes [of d "tt_id x" s t] x assms(2) by auto
  qed
  then show ?thesis by (cases "ts_items (toast_advance t s)") auto
qed

lemma toast_all_removed_witness:
  "ts_items (toast_advance 5000 (show_toast True ''Saved'' 1800 (show_toast True ''Hi'' 0 toast_empty))) = []"
proof -
  have "toast_reach 1800 (show_toast True ''Saved'' 1800 (toast_advance 1800 (show_toast True ''Hi'' 0 toast_empty)))"
  proof -
    have "toast_reach 0 (show_toast True ''Hi'' 0 toast_empty)" by (rule toast_reach.call, rule toast_reach.empty)
    then have "toast_reach 1800 (toast_advance 1800 (show_toast True ''Hi'' 0 toast_empty))"
      by (rule toast_reach.advance) simp
    then show ?thesis by (rule toast_reach.call)
  qed
  then have "ts_items (toast_advance 5000 (show_toast True ''Saved'' 1800 (toast_advance 1800 (show_toast True ''Hi'' 0 toast_empty)))) = []"
    using toast_all_removed [of 1800 _ 5000] by simp
  then show ?thesis by (simp add: showToast_def toast_advance_def toast_empty_def)
qed

end
