(* ===== verification/Preferences.thy ===== *)
theory Preferences
  imports JS_String Toast "HOL-Library.AList_Mapping"
begin

text \<open>
  The two preferences the page keeps in \<open>localStorage\<close>: the colour theme
  (src/script.js, lines 37-63: \<open>applyTheme\<close>, the IIFE \<open>initTheme\<close> and the click
  handler of \<open>#themeToggle\<close>) and the cookie consent (lines 280-294: the IIFE
  \<open>initCookie\<close> and the click handler of \<open>#acceptCookies\<close>).

  \<open>localStorage\<close> is a \<open>(string, string) mapping\<close> together with a flag saying
  whether the browser lets the page use it; when it does not (storage disabled,
  private modes), \<open>getItem\<close> and \<open>setItem\<close> throw.  A throw in a top-level IIFE
  stops the script there, so the set-up returns it as \<open>Inl\<close>; a throw in an event
  handler ends the handler, keeping the effects it had so far, and the event loop
  goes on, so a handler returns the state with the exception beside it.
\<close>

datatype pref_error = Storage_Error

text \<open>The page elements and attributes the handlers read.  \<open>pp_media\<close> is
  \<open>None\<close> without \<open>window.matchMedia\<close>, else whether
  \<open>(prefers-color-scheme:dark)\<close> matches.\<close>

record pref_page =
  pp_has_toggle :: bool
  pp_media :: "bool option"
  pp_has_bar :: bool
  pp_has_accept :: bool
  pp_has_toasts :: bool
  pp_theme0 :: "string option"
  pp_bar0 :: "string option"

record pref_state =
  ps_theme :: "string option"
  ps_pressed :: "string option"
  ps_bar_hidden :: "string option"
  ps_storage :: "(string, string) mapping"
  ps_storage_ok :: bool
  ps_toasts :: toast_state
  ps_now :: ms

text \<open>A freshly loaded page over the given storage.\<close>

definition pref_fresh :: "pref_page \<Rightarrow> (string, string) mapping \<Rightarrow> bool \<Rightarrow> ms \<Rightarrow> pref_state" where
  "pref_fresh pg st ok now =
     \<lparr>ps_theme = pp_theme0 pg, ps_pressed = None, ps_bar_hidden = pp_bar0 pg, ps_storage = st,
      ps_storage_ok = ok, ps_toasts = toast_empty, ps_now = now\<rparr>"

definition storage_get :: "string \<Rightarrow> pref_state \<Rightarrow> pref_error + string option" where
  "storage_get k s = (if ps_storage_ok s then Inr (Mapping.lookup (ps_storage s) k) else Inl Storage_Error)"

definition storage_set :: "string \<Rightarrow> string \<Rightarrow> pref_state \<Rightarrow> pref_error + pref_state" where
  "storage_set k v s =
     (if ps_storage_ok s then Inr (s\<lparr>ps_storage := Mapping.update k v (ps_storage s)\<rparr>) else Inl Storage_Error)"

definition pref_toast :: "pref_page \<Rightarrow> string \<Rightarrow> pref_state \<Rightarrow> pref_state" where
  "pref_toast pg m s = s\<lparr>ps_toasts := show_toast (pp_has_toasts pg) m (ps_now s) (ps_toasts s)\<rparr>"

subsection \<open>Theme\<close>

text \<open>\<open>applyTheme(theme)\<close> (lines 41-44, with \<open>themeToggle\<close> of line 40); \<open>setAttribute('aria-pressed', b)\<close>
  stores \<open>String(b)\<close>.\<close>

definition applyTheme :: "pref_page \<Rightarrow> string \<Rightarrow> pref_state \<Rightarrow> pref_state" where
  "applyTheme pg theme s =
     s\<lparr>ps_theme := Some theme,
       ps_pressed := (if pp_has_toggle pg then Some (if theme = ''dark'' then ''true'' else ''false'') else ps_pressed s)\<rparr>"

text \<open>\<open>initTheme\<close> (lines 45-54): a saved theme is used when it is truthy (present
  and not empty), else the system preference.\<close>

definition initTheme :: "pref_page \<Rightarrow> pref_state \<Rightarrow> pref_error + pref_state" where
  "initTheme pg s =
     (case storage_get ''sp-theme'' s of
        Inl e \<Rightarrow> Inl e
      | Inr saved \<Rightarrow>
          (if js_str_or saved [] \<noteq> [] then Inr (applyTheme pg (js_str_or saved []) s)
           else
             (let prefersDark = (case pp_media pg of Some b \<Rightarrow> b | None \<Rightarrow> False)
              in Inr (applyTheme pg (if prefersDark then ''dark'' else ''light'') s))))"

text \<open>The toast text \<open>next[0].toUpperCase()+next.slice(1)\<close> followed by
  \<open>' theme enabled'\<close>.\<close>

definition theme_toast :: "string \<Rightarrow> string" where
  "theme_toast next = js_upper (take 1 next) @ js_slice_from next 1 @ '' theme enabled''"

text \<open>The click handler of \<open>#themeToggle\<close> (lines 55-63).\<close>

definition theme_click :: "pref_page \<Rightarrow> pref_state \<Rightarrow> pref_state \<times> pref_error option" where
  "theme_click pg s =
     (let current = js_str_or (ps_theme s) ''light'';
          next = (if current = ''light'' then ''dark'' else ''light'');
          s1 = applyTheme pg next s
      in case storage_set ''sp-theme'' next s1 of
           Inl e \<Rightarrow> (s1, Some e)
         | Inr s2 \<Rightarrow> (pref_toast pg (theme_toast next) s2, None))"

subsection \<open>Cookie consent\<close>

text \<open>\<open>initCookie\<close> (lines 282-287).\<close>

definition initCookie :: "pref_page \<Rightarrow> pref_state \<Rightarrow> pref_error + pref_state" where
  "initCookie pg s =
     (case storage_get ''sp-cookies'' s of
        Inl e \<Rightarrow> Inl e
      | Inr accepted \<Rightarrow>
          Inr (if js_str_or accepted [] = [] \<and> pp_has_bar pg then s\<lparr>ps_bar_hidden := Some ''false''\<rparr> else s))"

text \<open>The click handler of \<open>#acceptCookies\<close> (lines 288-294).\<close>

definition cookie_accept :: "pref_page \<Rightarrow> pref_state \<Rightarrow> pref_state \<times> pref_error option" where
  "cookie_accept pg s =
     (case storage_set ''sp-cookies'' ''1'' s of
        Inl e \<Rightarrow> (s, Some e)
      | Inr s1 \<Rightarrow>
          (let s2 = (if pp_has_bar pg then s1\<lparr>ps_bar_hidden := Some ''true''\<rparr> else s1)
           in (pref_toast pg ''Cookies accepted'' s2, None)))"

subsection \<open>Page life cycle\<close>

text \<open>The top-level statements of the script that touch the preferences, in
  script order: \<open>initTheme\<close> (line 45) and, further down, \<open>initCookie\<close> (line 282);
  a throw in the first ends the script before the second.  This is the top level
  as it runs when none of the statements between the two throws; theory Script
  runs the whole top level, and its lemma \<open>script_load_pref\<close> shows that it
  leaves the preferences as \<open>pref_init\<close> does whenever the typewriter's
  \<open>data-text\<close> parses.\<close>

definition pref_init :: "pref_page \<Rightarrow> pref_state \<Rightarrow> pref_error + pref_state" where
  "pref_init pg s = (case initTheme pg s of Inl e \<Rightarrow> Inl e | Inr s1 \<Rightarrow> initCookie pg s1)"

text \<open>Loading the page again over the storage the last session left.\<close>

definition pref_reload :: "pref_page \<Rightarrow> pref_state \<Rightarrow> pref_error + pref_state" where
  "pref_reload pg s = pref_init pg (pref_fresh pg (ps_storage s) (ps_storage_ok s) 0)"

datatype pref_event = Click_Theme | Click_Accept | Tick ms

text \<open>The user's clicks (a click on an element that is absent does nothing, since
  no handler was bound) and the passing of time, which runs the toast timers.\<close>

fun pref_step :: "pref_page \<Rightarrow> pref_state \<Rightarrow> pref_event \<Rightarrow> pref_state" where
  "pref_step pg s Click_Theme = (if pp_has_toggle pg then fst (theme_click pg s) else s)"
| "pref_step pg s Click_Accept = (if pp_has_accept pg then fst (cookie_accept pg s) else s)"
| "pref_step pg s (Tick t) = (if ps_now s \<le> t then s\<lparr>ps_now := t, ps_toasts := toast_advance t (ps_toasts s)\<rparr> else s)"

text \<open>The states of a session whose page ran the preference statements of the top
  level without error.\<close>

inductive pref_reach :: "pref_page \<Rightarrow> pref_state \<Rightarrow> bool" for pg where
  load: "pref_init pg (pref_fresh pg st True 0) = Inr s \<Longrightarrow> pref_reach pg s"
| step: "pref_reach pg s \<Longrightarrow> pref_reach pg (pref_step pg s e)"

text \<open>The invariant of a session: a theme is shown, \<open>aria-pressed\<close> agrees with it,
  and a stored non-empty theme is the one shown.\<close>

definition pref_inv :: "pref_page \<Rightarrow> pref_state \<Rightarrow> bool" where
  "pref_inv pg s =
     (ps_storage_ok s \<and>
      (\<exists>t. ps_theme s = Some t \<and>
           (pp_has_toggle pg \<longrightarrow> ps_pressed s = Some (if t = ''dark'' then ''true'' else ''false'')) \<and>
           (\<forall>v. Mapping.lookup (ps_storage s) ''sp-theme'' = Some v \<longrightarrow> v \<noteq> [] \<longrightarrow> v = t)))"

text \<open>A page with every element, a dark system preference, no \<open>data-theme\<close>
  in the markup and the cookie bar hidden by the markup.\<close>

definition pref_demo :: pref_page where
  "pref_demo =
     \<lparr>pp_has_toggle = True, pp_media = Some True, pp_has_bar = True, pp_has_accept = True,
      pp_has_toasts = True, pp_theme0 = None, pp_bar0 = Some ''true''\<rparr>"

subsection \<open>Lemmas\<close>

lemma initCookie_theme:
  "initCookie pg s = Inr s' \<Longrightarrow> ps_theme s' = ps_theme s \<and> ps_pressed s' = ps_pressed s \<and> ps_storage s' = ps_storage s"
  by (auto simp: initCookie_def storage_get_def split: if_splits sum.splits)

lemma initTheme_ok:
  assumes "ps_storage_ok s"
  shows "initTheme pg s = Inr (applyTheme pg
           (if js_str_or (Mapping.lookup (ps_storage s) ''sp-theme'') [] \<noteq> [] then js_str_or (Mapping.lookup (ps_storage s) ''sp-theme'') []
            else if (case pp_media pg of Some b \<Rightarrow> b | None \<Rightarrow> False) then ''dark'' else ''light'') s)"
  using assms by (simp add: initTheme_def storage_get_def Let_def)

lemma initCookie_ok:
  assumes "ps_storage_ok s"
  shows "\<exists>s'. initCookie pg s = Inr s'"
  using assms by (simp add: initCookie_def storage_get_def)

lemma theme_click_ok:
  assumes "ps_storage_ok s"
  shows "fst (theme_click pg s) =
           pref_toast pg (theme_toast (if js_str_or (ps_theme s) ''light'' = ''light'' then ''dark'' else ''light''))
             ((applyTheme pg (if js_str_or (ps_theme s) ''light'' = ''light'' then ''dark'' else ''light'') s)
                \<lparr>ps_storage := Mapping.update ''sp-theme'' (if js_str_or (ps_theme s) ''light'' = ''light'' then ''dark'' else ''light'') (ps_storage s)\<rparr>)
         \<and> snd (theme_click pg s) = None"
  using assms by (simp add: theme_click_def storage_set_def applyTheme_def Let_def)

lemma pref_toast_fields [simp]:
  "ps_theme (pref_toast pg m s) = ps_theme s"
  "ps_pressed (pref_toast pg m s) = ps_pressed s"
  "ps_storage (pref_toast pg m s) = ps_storage s"
  "ps_storage_ok (pref_toast pg m s) = ps_storage_ok s"
  "ps_bar_hidden (pref_toast pg m s) = ps_bar_hidden s"
  by (simp_all add: pref_toast_def)

lemma applyTheme_fields [simp]:
  "ps_theme (applyTheme pg t s) = Some t"
  "ps_storage (applyTheme pg t s) = ps_storage s"
  "ps_storage_ok (applyTheme pg t s) = ps_storage_ok s"
  "ps_bar_hidden (applyTheme pg t s) = ps_bar_hidden s"
  by (simp_all add: applyTheme_def)

lemma applyTheme_pressed:
  "pp_has_toggle pg \<Longrightarrow> ps_pressed (applyTheme pg t s) = Some (if t = ''dark'' then ''true'' else ''false'')"
  by (simp add: applyTheme_def)

lemma pref_init_inv:
  assumes "pref_init pg (pref_fresh pg st True 0) = Inr s"
  shows "pref_inv pg s"
proof -
  let ?f = "pref_fresh pg st True 0"
  let ?sv = "js_str_or (Mapping.lookup st ''sp-theme'') []"
  define t where "t = (if ?sv \<noteq> [] then ?sv else if (case pp_media pg of Some b \<Rightarrow> b | None \<Rightarrow> False) then ''dark'' else ''light'')"
  have "initTheme pg ?f = Inr (applyTheme pg t ?f)"
    unfolding t_def using initTheme_ok [of ?f pg] by (simp add: pref_fresh_def)
  then have c: "initCookie pg (applyTheme pg t ?f) = Inr s"
    using assms by (simp add: pref_init_def)
  have tv: "\<forall>v. Mapping.lookup st ''sp-theme'' = Some v \<longrightarrow> v \<noteq> [] \<longrightarrow> v = t"
    by (simp add: t_def js_str_or_def)
  have f: "ps_theme s = Some t" "ps_pressed s = ps_pressed (applyTheme pg t ?f)" "ps_storage s = st"
    using initCookie_theme [OF c] by (simp_all add: pref_fresh_def)
  have ok: "ps_storage_ok s"
    using c by (auto simp: initCookie_def storage_get_def pref_fresh_def split: if_splits)
  show ?thesis
    unfolding pref_inv_def using f ok tv applyTheme_pressed [of pg t ?f] by simp
qed

lemma cookie_accept_fields:
  "ps_storage_ok s \<Longrightarrow> ps_theme (fst (cookie_accept pg s)) = ps_theme s \<and> ps_pressed (fst (cookie_accept pg s)) = ps_pressed s
     \<and> ps_storage_ok (fst (cookie_accept pg s))
     \<and> ps_storage (fst (cookie_accept pg s)) = Mapping.update ''sp-cookies'' ''1'' (ps_storage s)"
  by (simp add: cookie_accept_def storage_set_def Let_def pref_toast_def)

lemma pref_step_inv:
  assumes "pref_inv pg s"
  shows "pref_inv pg (pref_step pg s e)"
proof (cases e)
  case Click_Theme
  have ok: "ps_storage_ok s" using assms by (simp add: pref_inv_def)
  let ?n = "if js_str_or (ps_theme s) ''light'' = ''light'' then ''dark'' else ''light''"
  let ?s1 = "fst (theme_click pg s)"
  have f: "ps_theme ?s1 = Some ?n" "ps_storage_ok ?s1"
      "pp_has_toggle pg \<Longrightarrow> ps_pressed ?s1 = Some (if ?n = ''dark'' then ''true'' else ''false'')"
      "Mapping.lookup (ps_storage ?s1) ''sp-theme'' = Some ?n"
    using theme_click_ok [OF ok, of pg] ok by (simp_all add: applyTheme_pressed)
  have "pref_inv pg ?s1" unfolding pref_inv_def using f by simp
  then show ?thesis using Click_Theme assms by simp
next
  case Click_Accept
  have ok: "ps_storage_ok s" using assms by (simp add: pref_inv_def)
  show ?thesis using Click_Accept cookie_accept_fields [OF ok, of pg] assms
    by (auto simp: pref_inv_def lookup_update_neq)
next
  case (Tick t)
  then show ?thesis using assms by (simp add: pref_inv_def)
qed

lemma pref_reach_inv: "pref_reach pg s \<Longrightarrow> pref_inv pg s"
  by (induction rule: pref_reach.induct) (simp_all add: pref_init_inv pref_step_inv)

lemma theme_click_theme:
  "ps_theme (fst (theme_click pg s)) = Some (if js_str_or (ps_theme s) ''light'' = ''light'' then ''dark'' else ''light'')"
  by (simp add: theme_click_def storage_set_def Let_def)

lemma initTheme_keeps:
  "initTheme pg s = Inr s' \<Longrightarrow> ps_bar_hidden s' = ps_bar_hidden s \<and> ps_storage s' = ps_storage s \<and> ps_storage_ok s' = ps_storage_ok s"
  by (auto simp: initTheme_def storage_get_def Let_def split: if_splits)

lemma theme_click_twice:
  assumes "ps_theme s = Some ''light'' \<or> ps_theme s = Some ''dark''"
  shows "ps_theme (fst (theme_click pg (fst (theme_click pg s)))) = ps_theme s"
  using assms by (auto simp: theme_click_theme js_str_or_def)

lemma theme_unknown_saved:
  "(case pref_init pref_demo (pref_fresh pref_demo (Mapping.update ''sp-theme'' ''blue'' Mapping.empty) True 0) of
      Inl e \<Rightarrow> False
    | Inr s \<Rightarrow> ps_theme s = Some ''blue'' \<and> ps_pressed s = Some ''false'' \<and>
              ps_theme (fst (theme_click pref_demo s)) = Some ''light'')"
  by code_simp

lemma pref_demo_load:
  "pref_init pref_demo (pref_fresh pref_demo Mapping.empty True 0) =
     Inr ((applyTheme pref_demo ''dark'' (pref_fresh pref_demo Mapping.empty True 0))\<lparr>ps_bar_hidden := Some ''false''\<rparr>)"
  by (simp add: pref_init_def initTheme_def initCookie_def storage_get_def pref_fresh_def pref_demo_def js_str_or_def)

subsection \<open>Properties of the preferences\<close>

text \<open>C30: In every state of a session that loaded, the page has a theme, the toggle's aria-pressed says whether it is "dark", and a non-empty theme stored under sp-theme is the theme shown.\<close>

lemma pref_theme_consistent:
  assumes "pref_reach pg s"
  shows "\<exists>t. ps_theme s = Some t \<and>
           (pp_has_toggle pg \<longrightarrow> ps_pressed s = Some (if t = ''dark'' then ''true'' else ''false'')) \<and>
           (\<forall>v. Mapping.lookup (ps_storage s) ''sp-theme'' = Some v \<longrightarrow> v \<noteq> [] \<longrightarrow> v = t)"
  using pref_reach_inv [OF assms] by (simp add: pref_inv_def)

lemma pref_theme_consistent_witness:
  "ps_theme (pref_step pref_demo ((applyTheme pref_demo ''dark'' (pref_fresh pref_demo Mapping.empty True 0))\<lparr>ps_bar_hidden := Some ''false''\<rparr>) Click_Theme) = Some ''light''
   \<and> ps_pressed (pref_step pref_demo ((applyTheme pref_demo ''dark'' (pref_fresh pref_demo Mapping.empty True 0))\<lparr>ps_bar_hidden := Some ''false''\<rparr>) Click_Theme) = Some ''false''"
proof -
  have r: "pref_reach pref_demo (pref_step pref_demo ((applyTheme pref_demo ''dark'' (pref_fresh pref_demo Mapping.empty True 0))\<lparr>ps_bar_hidden := Some ''false''\<rparr>) Click_Theme)"
    by (rule pref_reach.step, rule pref_reach.load, rule pref_demo_load)
  have t: "ps_theme (pref_step pref_demo ((applyTheme pref_demo ''dark'' (pref_fresh pref_demo Mapping.empty True 0))\<lparr>ps_bar_hidden := Some ''false''\<rparr>) Click_Theme) = Some ''light''"
    by (simp add: pref_demo_def theme_click_theme js_str_or_def)
  show ?thesis using pref_theme_consistent [OF r] t by (simp add: pref_demo_def)
qed

text \<open>C31: A theme chosen with the toggle survives a reload: when storage is usable, the page loaded over the storage the click left shows the theme the click set.\<close>

lemma theme_reload_roundtrip:
  assumes "ps_storage_ok s"
  shows "\<exists>s'. pref_reload pg (fst (theme_click pg s)) = Inr s' \<and> ps_theme s' = ps_theme (fst (theme_click pg s))"
proof -
  let ?n = "if js_str_or (ps_theme s) ''light'' = ''light'' then ''dark'' else ''light''"
  let ?f = "pref_fresh pg (ps_storage (fst (theme_click pg s))) True 0"
  have st: "Mapping.lookup (ps_storage (fst (theme_click pg s))) ''sp-theme'' = Some ?n"
    and ok: "ps_storage_ok (fst (theme_click pg s))"
    and th: "ps_theme (fst (theme_click pg s)) = Some ?n"
    using theme_click_ok [OF assms, of pg] assms by simp_all
  have "initTheme pg ?f = Inr (applyTheme pg ?n ?f)"
    using initTheme_ok [of ?f pg] st by (simp add: pref_fresh_def js_str_or_def)
  moreover obtain s' where "initCookie pg (applyTheme pg ?n ?f) = Inr s'"
    using initCookie_ok [of "applyTheme pg ?n ?f" pg] by (auto simp: pref_fresh_def)
  ultimately show ?thesis using initCookie_theme th ok
    by (auto simp: pref_reload_def pref_init_def)
qed

lemma theme_reload_roundtrip_witness:
  "\<exists>s'. pref_reload pref_demo (fst (theme_click pref_demo (pref_fresh pref_demo Mapping.empty True 0))) = Inr s'
        \<and> ps_theme s' = Some ''dark''"
  using theme_reload_roundtrip [of "pref_fresh pref_demo Mapping.empty True 0" pref_demo]
  by (simp add: pref_fresh_def pref_demo_def theme_click_theme js_str_or_def)

text \<open>C34: Consent survives a reload: after an accepted click with usable storage, initCookie on the reloaded page leaves the aria-hidden of the cookie bar as the markup has it instead of showing the bar.\<close>

lemma cookie_consent_roundtrip:
  assumes "ps_storage_ok s"
  shows "\<exists>s'. pref_reload pg (fst (cookie_accept pg s)) = Inr s' \<and> ps_bar_hidden s' = pp_bar0 pg"
proof -
  let ?f = "pref_fresh pg (ps_storage (fst (cookie_accept pg s))) True 0"
  have st: "Mapping.lookup (ps_storage (fst (cookie_accept pg s))) ''sp-cookies'' = Some ''1''"
    and ok: "ps_storage_ok (fst (cookie_accept pg s))"
    using cookie_accept_fields [OF assms, of pg] by (simp_all add: lookup_update)
  obtain s1 where s1: "initTheme pg ?f = Inr s1"
    using initTheme_ok [of ?f pg] by (simp add: pref_fresh_def)
  have k: "ps_bar_hidden s1 = pp_bar0 pg" "Mapping.lookup (ps_storage s1) ''sp-cookies'' = Some ''1''" "ps_storage_ok s1"
    using initTheme_keeps [OF s1] st by (simp_all add: pref_fresh_def)
  have "initCookie pg s1 = Inr s1"
    using k by (simp add: initCookie_def storage_get_def js_str_or_def)
  then show ?thesis using s1 k ok by (simp add: pref_reload_def pref_init_def)
qed

lemma cookie_consent_roundtrip_witness:
  "\<exists>s'. pref_reload pref_demo (fst (cookie_accept pref_demo (pref_fresh pref_demo Mapping.empty True 0))) = Inr s'
        \<and> ps_bar_hidden s' = pp_bar0 pref_demo"
  using cookie_consent_roundtrip [of "pref_fresh pref_demo Mapping.empty True 0" pref_demo]
  by (simp add: pref_fresh_def)

end
