(* ===== verification/Typewriter.thy ===== *)
theory Typewriter
  imports JS_String
begin

text \<open>
  The typewriter of the hero section (src/script.js, lines 87-106).  The IIFE
  \<open>typewriterInit\<close> reads the word list from the \<open>data-text\<close> attribute of the
  \<open>.typewriter\<close> element with \<open>JSON.parse\<close>, and the closure \<open>tick\<close> then runs
  forever on a \<open>setTimeout\<close> chain: forwards it lengthens the shown prefix of the
  current word by one character every 90 ms, and when the prefix would reach the
  whole word it waits 900 ms and turns round; backwards it shortens the prefix,
  and at length 0 it moves on to the next word (cyclically).

  The closure's variables \<open>i\<close>, \<open>pos\<close>, \<open>forward\<close> and the element's
  \<open>textContent\<close> form \<open>tw_state\<close>; one call of \<open>tick\<close> is \<open>tick\<close>, which returns the
  new state and the delay of the \<open>setTimeout\<close> it schedules.  \<open>JSON.parse\<close> is a
  parameter of \<open>typewriterInit\<close>: the model fixes only that it returns a list of
  strings or throws.
\<close>

record tw_state =
  tw_i :: nat
  tw_pos :: int
  tw_forward :: bool
  tw_text :: "string option"

text \<open>\<open>words[i % words.length] || ''\<close>: for an empty list the index is \<open>NaN\<close> and
  the element \<open>undefined\<close>.\<close>

definition tw_word :: "string list \<Rightarrow> nat \<Rightarrow> string" where
  "tw_word words i = (if words = [] then [] else words ! (i mod length words))"

definition tw_speed :: ms where
  "tw_speed = 90"

definition tw_pause :: ms where
  "tw_pause = 900"

text \<open>\<open>tick\<close> (lines 93-104).  On the turning tick the forward branch returns
  before \<open>el.textContent\<close> is written.\<close>

definition tick :: "string list \<Rightarrow> tw_state \<Rightarrow> tw_state \<times> ms" where
  "tick words s =
     (let word = tw_word words (tw_i s) in
      if tw_forward s then
        (let pos = tw_pos s + 1 in
         if int (length word) \<le> pos then (s\<lparr>tw_pos := pos, tw_forward := False\<rparr>, tw_pause)
         else (s\<lparr>tw_pos := pos, tw_text := Some (js_slice word 0 pos)\<rparr>, tw_speed))
      else
        (let pos = tw_pos s - 1;
             s1 = (if pos \<le> 0 then s\<lparr>tw_pos := pos, tw_forward := True, tw_i := tw_i s + 1\<rparr>
                   else s\<lparr>tw_pos := pos\<rparr>)
         in (s1\<lparr>tw_text := Some (js_slice word 0 pos)\<rparr>, tw_speed)))"

text \<open>\<open>let i=0, pos=0, forward=true\<close>; the element's text before the first write
  is whatever the page holds, \<open>None\<close> here.\<close>

definition tw_start :: tw_state where
  "tw_start = \<lparr>tw_i = 0, tw_pos = 0, tw_forward = True, tw_text = None\<rparr>"

text \<open>\<open>n\<close> calls of \<open>tick\<close> along the timer chain: the state after them and the
  time they span (the sum of the delays they schedule).\<close>

fun tw_run :: "string list \<Rightarrow> nat \<Rightarrow> tw_state \<Rightarrow> tw_state \<times> ms" where
  "tw_run words 0 s = (s, 0)"
| "tw_run words (Suc n) s =
     (let (s1, d) = tick words s; (s2, e) = tw_run words n s1 in (s2, d + e))"

text \<open>The texts written by \<open>n\<close> successive ticks.\<close>

fun tw_trace :: "string list \<Rightarrow> nat \<Rightarrow> tw_state \<Rightarrow> string option list" where
  "tw_trace words 0 s = []"
| "tw_trace words (Suc n) s = (let s1 = fst (tick words s) in tw_text s1 # tw_trace words n s1)"

text \<open>\<open>typewriterInit\<close> (lines 87-106).  The argument \<open>el\<close> is \<open>None\<close> when the page
  has no \<open>.typewriter\<close> element, and otherwise its \<open>data-text\<close> attribute.  A
  \<open>JSON.parse\<close> that throws makes the IIFE throw: the exception is the result
  \<open>Inl\<close>.  Otherwise the result is the word list, the state after the first
  (synchronous) tick and the delay of the timer it set.\<close>

datatype tw_error = Tw_Json_Error

definition typewriterInit ::
  "(string \<Rightarrow> string list option) \<Rightarrow> string option option \<Rightarrow> tw_error + (string list \<times> tw_state \<times> ms) option" where
  "typewriterInit json_parse el =
     (case el of
        None \<Rightarrow> Inr None
      | Some attr \<Rightarrow>
          (case json_parse (js_str_or attr ''[]'') of
             None \<Rightarrow> Inl Tw_Json_Error
           | Some words \<Rightarrow> (let (s, d) = tick words tw_start in Inr (Some (words, s, d)))))"

text \<open>The states the timer chain passes through.\<close>

inductive tw_reach :: "string list \<Rightarrow> tw_state \<Rightarrow> bool" for words where
  start: "tw_reach words tw_start"
| step: "tw_reach words s \<Longrightarrow> tw_reach words (fst (tick words s))"

text \<open>The invariant of the timer chain: forwards, the text is the prefix of the
  current word up to \<open>pos\<close>; backwards, up to \<open>pos - 1\<close> just after the turn and
  up to \<open>pos\<close> afterwards.\<close>

definition tw_inv :: "string list \<Rightarrow> tw_state \<Rightarrow> bool" where
  "tw_inv words s =
     (let w = tw_word words (tw_i s); p = tw_pos s; n = int (length w) in
      if tw_forward s then 0 \<le> p \<and> (p < n \<or> p = 0) \<and> (tw_text s = None \<or> tw_text s = Some (take (nat p) w))
      else 1 \<le> p \<and> p \<le> max 1 n \<and>
           (tw_text s = None \<or> tw_text s = Some (take (nat (p - 1)) w) \<or> (p < n \<and> tw_text s = Some (take (nat p) w))))"

subsection \<open>Phases of the timer chain\<close>

lemma tick_forward:
  assumes "tw_forward s" and "0 \<le> tw_pos s" and "tw_pos s + 1 < int (length (tw_word words (tw_i s)))"
  shows "tick words s = (s\<lparr>tw_pos := tw_pos s + 1, tw_text := Some (take (nat (tw_pos s + 1)) (tw_word words (tw_i s)))\<rparr>, tw_speed)"
  using assms by (simp add: tick_def Let_def)

lemma tick_turn:
  assumes "tw_forward s" and "int (length (tw_word words (tw_i s))) \<le> tw_pos s + 1"
  shows "tick words s = (s\<lparr>tw_pos := tw_pos s + 1, tw_forward := False\<rparr>, tw_pause)"
  using assms by (simp add: tick_def Let_def)

lemma tick_back:
  assumes "\<not> tw_forward s" and "1 < tw_pos s"
  shows "tick words s = (s\<lparr>tw_pos := tw_pos s - 1, tw_text := Some (take (nat (tw_pos s - 1)) (tw_word words (tw_i s)))\<rparr>, tw_speed)"
  using assms by (simp add: tick_def Let_def)

lemma tick_next_word:
  assumes "\<not> tw_forward s" and "tw_pos s = 1"
  shows "tick words s = (s\<lparr>tw_pos := 0, tw_forward := True, tw_i := tw_i s + 1, tw_text := Some []\<rparr>, tw_speed)"
  using assms by (simp add: tick_def Let_def)

lemma tw_run_add:
  "tw_run words (m + n) s = (let (s1, d) = tw_run words m s; (s2, e) = tw_run words n s1 in (s2, d + e))"
  by (induction m arbitrary: s) (auto simp: Let_def split: prod.split)

lemma tw_run_forward:
  assumes "tw_forward s" and "0 \<le> tw_pos s" and "tw_pos s + int (Suc k) < int (length (tw_word words (tw_i s)))"
  shows "tw_run words (Suc k) s =
           (s\<lparr>tw_pos := tw_pos s + int (Suc k), tw_text := Some (take (nat (tw_pos s + int (Suc k))) (tw_word words (tw_i s)))\<rparr>,
            tw_speed * of_nat (Suc k))"
  using assms
proof (induction k arbitrary: s)
  case 0
  then show ?case by (simp add: tick_forward)
next
  case (Suc k)
  let ?s1 = "fst (tick words s)"
  have t: "tick words s = (s\<lparr>tw_pos := tw_pos s + 1, tw_text := Some (take (nat (tw_pos s + 1)) (tw_word words (tw_i s)))\<rparr>, tw_speed)"
    using Suc.prems by (intro tick_forward) simp_all
  have "tw_run words (Suc k) ?s1 =
          (?s1\<lparr>tw_pos := tw_pos ?s1 + int (Suc k), tw_text := Some (take (nat (tw_pos ?s1 + int (Suc k))) (tw_word words (tw_i ?s1)))\<rparr>,
           tw_speed * of_nat (Suc k))"
    using Suc.prems t by (intro Suc.IH) simp_all
  then show ?case using t by (simp add: algebra_simps)
qed

lemma tw_run_back:
  assumes "\<not> tw_forward s" and "int (Suc k) < tw_pos s"
  shows "tw_run words (Suc k) s =
           (s\<lparr>tw_pos := tw_pos s - int (Suc k), tw_text := Some (take (nat (tw_pos s - int (Suc k))) (tw_word words (tw_i s)))\<rparr>,
            tw_speed * of_nat (Suc k))"
  using assms
proof (induction k arbitrary: s)
  case 0
  then show ?case by (simp add: tick_back)
next
  case (Suc k)
  let ?s1 = "fst (tick words s)"
  have t: "tick words s = (s\<lparr>tw_pos := tw_pos s - 1, tw_text := Some (take (nat (tw_pos s - 1)) (tw_word words (tw_i s)))\<rparr>, tw_speed)"
    using Suc.prems by (intro tick_back) simp_all
  have "tw_run words (Suc k) ?s1 =
          (?s1\<lparr>tw_pos := tw_pos ?s1 - int (Suc k), tw_text := Some (take (nat (tw_pos ?s1 - int (Suc k))) (tw_word words (tw_i ?s1)))\<rparr>,
           tw_speed * of_nat (Suc k))"
    using Suc.prems t by (intro Suc.IH) simp_all
  then show ?case using t by (simp add: algebra_simps)
qed

lemma tw_inv_start: "tw_inv words tw_start"
  by (simp add: tw_inv_def tw_start_def)

lemma tw_inv_tick:
  assumes inv: "tw_inv words s"
  shows "tw_inv words (fst (tick words s))"
proof (cases "tw_forward s")
  case True
  show ?thesis
  proof (cases "tw_pos s + 1 < int (length (tw_word words (tw_i s)))")
    case True
    with \<open>tw_forward s\<close> inv show ?thesis by (simp add: tick_forward tw_inv_def Let_def)
  next
    case False
    with \<open>tw_forward s\<close> inv show ?thesis by (auto simp: tick_turn tw_inv_def Let_def)
  qed
next
  case False
  then have p: "1 \<le> tw_pos s" using inv by (simp add: tw_inv_def Let_def)
  show ?thesis
  proof (cases "tw_pos s = 1")
    case True
    with \<open>\<not> tw_forward s\<close> show ?thesis by (simp add: tick_next_word tw_inv_def)
  next
    case False
    with p \<open>\<not> tw_forward s\<close> inv show ?thesis by (auto simp: tick_back tw_inv_def Let_def)
  qed
qed

lemma tw_reach_inv: "tw_reach words s \<Longrightarrow> tw_inv words s"
  by (induction rule: tw_reach.induct) (simp_all add: tw_inv_start tw_inv_tick)

lemma tw_run_Suc_fst: "fst (tw_run words (Suc n) s) = fst (tw_run words n (fst (tick words s)))"
  by (simp split: prod.split)

lemma tw_reach_run: "tw_reach words s \<Longrightarrow> tw_reach words (fst (tw_run words n s))"
proof (induction n arbitrary: s)
  case 0
  then show ?case by simp
next
  case (Suc n)
  from Suc.prems have "tw_reach words (fst (tick words s))" by (rule tw_reach.step)
  from Suc.IH [OF this] show ?case by (simp only: tw_run_Suc_fst)
qed

lemma tw_word_mem: "words \<noteq> [] \<Longrightarrow> tw_word words i \<in> set words"
  by (simp add: tw_word_def)

lemma tw_inv_text:
  assumes "tw_inv words s" and "tw_text s = Some t"
  shows "t = [] \<or> (t = take (length t) (tw_word words (tw_i s)) \<and> length t < length (tw_word words (tw_i s)))"
  using assms by (auto simp: tw_inv_def Let_def split: if_splits)

lemma tw_trace_add: "tw_trace words (m + n) s = tw_trace words m s @ tw_trace words n (fst (tw_run words m s))"
  by (induction m arbitrary: s) (simp_all add: Let_def tw_run_Suc_fst del: tw_run.simps(2))

lemma tw_run_fst_add: "fst (tw_run words (m + n) s) = fst (tw_run words n (fst (tw_run words m s)))"
  by (simp add: tw_run_add split: prod.split)

lemma tw_trace_forward:
  assumes "tw_forward s" and "tw_pos s = int p" and "p + k < length (tw_word words (tw_i s))"
  shows "tw_trace words k s = map (\<lambda>j. Some (take j (tw_word words (tw_i s)))) [Suc p..<Suc (p + k)]"
  using assms
proof (induction k arbitrary: s p)
  case 0
  then show ?case by simp
next
  case (Suc k)
  have t: "tick words s = (s\<lparr>tw_pos := int (Suc p), tw_text := Some (take (Suc p) (tw_word words (tw_i s)))\<rparr>, tw_speed)"
    using Suc.prems tick_forward [of s words] by (simp add: nat_add_distrib add.commute)
  have "tw_trace words k (fst (tick words s)) =
          map (\<lambda>j. Some (take j (tw_word words (tw_i s)))) [Suc (Suc p)..<Suc (Suc p + k)]"
    using Suc.prems t by (subst Suc.IH [of _ "Suc p"]) simp_all
  then show ?case using t by (simp add: upt_rec)
qed

lemma tw_trace_back:
  assumes "\<not> tw_forward s" and "tw_pos s = int p" and "k < p"
  shows "tw_trace words k s = map (\<lambda>j. Some (take j (tw_word words (tw_i s)))) (rev [p - k..<p])"
  using assms
proof (induction k arbitrary: s p)
  case 0
  then show ?case by simp
next
  case (Suc k)
  then obtain q where q: "p = Suc q" by (cases p) auto
  have t: "tick words s = (s\<lparr>tw_pos := int q, tw_text := Some (take q (tw_word words (tw_i s)))\<rparr>, tw_speed)"
    using Suc.prems tick_back [of s words] q by simp
  have "tw_trace words k (fst (tick words s)) = map (\<lambda>j. Some (take j (tw_word words (tw_i s)))) (rev [q - k..<q])"
    using Suc.prems t q by (subst Suc.IH [of _ q]) simp_all
  then show ?case using t q Suc.prems by simp
qed

subsection \<open>Properties of the typewriter\<close>

text \<open>C24: The full word is never displayed: every text the typewriter writes is empty or a proper prefix of a word of the list, because the forward branch returns at pos >= word.length before writing textContent (lines 96-98).\<close>

lemma tw_never_full_word:
  assumes "tw_reach words s" and "tw_text s = Some t"
  shows "t = [] \<or> (\<exists>w \<in> set words. t = take (length t) w \<and> length t < length w)"
proof (cases "words = []")
  case True
  then show ?thesis using tw_inv_text [OF tw_reach_inv [OF assms(1)] assms(2)] by (simp add: tw_word_def)
next
  case False
  then show ?thesis using tw_inv_text [OF tw_reach_inv [OF assms(1)] assms(2)] tw_word_mem by blast
qed

lemma tw_never_full_word_witness:
  "tw_text (fst (tw_run [''Web3''] 3 tw_start)) = Some ''Web'' \<and>
   (''Web'' = [] \<or> (\<exists>w \<in> set [''Web3'']. ''Web'' = take (length ''Web'') w \<and> length ''Web'' < length w))"
proof -
  have r: "tw_reach [''Web3''] (fst (tw_run [''Web3''] 3 tw_start))"
    by (rule tw_reach_run) (rule tw_reach.start)
  have t: "tw_text (fst (tw_run [''Web3''] 3 tw_start)) = Some ''Web''"
    by code_simp
  show ?thesis using tw_never_full_word [OF r t] t by simp
qed

text \<open>C25: The texts the typewriter writes over one word of length n >= 2, from its start: the prefixes of length 1 to n - 1, the prefix of length n - 1 again on the turning tick (which returns before writing and waits 900 ms), then the prefixes of length n - 1 down to 0; the whole word never appears.\<close>

lemma tw_cycle_trace:
  assumes "tw_forward s" and "tw_pos s = 0" and "2 \<le> length (tw_word words (tw_i s))"
  shows "tw_trace words (2 * length (tw_word words (tw_i s))) s =
           map (\<lambda>j. Some (take j (tw_word words (tw_i s))))
             ([1..<length (tw_word words (tw_i s))] @ [length (tw_word words (tw_i s)) - 1] @ rev [0..<length (tw_word words (tw_i s))])"
proof -
  let ?w = "tw_word words (tw_i s)"
  obtain k where k: "length ?w = Suc (Suc k)" using assms(3) by (cases "length ?w" rule: nat.exhaust; cases "length ?w - 1") auto
  let ?s1 = "s\<lparr>tw_pos := int (Suc k), tw_text := Some (take (Suc k) ?w)\<rparr>"
  let ?s2 = "?s1\<lparr>tw_pos := int (Suc (Suc k)), tw_forward := False\<rparr>"
  let ?s3 = "?s2\<lparr>tw_pos := 1, tw_text := Some (take 1 ?w)\<rparr>"
  have r1: "fst (tw_run words (Suc k) s) = ?s1"
    using tw_run_forward [of s k words] assms k by (simp add: nat_add_distrib)
  have r2: "fst (tw_run words 1 ?s1) = ?s2"
    using tick_turn [of ?s1 words] k assms by simp
  have r3: "fst (tw_run words (Suc k) ?s2) = ?s3"
    using tw_run_back [of ?s2 k words] by simp
  have a1: "tw_trace words (Suc k) s = map (\<lambda>j. Some (take j ?w)) [1..<Suc (Suc k)]"
    using tw_trace_forward [of s 0 "Suc k" words] assms k by simp
  have a2: "tw_trace words 1 ?s1 = [Some (take (Suc k) ?w)]"
    using tick_turn [of ?s1 words] k assms by simp
  have a3: "tw_trace words (Suc k) ?s2 = map (\<lambda>j. Some (take j ?w)) (rev [1..<Suc (Suc k)])"
    using tw_trace_back [of ?s2 "Suc (Suc k)" "Suc k" words] by simp
  have a4: "tw_trace words 1 ?s3 = [Some []]"
    by (simp add: tick_next_word)
  have split: "2 * length ?w = Suc k + 1 + Suc k + 1" using k by simp
  have "rev [0..<Suc (Suc k)] = rev [1..<Suc (Suc k)] @ [0]" by (simp add: upt_rec)
  moreover have "tw_trace words (Suc k + 1 + Suc k + 1) s =
      tw_trace words (Suc k) s @ tw_trace words 1 ?s1 @ tw_trace words (Suc k) ?s2 @ tw_trace words 1 ?s3"
    by (simp only: tw_trace_add tw_run_fst_add r1 r2 r3 append_assoc)
  ultimately show ?thesis
    unfolding split using a1 a2 a3 a4 k by simp
qed

lemma tw_cycle_trace_witness:
  "tw_trace [''Web3''] 8 tw_start =
     [Some ''W'', Some ''We'', Some ''Web'', Some ''Web'', Some ''Web'', Some ''We'', Some ''W'', Some []]"
  using tw_cycle_trace [of tw_start "[''Web3'']"] by (simp add: tw_start_def tw_word_def)

text \<open>C26: From the start of a word (forward, pos 0) the typewriter needs 2 * max 1 (length word) ticks, spanning 900 + 90 * (2 * max 1 (length word) - 1) ms, to arrive at the start of the next word, with the text cleared.\<close>

lemma tw_cycle:
  assumes "tw_forward s" and "tw_pos s = 0"
  shows "tw_run words (2 * max 1 (length (tw_word words (tw_i s)))) s =
           (s\<lparr>tw_i := tw_i s + 1, tw_pos := 0, tw_forward := True, tw_text := Some []\<rparr>,
            tw_pause + tw_speed * of_nat (2 * max 1 (length (tw_word words (tw_i s))) - 1))"
proof -
  let ?w = "tw_word words (tw_i s)"
  let ?n = "length ?w"
  show ?thesis
  proof (cases "?n \<le> 1")
    case True
    let ?s1 = "s\<lparr>tw_pos := 1, tw_forward := False\<rparr>"
    have t1: "tick words s = (?s1, tw_pause)" using assms True by (simp add: tick_turn)
    have t2: "tick words ?s1 = (s\<lparr>tw_i := tw_i s + 1, tw_pos := 0, tw_forward := True, tw_text := Some []\<rparr>, tw_speed)"
      by (simp add: tick_next_word)
    have "2 * max 1 ?n = Suc (Suc 0)" using True by simp
    then show ?thesis using t1 t2 by (simp add: numeral_2_eq_2)
  next
    case False
    then obtain k where k: "?n = Suc (Suc k)" by (cases ?n rule: nat.exhaust; cases "?n - 1") auto
    let ?s1 = "s\<lparr>tw_pos := int (Suc k), tw_text := Some (take (Suc k) ?w)\<rparr>"
    let ?s2 = "?s1\<lparr>tw_pos := int (Suc (Suc k)), tw_forward := False\<rparr>"
    let ?s3 = "?s2\<lparr>tw_pos := 1, tw_text := Some (take 1 ?w)\<rparr>"
    have r1: "tw_run words (Suc k) s = (?s1, tw_speed * of_nat (Suc k))"
      using tw_run_forward [of s k words] assms k by (simp add: nat_add_distrib)
    have r2: "tw_run words 1 ?s1 = (?s2, tw_pause)"
      using tick_turn [of ?s1 words] k assms by simp
    have r3: "tw_run words (Suc k) ?s2 = (?s3, tw_speed * of_nat (Suc k))"
      using tw_run_back [of ?s2 k words] by simp
    have r4: "tw_run words 1 ?s3 = (s\<lparr>tw_i := tw_i s + 1, tw_pos := 0, tw_forward := True, tw_text := Some []\<rparr>, tw_speed)"
      by (simp add: tick_next_word)
    have split: "2 * max 1 ?n = Suc k + 1 + Suc k + 1" using k by simp
    show ?thesis
      unfolding split tw_run_add using r1 r2 r3 r4 k by (simp add: algebra_simps)
  qed
qed

lemma tw_cycle_witness:
  "tw_run [''Web3''] 8 tw_start = (tw_start\<lparr>tw_i := 1, tw_pos := 0, tw_forward := True, tw_text := Some []\<rparr>, 1530)"
  using tw_cycle [of tw_start "[''Web3'']"] by (simp add: tw_start_def tw_word_def tw_pause_def tw_speed_def numeral_eq_Suc)

text \<open>C27: Every word index is reached: after the sum over j < k of 2 * max 1 (length of word j) ticks from the initial state the typewriter is at the start of word k, and the elapsed time is the sum of the per-word cycle times.\<close>

lemma tw_run_from_start:
  "tw_run words (\<Sum>j<k. 2 * max 1 (length (tw_word words j))) tw_start =
     (tw_start\<lparr>tw_i := k, tw_text := (if k = 0 then None else Some [])\<rparr>,
      \<Sum>j<k. tw_pause + tw_speed * of_nat (2 * max 1 (length (tw_word words j)) - 1))"
proof (induction k)
  case 0
  then show ?case by (simp add: tw_start_def)
next
  case (Suc k)
  let ?s = "tw_start\<lparr>tw_i := k, tw_text := (if k = 0 then None else Some [])\<rparr>"
  have "tw_run words (2 * max 1 (length (tw_word words (tw_i ?s)))) ?s =
          (?s\<lparr>tw_i := tw_i ?s + 1, tw_pos := 0, tw_forward := True, tw_text := Some []\<rparr>,
           tw_pause + tw_speed * of_nat (2 * max 1 (length (tw_word words (tw_i ?s))) - 1))"
    by (rule tw_cycle) (simp_all add: tw_start_def)
  then show ?case using Suc.IH by (simp add: tw_run_add tw_start_def)
qed

end
