(* ===== verification/Wallet.thy ===== *)
theory Wallet
  imports JS_String Toast
begin

text \<open>
  The simulated wallet connection (src/script.js, lines 193-224), the network
  switch (lines 229-235) and the keyboard shortcuts (lines 299-312).  The modal
  \<open>#walletModal\<close> is opened by \<open>#connectWalletBtn\<close>, closed by its
  \<open>.modal-close\<close>, by a \<open>.wallet-btn\<close> after it "connects", and by Escape; the
  slash key focuses the credential search.

  The page elements the handlers look up are the static record \<open>wallet_page\<close>;
  what they write is \<open>wallet_state\<close>.  A handler returns its final state and the
  exception it ended with, if any (\<open>TypeError\<close> on a property of \<open>null\<close> or
  \<open>undefined\<close>): the event loop keeps the effects made before the throw.
  \<open>Math.random().toString(16)\<close> is an argument, the hexadecimal digits after
  \<open>0.\<close>.  The separator of the button label (U+2022) is not ASCII; the label is
  kept as its two parts, \<open>Connected_Label name account\<close>.
\<close>

datatype wallet_error = Type_Error

text \<open>The element that has the focus, with its \<open>tagName\<close>.\<close>

datatype ui_focus = Focus_Body | Focus_Wallet_Button | Focus_Search | Focus_Other string

fun focus_tag :: "ui_focus \<Rightarrow> string" where
  "focus_tag Focus_Body = ''BODY''"
| "focus_tag Focus_Wallet_Button = ''BUTTON''"
| "focus_tag Focus_Search = ''INPUT''"
| "focus_tag (Focus_Other t) = t"

record wallet_page =
  wp_connect :: bool
  wp_modal :: bool
  wp_close :: bool
  wp_modal_button :: bool
  wp_buttons :: "string option list"
  wp_network :: bool
  wp_search :: bool
  wp_toasts :: bool

datatype connect_label = Markup_Label | Connected_Label string string

record wallet_state =
  ws_modal_hidden :: "string option"
  ws_modal_display :: "string option"
  ws_focus :: ui_focus
  ws_label :: connect_label
  ws_primary :: bool
  ws_selected :: bool
  ws_toasts :: toast_state
  ws_now :: ms

text \<open>The page as loaded: the modal's \<open>aria-hidden\<close> as the markup has it, no
  inline \<open>display\<close>, the focus on the body.\<close>

definition wallet_start :: "string option \<Rightarrow> wallet_state" where
  "wallet_start hidden0 =
     \<lparr>ws_modal_hidden = hidden0, ws_modal_display = None, ws_focus = Focus_Body, ws_label = Markup_Label,
      ws_primary = True, ws_selected = False, ws_toasts = toast_empty, ws_now = 0\<rparr>"

definition wallet_toast :: "wallet_page \<Rightarrow> string \<Rightarrow> wallet_state \<Rightarrow> wallet_state" where
  "wallet_toast pg m s = s\<lparr>ws_toasts := show_toast (wp_toasts pg) m (ws_now s) (ws_toasts s)\<rparr>"

text \<open>\<open>setAttribute('aria-hidden','true'); style.display = 'none'\<close>, the closing
  sequence the three closing handlers share.\<close>

definition close_modal :: "wallet_state \<Rightarrow> wallet_state" where
  "close_modal s = s\<lparr>ws_modal_hidden := Some ''true'', ws_modal_display := Some ''none''\<rparr>"

subsection \<open>Handlers\<close>

text \<open>The click handler of \<open>#connectWalletBtn\<close> (lines 197-205): \<open>focus()\<close> on the
  result of \<open>querySelector('.wallet-btn')\<close> throws when the modal has no wallet
  button, after the modal was shown.\<close>

definition connect_click :: "wallet_page \<Rightarrow> wallet_state \<Rightarrow> wallet_state \<times> wallet_error option" where
  "connect_click pg s =
     (if \<not> wp_modal pg then (s, None)
      else
        (let s1 = s\<lparr>ws_modal_hidden := Some ''false'', ws_modal_display := Some ''flex''\<rparr>
         in if wp_modal_button pg then (s1\<lparr>ws_focus := Focus_Wallet_Button\<rparr>, None) else (s1, Some Type_Error)))"

text \<open>The click handler of \<open>.modal-close\<close> (lines 208-211).\<close>

definition close_click :: "wallet_state \<Rightarrow> wallet_state" where
  "close_click s = close_modal s"

text \<open>The fallback account of line 217 (\<open>rnd\<close>: the hexadecimal digits of
  \<open>Math.random().toString(16)\<close> after \<open>0.\<close>).\<close>

definition fake_account :: "string option \<Rightarrow> string \<Rightarrow> string" where
  "fake_account wallet rnd =
     (if wallet = Some ''phantom'' then ''Phantom: 0xDEAD...BEAF'' else ''0x'' @ js_upper (take 8 rnd))"

text \<open>\<open>wallet[0].toUpperCase()+wallet.slice(1)\<close> (line 218): a TypeError for an
  undefined or empty \<open>wallet\<close>, whose \<open>[0]\<close> is undefined.\<close>

definition capitalize :: "string option \<Rightarrow> wallet_error + string" where
  "capitalize wallet =
     (case wallet of
        None \<Rightarrow> Inl Type_Error
      | Some w \<Rightarrow> if w = [] then Inl Type_Error else Inr (js_upper (take 1 w) @ js_slice_from w 1))"

text \<open>The click handler of a \<open>.wallet-btn\<close> with \<open>data-wallet\<close> \<open>wallet\<close>
  (lines 214-223), statement by statement: the account (line 217), the label,
  whose right-hand side may throw and whose assignment throws without a connect
  button (218), the class (219), the toast (220) and the closing of the modal
  (222).\<close>

definition wallet_click :: "wallet_page \<Rightarrow> string option \<Rightarrow> string \<Rightarrow> wallet_state \<Rightarrow> wallet_state \<times> wallet_error option" where
  "wallet_click pg wallet rnd s =
     (let fakeAccount = fake_account wallet rnd
      in case capitalize wallet of
           Inl e \<Rightarrow> (s, Some e)
         | Inr name \<Rightarrow>
             if \<not> wp_connect pg then (s, Some Type_Error)
             else
               (let s1 = s\<lparr>ws_label := Connected_Label name fakeAccount\<rparr>;
                    s2 = s1\<lparr>ws_primary := False\<rparr>;
                    s3 = wallet_toast pg (''Connected with '' @ the wallet) s2
                in (if wp_modal pg then close_modal s3 else s3, None)))"

text \<open>The change handler of \<open>#networkSwitch\<close> (lines 231-234).\<close>

definition network_change :: "wallet_page \<Rightarrow> string \<Rightarrow> wallet_state \<Rightarrow> wallet_state" where
  "network_change pg net s = wallet_toast pg (''Switched network to '' @ js_upper net) s"

text \<open>The \<open>keydown\<close> handler of the window (lines 299-312).\<close>

definition key_down :: "wallet_page \<Rightarrow> string \<Rightarrow> wallet_state \<Rightarrow> wallet_state" where
  "key_down pg key s =
     (let s1 = (if key = ''/'' \<and> focus_tag (ws_focus s) \<noteq> ''INPUT'' \<and> focus_tag (ws_focus s) \<noteq> ''TEXTAREA'' \<and> wp_search pg
                then wallet_toast pg ''Search focused'' (s\<lparr>ws_focus := Focus_Search, ws_selected := True\<rparr>)
                else s)
      in if key = ''Escape'' \<and> wp_modal pg \<and> ws_modal_hidden s1 = Some ''false'' then close_modal s1 else s1)"

subsection \<open>The component in its environment\<close>

text \<open>A handler is bound only when its element exists; a click on the \<open>n\<close>-th
  wallet button reads that button's \<open>data-wallet\<close>.\<close>

datatype wallet_event =
    Wl_Connect | Wl_Close | Wl_Wallet nat string | Wl_Network string | Wl_Key string
  | Wl_Focus ui_focus | Wl_Tick ms

fun wallet_step :: "wallet_page \<Rightarrow> wallet_state \<Rightarrow> wallet_event \<Rightarrow> wallet_state" where
  "wallet_step pg s Wl_Connect = (if wp_connect pg then fst (connect_click pg s) else s)"
| "wallet_step pg s Wl_Close = (if wp_modal pg \<and> wp_close pg then close_click s else s)"
| "wallet_step pg s (Wl_Wallet n rnd) =
     (if n < length (wp_buttons pg) then fst (wallet_click pg (wp_buttons pg ! n) rnd s) else s)"
| "wallet_step pg s (Wl_Network v) = (if wp_network pg then network_change pg v s else s)"
| "wallet_step pg s (Wl_Key k) = key_down pg k s"
| "wallet_step pg s (Wl_Focus f) = s\<lparr>ws_focus := f\<rparr>"
| "wallet_step pg s (Wl_Tick t) = (if ws_now s \<le> t then s\<lparr>ws_now := t, ws_toasts := toast_advance t (ws_toasts s)\<rparr> else s)"

definition wallet_run :: "wallet_page \<Rightarrow> wallet_state \<Rightarrow> wallet_event list \<Rightarrow> wallet_state" where
  "wallet_run pg s es = foldl (wallet_step pg) s es"

text \<open>The states reachable from a page whose markup does not show the modal.\<close>

inductive wallet_reach :: "wallet_page \<Rightarrow> wallet_state \<Rightarrow> bool" for pg where
  start: "hidden0 \<noteq> Some ''false'' \<Longrightarrow> wallet_reach pg (wallet_start hidden0)"
| step: "wallet_reach pg s \<Longrightarrow> wallet_reach pg (wallet_step pg s e)"

text \<open>The modal is shown (\<open>aria-hidden="false"\<close>) exactly when its inline display
  is \<open>flex\<close>.\<close>

definition modal_consistent :: "wallet_state \<Rightarrow> bool" where
  "modal_consistent s = ((ws_modal_hidden s = Some ''false'') = (ws_modal_display s = Some ''flex''))"

text \<open>The connect button keeps its class \<open>btn-primary\<close> exactly as long as it
  shows the label of the markup.\<close>

definition label_consistent :: "wallet_state \<Rightarrow> bool" where
  "label_consistent s = (ws_primary s = (ws_label s = Markup_Label))"

text \<open>A page with every element and three wallet buttons: \<open>phantom\<close>,
  \<open>metamask\<close>, and one without \<open>data-wallet\<close>.\<close>

definition wallet_demo :: wallet_page where
  "wallet_demo =
     \<lparr>wp_connect = True, wp_modal = True, wp_close = True, wp_modal_button = True,
      wp_buttons = [Some ''phantom'', Some ''metamask'', None], wp_network = True, wp_search = True,
      wp_toasts = True\<rparr>"

subsection \<open>Lemmas\<close>

lemma close_modal_fields [simp]:
  "ws_modal_hidden (close_modal s) = Some ''true''"
  "ws_modal_display (close_modal s) = Some ''none''"
  by (simp_all add: close_modal_def)

lemma wallet_toast_fields [simp]:
  "ws_modal_hidden (wallet_toast pg m s) = ws_modal_hidden s"
  "ws_modal_display (wallet_toast pg m s) = ws_modal_display s"
  "ws_label (wallet_toast pg m s) = ws_label s"
  "ws_focus (wallet_toast pg m s) = ws_focus s"
  "ws_primary (wallet_toast pg m s) = ws_primary s"
  by (simp_all add: wallet_toast_def)

lemma connect_click_consistent: "modal_consistent s \<Longrightarrow> modal_consistent (fst (connect_click pg s))"
  by (simp add: connect_click_def modal_consistent_def Let_def)

lemma wallet_click_consistent: "modal_consistent s \<Longrightarrow> modal_consistent (fst (wallet_click pg w r s))"
  by (auto simp: wallet_click_def modal_consistent_def Let_def split: sum.split)

lemma wallet_click_label: "label_consistent s \<Longrightarrow> label_consistent (fst (wallet_click pg w r s))"
  by (auto simp: wallet_click_def label_consistent_def close_modal_def Let_def split: sum.split)

lemma wallet_step_label:
  assumes "label_consistent s"
  shows "label_consistent (wallet_step pg s e)"
proof (cases e)
  case (Wl_Wallet n r)
  then show ?thesis using assms wallet_click_label by simp
qed (use assms in \<open>simp_all add: label_consistent_def connect_click_def close_click_def close_modal_def
      network_change_def key_down_def wallet_toast_def Let_def\<close>)

lemma key_down_consistent: "modal_consistent s \<Longrightarrow> modal_consistent (key_down pg k s)"
  by (simp add: key_down_def modal_consistent_def Let_def)

lemma wallet_step_consistent:
  assumes "modal_consistent s"
  shows "modal_consistent (wallet_step pg s e)"
proof (cases e)
  case Wl_Connect
  then show ?thesis using assms connect_click_consistent by simp
next
  case (Wl_Wallet n r)
  then show ?thesis using assms wallet_click_consistent by simp
next
  case (Wl_Key k)
  then show ?thesis using assms key_down_consistent by simp
qed (use assms in \<open>simp_all add: close_click_def network_change_def modal_consistent_def\<close>)

lemma wallet_reach_run: "wallet_reach pg s \<Longrightarrow> wallet_reach pg (wallet_run pg s es)"
  unfolding wallet_run_def by (induction es arbitrary: s) (simp_all add: wallet_reach.step)

lemma key_escape_closes:
  "wp_modal pg \<Longrightarrow> ws_modal_hidden s = Some ''false'' \<Longrightarrow> key_down pg ''Escape'' s = close_modal s"
  by (simp add: key_down_def)

subsection \<open>Properties of the wallet modal\<close>

text \<open>C37: The modal's two attributes never disagree: in every reachable state the modal has aria-hidden="false" exactly when its inline display is flex, whatever sequence of connect, close, wallet, network, key and focus events the user produced.\<close>

lemma wallet_modal_consistent:
  assumes "wallet_reach pg s"
  shows "(ws_modal_hidden s = Some ''false'') = (ws_modal_display s = Some ''flex'')"
proof -
  have "modal_consistent s"
    using assms by (induction rule: wallet_reach.induct)
      (simp add: modal_consistent_def wallet_start_def, rule wallet_step_consistent)
  then show ?thesis by (simp add: modal_consistent_def)
qed

lemma wallet_modal_consistent_witness:
  "(ws_modal_hidden (wallet_run wallet_demo (wallet_start (Some ''true'')) [Wl_Connect, Wl_Wallet 2 ''a3f09'']) = Some ''false'')
   = (ws_modal_display (wallet_run wallet_demo (wallet_start (Some ''true'')) [Wl_Connect, Wl_Wallet 2 ''a3f09'']) = Some ''flex'')"
  by (rule wallet_modal_consistent, rule wallet_reach_run, rule wallet_reach.start) simp

text \<open>C38: The connect button drops its btn-primary class exactly when its label shows a connected wallet, in every reachable state: a wallet button whose data-wallet is missing or empty throws a TypeError at wallet[0].toUpperCase(), and one on a page without #connectWalletBtn at the label assignment, both before the class is removed, the toast is shown or the modal is closed.\<close>

lemma wallet_label_consistent:
  assumes "wallet_reach pg s"
  shows "ws_primary s = (ws_label s = Markup_Label)"
proof -
  have "label_consistent s"
    using assms by (induction rule: wallet_reach.induct)
      (simp add: label_consistent_def wallet_start_def, rule wallet_step_label)
  then show ?thesis by (simp add: label_consistent_def)
qed

lemma wallet_label_consistent_witness:
  "ws_primary (wallet_run wallet_demo (wallet_start (Some ''true'')) [Wl_Connect, Wl_Wallet 2 ''a3f09''])
   = (ws_label (wallet_run wallet_demo (wallet_start (Some ''true'')) [Wl_Connect, Wl_Wallet 2 ''a3f09'']) = Markup_Label)
   \<and> ws_primary (wallet_run wallet_demo (wallet_start (Some ''true'')) [Wl_Connect, Wl_Wallet 2 ''a3f09''])
   \<and> ws_modal_hidden (wallet_run wallet_demo (wallet_start (Some ''true'')) [Wl_Connect, Wl_Wallet 2 ''a3f09'']) = Some ''false''"
proof -
  have r: "wallet_reach wallet_demo (wallet_run wallet_demo (wallet_start (Some ''true'')) [Wl_Connect, Wl_Wallet 2 ''a3f09''])"
    by (rule wallet_reach_run, rule wallet_reach.start) simp
  have "ws_primary (wallet_run wallet_demo (wallet_start (Some ''true'')) [Wl_Connect, Wl_Wallet 2 ''a3f09''])
     \<and> ws_modal_hidden (wallet_run wallet_demo (wallet_start (Some ''true'')) [Wl_Connect, Wl_Wallet 2 ''a3f09'']) = Some ''false''"
    by (simp add: wallet_run_def wallet_demo_def wallet_start_def connect_click_def wallet_click_def capitalize_def)
  then show ?thesis using wallet_label_consistent [OF r] by simp
qed

end
