(* ===== verification/Page.thy ===== *)
theory Page
  imports JS_String Toast
begin

text \<open>
  The small independent handlers of src/script.js: scroll progress (lines 65-72),
  ticker (77-82), mobile menu (157-165), accordion (170-178), back to top
  (183-188), credential copy with \<open>generateShortId\<close> (240-257), newsletter form
  (262-275), feature filter (340-349), smooth in-page links (361-371) and the mint
  demo (376-383).  Each handler is a function from the attributes it reads to the
  attributes it writes; toasts go through the toast helper.

  What the browser computes and the model cannot (\<open>Math.random()\<close> and its
  \<open>toString(radix)\<close>, the clipboard, \<open>querySelector\<close> on an arbitrary selector)
  is an argument: the digits of the random number, whether the clipboard accepted
  the text, the result of the selector lookup.
\<close>

datatype page_error = Page_Type_Error | Page_Syntax_Error

subsection \<open>Scroll progress and back to top\<close>

text \<open>\<open>(window.scrollY / (scrollHeight - innerHeight)) * 100\<close>, capped at 100 by
  \<open>Math.min\<close> (lines 69-70).  The handler writes the number followed by \<open>%\<close>; the
  model keeps the number.\<close>

definition scroll_progress :: "rat \<Rightarrow> rat \<Rightarrow> rat \<Rightarrow> jsnum" where
  "scroll_progress scrollY scrollHeight innerHeight =
     js_min (Fin 100) (js_mul (js_div (Fin scrollY) (js_sub (Fin scrollHeight) (Fin innerHeight))) (Fin 100))"

text \<open>The scroll handler of lines 68-71: the width of \<open>.scroll-progress\<close>, if the
  page has one.\<close>

definition scroll_handler :: "bool \<Rightarrow> rat \<Rightarrow> rat \<Rightarrow> rat \<Rightarrow> jsnum option \<Rightarrow> jsnum option" where
  "scroll_handler has_bar scrollY scrollHeight innerHeight width =
     (if has_bar then Some (scroll_progress scrollY scrollHeight innerHeight) else width)"

text \<open>The scroll handler of lines 184-188: the class \<open>active\<close> of \<open>.back-to-top\<close>.\<close>

definition back_to_top :: "bool \<Rightarrow> rat \<Rightarrow> bool \<Rightarrow> bool" where
  "back_to_top has_btn scrollY active = (if \<not> has_btn then active else 400 < scrollY)"

subsection \<open>Mobile menu and accordion\<close>

text \<open>The click handler of \<open>#mobileToggle\<close> (lines 160-164): the new
  \<open>aria-expanded\<close> of the toggle and \<open>aria-hidden\<close> of the navigation, from the
  toggle's current \<open>aria-expanded\<close>.\<close>

definition mobile_click :: "string option \<Rightarrow> string option \<times> string option" where
  "mobile_click expanded0 =
     (let expanded = (expanded0 = Some ''true'')
      in (Some (if expanded then ''false'' else ''true''), Some (if expanded then ''true'' else ''false'')))"

text \<open>An \<open>.accordion-item\<close>: whether it has a header and a body, its class
  \<open>active\<close>, and its header's \<open>aria-expanded\<close>.\<close>

record acc_item =
  acc_header :: bool
  acc_body :: bool
  acc_active :: bool
  acc_expanded :: "string option"

text \<open>The click handler bound to the header of an item that has both parts
  (lines 173-177); \<open>classList.toggle\<close> returns the new state.\<close>

definition acc_toggle :: "acc_item \<Rightarrow> acc_item" where
  "acc_toggle it =
     (let isActive = \<not> acc_active it
      in it\<lparr>acc_active := isActive, acc_expanded := Some (if isActive then ''true'' else ''false'')\<rparr>)"

definition accordion_click :: "nat \<Rightarrow> acc_item list \<Rightarrow> acc_item list" where
  "accordion_click n items =
     (if n < length items \<and> acc_header (items ! n) \<and> acc_body (items ! n)
      then items[n := acc_toggle (items ! n)] else items)"

subsection \<open>Feature filter\<close>

text \<open>The change handler of \<open>#featureFilter\<close> (lines 342-348) over the cards of
  \<open>#featureGrid\<close>, each given by its \<open>data-type\<close> and its inline display.\<close>

definition filter_card :: "string \<Rightarrow> string option \<times> string \<Rightarrow> string option \<times> string" where
  "filter_card v c = (fst c, if v = ''all'' \<or> fst c = Some v then [] else ''none'')"

definition feature_filter :: "string \<Rightarrow> (string option \<times> string) list \<Rightarrow> (string option \<times> string) list" where
  "feature_filter v cards = map (filter_card v) cards"

subsection \<open>Newsletter and credential copy\<close>

text \<open>The submit handler of \<open>#newsletterForm\<close> (lines 264-274).  \<open>email\<close> is the
  value of \<open>#newsletterEmail\<close> (\<open>None\<close>: no such element, so reading \<open>.value\<close>
  throws).  The result is the handler's toast message and whether it reset the
  form.  The em dash of the success message is written \<open>--\<close>.\<close>

definition newsletter_submit :: "string option \<Rightarrow> page_error + (string \<times> bool)" where
  "newsletter_submit email =
     (case email of
        None \<Rightarrow> Inl Page_Type_Error
      | Some v \<Rightarrow>
          (let e = js_trim v
           in if e = [] \<or> \<not> js_includes e ''@'' then Inr (''Enter a valid email'', False)
              else Inr (''Subscribed -- check your inbox (demo)'', True)))"

text \<open>\<open>generateShortId\<close> (lines 255-257): \<open>digits\<close> are the characters of
  \<open>Math.random().toString(36)\<close> after \<open>0.\<close>, of which \<open>slice(2,10)\<close> keeps eight
  at most.\<close>

definition generateShortId :: "string \<Rightarrow> string" where
  "generateShortId digits = ''SP-'' @ js_upper (take 8 digits)"

text \<open>The click handler of \<open>#copySearchBtn\<close> (lines 243-251): the text it copies
  and its toast; \<open>accepted\<close> is whether \<open>navigator.clipboard.writeText\<close>
  resolved.\<close>

definition copy_click :: "string \<Rightarrow> string \<Rightarrow> bool \<Rightarrow> string \<times> string" where
  "copy_click search digits accepted =
     (let text = (if search = [] then generateShortId digits else search)
      in (text, if accepted then ''Credential ID copied to clipboard'' else ''Copy failed''))"

subsection \<open>Smooth links, ticker and mint demo\<close>

text \<open>The document click handler (lines 361-371) for a click inside a link whose
  \<open>href\<close> starts with \<open>#\<close>.  \<open>lookup\<close> is \<open>document.querySelector(href)\<close>:
  \<open>None\<close> when the selector is invalid and the call throws.\<close>

datatype link_action = Link_Default | Link_Prevent | Link_Scroll elem

definition link_click :: "(string \<Rightarrow> elem option option) \<Rightarrow> string \<Rightarrow> page_error + link_action" where
  "link_click lookup href =
     (if length href \<le> 1 then Inr Link_Default
      else case lookup href of
             None \<Rightarrow> Inl Page_Syntax_Error
           | Some None \<Rightarrow> Inr Link_Prevent
           | Some (Some t) \<Rightarrow> Inr (Link_Scroll t))"

text \<open>\<open>initTicker\<close> (lines 77-82): \<open>track.innerHTML += track.innerHTML\<close> doubles the
  children of \<open>#tickerTrack\<close>.\<close>

definition initTicker :: "'a list option \<Rightarrow> 'a list option" where
  "initTicker track = map_option (\<lambda>cs. cs @ cs) track"

text \<open>\<open>mintDemo\<close> (lines 376-383): \<open>Math.floor(200 + Math.random()*1000)\<close> for the
  random number \<open>r\<close>; the text's leading emoji is not ASCII and is left out.\<close>

definition mint_count :: "rat \<Rightarrow> int" where
  "mint_count r = \<lfloor>200 + r * 1000\<rfloor>"

datatype ticker_child = Markup_Child nat | Mint_Span string

definition mintDemo :: "rat \<Rightarrow> ticker_child list option \<Rightarrow> ticker_child list option" where
  "mintDemo r track =
     map_option (\<lambda>cs. cs @ [Mint_Span (''Credentials Minted: '' @ js_int_to_string (mint_count r))]) track"

subsection \<open>Lemmas\<close>

lemma scroll_progress_flat: "scroll_progress 0 h h = NaN"
  by (simp add: scroll_progress_def js_sub_def js_min_def)

lemma scroll_progress_overscroll:
  "innerHeight < scrollHeight \<Longrightarrow> scrollHeight - innerHeight \<le> scrollY \<Longrightarrow> scroll_progress scrollY scrollHeight innerHeight = Fin 100"
  by (simp add: scroll_progress_def js_sub_def min_def le_divide_eq)

lemma back_to_top_active: "back_to_top True y a = (400 < y)"
  by (simp add: back_to_top_def)

lemma mobile_click_consistent:
  "snd (mobile_click e) = Some (if fst (mobile_click e) = Some ''true'' then ''false'' else ''true'')"
  by (simp add: mobile_click_def Let_def)

lemma mobile_click_twice: "x \<in> {''true'', ''false''} \<Longrightarrow> fst (mobile_click (fst (mobile_click (Some x)))) = Some x"
  by (auto simp: mobile_click_def Let_def)

lemma accordion_click_length [simp]: "length (accordion_click n items) = length items"
  by (simp add: accordion_click_def)

lemma accordion_click_nth:
  "i < length items \<Longrightarrow> accordion_click n items ! i =
     (if n = i \<and> acc_header (items ! i) \<and> acc_body (items ! i) then acc_toggle (items ! i) else items ! i)"
  by (auto simp: accordion_click_def nth_list_update)

lemma acc_toggle_fields [simp]:
  "acc_header (acc_toggle it) = acc_header it" "acc_body (acc_toggle it) = acc_body it"
  "acc_active (acc_toggle it) = (\<not> acc_active it)"
  "acc_expanded (acc_toggle it) = Some (if acc_active (acc_toggle it) then ''true'' else ''false'')"
  by (simp_all add: acc_toggle_def Let_def)

lemma accordion_run_other:
  "i \<notin> set ns \<Longrightarrow> i < length items \<Longrightarrow> foldl (\<lambda>its n. accordion_click n its) items ns ! i = items ! i"
  by (induction ns arbitrary: items) (auto simp: accordion_click_nth)

lemma feature_filter_shown:
  "i < length cards \<Longrightarrow> (snd (feature_filter v cards ! i) = []) = (v = ''all'' \<or> fst (cards ! i) = Some v)"
  by (simp add: feature_filter_def filter_card_def)

lemma mint_count_bounds: "0 \<le> r \<Longrightarrow> r < 1 \<Longrightarrow> 200 \<le> mint_count r \<and> mint_count r \<le> 1199"
  by (simp add: mint_count_def floor_le_iff le_floor_iff)

text \<open>The ticker track after \<open>initTicker\<close> and \<open>mintDemo\<close>: the span of the demo
  comes after the doubling, so the track is no longer two equal halves.\<close>

lemma ticker_halves_unequal: "mintDemo r (initTicker (Some cs)) \<noteq> Some (h @ h)"
proof
  assume "mintDemo r (initTicker (Some cs)) = Some (h @ h)"
  then obtain x where "cs @ cs @ [x] = h @ h" by (auto simp: mintDemo_def initTicker_def)
  from arg_cong [OF this, of length] have "Suc (length cs + length cs) = length h + length h" by simp
  then show False by presburger
qed

lemma link_click_invalid: "1 < length href \<Longrightarrow> lookup href = None \<Longrightarrow> link_click lookup href = Inl Page_Syntax_Error"
  by (simp add: link_click_def)

lemma newsletter_no_input: "newsletter_submit None = Inl Page_Type_Error"
  by (simp add: newsletter_submit_def)

subsection \<open>Properties of the page handlers\<close>

text \<open>C10: The accordion keeps no hidden state: after any sequence of header clicks, an item with a header and a body is active exactly when its markup state was flipped an odd number of times (classList.toggle, line 175), and once clicked its header's aria-expanded says whether it is active; clicks on other items and items without both parts are left alone.\<close>

theorem accordion_parity:
  assumes "i < length items"
  shows "acc_active (foldl (\<lambda>its n. accordion_click n its) items ns ! i) =
           (if acc_header (items ! i) \<and> acc_body (items ! i) then acc_active (items ! i) \<noteq> odd (count_list ns i)
            else acc_active (items ! i))
         \<and> (acc_header (items ! i) \<and> acc_body (items ! i) \<and> i \<in> set ns \<longrightarrow>
              acc_expanded (foldl (\<lambda>its n. accordion_click n its) items ns ! i) =
                Some (if acc_active (foldl (\<lambda>its n. accordion_click n its) items ns ! i) then ''true'' else ''false''))"
  using assms
proof (induction ns arbitrary: items)
  case Nil
  then show ?case by simp
next
  case (Cons n ns)
  let ?it = "accordion_click n items"
  have l: "i < length ?it" using Cons.prems by simp
  have hb: "acc_header (?it ! i) = acc_header (items ! i)" "acc_body (?it ! i) = acc_body (items ! i)"
    using Cons.prems by (simp_all add: accordion_click_nth)
  have ih: "acc_active (foldl (\<lambda>its n. accordion_click n its) ?it ns ! i) =
           (if acc_header (items ! i) \<and> acc_body (items ! i) then acc_active (?it ! i) \<noteq> odd (count_list ns i)
            else acc_active (?it ! i))
         \<and> (acc_header (items ! i) \<and> acc_body (items ! i) \<and> i \<in> set ns \<longrightarrow>
              acc_expanded (foldl (\<lambda>its n. accordion_click n its) ?it ns ! i) =
                Some (if acc_active (foldl (\<lambda>its n. accordion_click n its) ?it ns ! i) then ''true'' else ''false''))"
    using Cons.IH [OF l] hb by simp
  have "i \<notin> set ns \<Longrightarrow> foldl (\<lambda>its n. accordion_click n its) ?it ns ! i = ?it ! i"
    using accordion_run_other [OF _ l] by blast
  then show ?case using ih Cons.prems by (auto simp: accordion_click_nth)
qed

theorem accordion_parity_witness:
  "acc_active (foldl (\<lambda>its n. accordion_click n its)
      [\<lparr>acc_header = True, acc_body = True, acc_active = False, acc_expanded = None\<rparr>,
       \<lparr>acc_header = True, acc_body = False, acc_active = False, acc_expanded = None\<rparr>] [0, 1, 0, 0] ! 0)
   \<and> acc_expanded (foldl (\<lambda>its n. accordion_click n its)
      [\<lparr>acc_header = True, acc_body = True, acc_active = False, acc_expanded = None\<rparr>,
       \<lparr>acc_header = True, acc_body = False, acc_active = False, acc_expanded = None\<rparr>] [0, 1, 0, 0] ! 0) = Some ''true''"
  using accordion_parity [of 0 "[\<lparr>acc_header = True, acc_body = True, acc_active = False, acc_expanded = None\<rparr>,
       \<lparr>acc_header = True, acc_body = False, acc_active = False, acc_expanded = None\<rparr>]" "[0, 1, 0, 0]"]
  by simp

text \<open>C39: The scroll progress written by the handler of line 69 is NaN exactly on a page that does not scroll (scrollHeight = innerHeight) at the top, and otherwise a finite width between 0 and 100, also when the scroll position lies beyond scrollHeight - innerHeight (Math.min caps it) or the page is shorter than the window (scrollY is then 0).\<close>

lemma scroll_progress_bounds:
  assumes "0 \<le> scrollY" and "innerHeight < scrollHeight \<or> scrollY = 0"
  shows "scroll_progress scrollY scrollHeight innerHeight \<in> insert NaN (Fin ` {0..100})
         \<and> (scroll_progress scrollY scrollHeight innerHeight = NaN) = (scrollY = 0 \<and> scrollHeight = innerHeight)"
proof (cases "scrollY = 0")
  case True
  then show ?thesis
    by (cases "scrollHeight = innerHeight") (simp_all add: scroll_progress_def js_sub_def js_min_def)
next
  case False
  let ?d = "scrollHeight - innerHeight"
  have d: "0 < ?d" and y: "0 < scrollY" using assms False by auto
  have "0 \<le> min 100 (scrollY / ?d * 100)" using d y by simp
  then have "Fin (min 100 (scrollY / ?d * 100)) \<in> Fin ` {0..100}" by auto
  then show ?thesis using d False by (simp add: scroll_progress_def js_sub_def)
qed

lemma scroll_progress_bounds_witness:
  "scroll_progress 2000 1800 800 \<in> insert NaN (Fin ` {0..100})
   \<and> (scroll_progress 2000 1800 800 = NaN) = ((2000::rat) = 0 \<and> (1800::rat) = 800)"
  by (rule scroll_progress_bounds) simp_all

end
