(* ===== verification/Lazy_Reveal.thy ===== *)
theory Lazy_Reveal
  imports Intersection_Observer
begin

text \<open>
  The lazy reveal IIFE \<open>initLazyReveal\<close> (src/script.js, lines 317-335).  It
  observes every \<open>img[data-src]\<close> and every \<open>.fade-in\<close> element with threshold
  0.12; an intersecting entry gets the class \<open>visible\<close>, an image with a
  \<open>data-src\<close> gets it as its \<open>src\<close> (the attribute is removed and an \<open>onload\<close>
  handler adds the class \<open>loaded\<close>), and the target is unobserved.  The
  \<open>.fade-in\<close> elements are also observed by \<open>revealOnLoad\<close> (theory Counters):
  the two observers are independent and both add \<open>visible\<close>.

  \<open>lazy_dom\<close> is what the IIFE reads from the page, \<open>lazy_state\<close> what it and the
  browser's image loading change.
\<close>

record lazy_dom =
  lz_elems :: "elem list"
  lz_is_img :: "elem \<Rightarrow> bool"
  lz_src0 :: "elem \<Rightarrow> string option"
  lz_data_src0 :: "elem \<Rightarrow> string option"

record lazy_state =
  lz_visible :: "elem set"
  lz_src :: "elem \<Rightarrow> string option"
  lz_data_src :: "elem \<Rightarrow> string option"
  lz_onload :: "elem set"
  lz_loaded :: "elem set"
  lz_obs :: "io_obs option"

definition lazy_start :: "lazy_dom \<Rightarrow> lazy_state" where
  "lazy_start pg =
     \<lparr>lz_visible = {}, lz_src = lz_src0 pg, lz_data_src = lz_data_src0 pg, lz_onload = {}, lz_loaded = {},
      lz_obs = None\<rparr>"

text \<open>\<open>initLazyReveal\<close> (lines 317-335): nothing when no element matches.\<close>

definition initLazyReveal :: "lazy_dom \<Rightarrow> lazy_state \<Rightarrow> lazy_state" where
  "initLazyReveal pg s =
     (if lz_elems pg = [] then s
      else s\<lparr>lz_obs := Some (foldl (\<lambda>ob el. io_observe el ob) (io_new [12 / 100]) (lz_elems pg))\<rparr>)"

text \<open>The body of \<open>entries.forEach\<close> (lines 322-331): \<open>t.dataset.src\<close> is tested
  for truthiness; \<open>o.unobserve(t)\<close> acts on the observer.\<close>

definition lazy_on_entry :: "lazy_dom \<Rightarrow> lazy_state \<Rightarrow> io_entry \<Rightarrow> lazy_state" where
  "lazy_on_entry pg s entry =
     (if \<not> ent_intersecting entry then s
      else
        (let t = ent_target entry;
             s1 = s\<lparr>lz_visible := insert t (lz_visible s)\<rparr>;
             s2 = (case lz_data_src s1 t of
                     Some d \<Rightarrow>
                       if lz_is_img pg t \<and> d \<noteq> [] then
                         s1\<lparr>lz_src := (lz_src s1)(t \<mapsto> d), lz_data_src := (lz_data_src s1)(t := None),
                            lz_onload := insert t (lz_onload s1)\<rparr>
                       else s1
                   | None \<Rightarrow> s1)
         in s2\<lparr>lz_obs := map_option (io_unobserve t) (lz_obs s2)\<rparr>))"

definition lazy_callback :: "lazy_dom \<Rightarrow> io_entry list \<Rightarrow> lazy_state \<Rightarrow> lazy_state" where
  "lazy_callback pg es s = foldl (lazy_on_entry pg) s es"

text \<open>The browser: intersection updates, delivery of the queued entries, and the
  load of an image, which runs its \<open>onload\<close> handler if one was set.\<close>

datatype lazy_event = Lz_Update elem rat bool | Lz_Deliver | Lz_Image_Load elem

fun lazy_step :: "lazy_dom \<Rightarrow> lazy_state \<Rightarrow> lazy_event \<Rightarrow> lazy_state" where
  "lazy_step pg s (Lz_Update t r i) = s\<lparr>lz_obs := map_option (io_update t r i) (lz_obs s)\<rparr>"
| "lazy_step pg s Lz_Deliver =
     (case lz_obs s of
        None \<Rightarrow> s
      | Some ob \<Rightarrow> lazy_callback pg (fst (io_take ob)) (s\<lparr>lz_obs := Some (snd (io_take ob))\<rparr>))"
| "lazy_step pg s (Lz_Image_Load t) =
     (if t \<in> lz_onload s then s\<lparr>lz_loaded := insert t (lz_loaded s)\<rparr> else s)"

inductive lazy_reach :: "lazy_dom \<Rightarrow> lazy_state \<Rightarrow> bool" for pg where
  start: "lazy_reach pg (initLazyReveal pg (lazy_start pg))"
| step: "lazy_reach pg s \<Longrightarrow> lazy_reach pg (lazy_step pg s e)"

text \<open>An element whose \<open>data-src\<close> was taken is an image with a non-empty
  \<open>data-src\<close> in the markup, which is now its \<open>src\<close>, the attribute removed and an
  \<open>onload\<close> handler set; every other element keeps both attributes of the markup
  and is never marked \<open>loaded\<close>.\<close>

definition lazy_inv :: "lazy_dom \<Rightarrow> lazy_state \<Rightarrow> bool" where
  "lazy_inv pg s =
     ((\<forall>e. if e \<in> lz_onload s
           then lz_is_img pg e \<and> (\<exists>d. d \<noteq> [] \<and> lz_data_src0 pg e = Some d) \<and>
                lz_src s e = lz_data_src0 pg e \<and> lz_data_src s e = None
           else lz_src s e = lz_src0 pg e \<and> lz_data_src s e = lz_data_src0 pg e)
      \<and> lz_loaded s \<subseteq> lz_onload s)"

text \<open>A page with one lazy image 1 (no markup \<open>src\<close>, \<open>data-src="a.png"\<close>).\<close>

definition lazy_demo :: lazy_dom where
  "lazy_demo =
     \<lparr>lz_elems = [1], lz_is_img = (\<lambda>e. e = 1), lz_src0 = (\<lambda>e. None),
      lz_data_src0 = (\<lambda>e. if e = 1 then Some ''a.png'' else None)\<rparr>"

subsection \<open>Lemmas\<close>

lemma lazy_inv_obs [simp]: "lazy_inv pg (s\<lparr>lz_obs := x\<rparr>) = lazy_inv pg s"
  by (simp add: lazy_inv_def)

lemma lazy_inv_load:
  assumes inv: "lazy_inv pg s" and d: "lz_data_src s t = Some d" and img: "lz_is_img pg t" and ne: "d \<noteq> []"
  shows "lazy_inv pg (s\<lparr>lz_src := (lz_src s)(t \<mapsto> d), lz_data_src := (lz_data_src s)(t := None),
           lz_onload := insert t (lz_onload s)\<rparr>)"
proof -
  have t0: "t \<notin> lz_onload s" "lz_data_src0 pg t = Some d"
    using inv d unfolding lazy_inv_def by (metis option.distinct(1))+
  show ?thesis using inv t0 img ne unfolding lazy_inv_def by auto
qed

lemma lazy_inv_visible [simp]: "lazy_inv pg (s\<lparr>lz_visible := v\<rparr>) = lazy_inv pg s"
  by (simp add: lazy_inv_def)

lemma lazy_on_entry_inv:
  assumes "lazy_inv pg s"
  shows "lazy_inv pg (lazy_on_entry pg s entry)"
proof (cases "ent_intersecting entry")
  case True
  let ?t = "ent_target entry"
  show ?thesis
  proof (cases "lz_data_src s ?t")
    case (Some d)
    show ?thesis
    proof (cases "lz_is_img pg ?t \<and> d \<noteq> []")
      case True
      then have "lazy_inv pg (s\<lparr>lz_src := (lz_src s)(?t \<mapsto> d), lz_data_src := (lz_data_src s)(?t := None),
             lz_onload := insert ?t (lz_onload s)\<rparr>)"
        using lazy_inv_load [OF assms Some] by blast
      moreover have "lazy_on_entry pg s entry =
          (s\<lparr>lz_src := (lz_src s)(?t \<mapsto> d), lz_data_src := (lz_data_src s)(?t := None),
             lz_onload := insert ?t (lz_onload s)\<rparr>)\<lparr>lz_visible := insert ?t (lz_visible s),
             lz_obs := map_option (io_unobserve ?t) (lz_obs s)\<rparr>"
        using \<open>ent_intersecting entry\<close> Some True by (simp add: lazy_on_entry_def Let_def)
      ultimately show ?thesis by simp
    next
      case False
      then have "lazy_on_entry pg s entry =
          s\<lparr>lz_visible := insert ?t (lz_visible s), lz_obs := map_option (io_unobserve ?t) (lz_obs s)\<rparr>"
        using \<open>ent_intersecting entry\<close> Some by (auto simp: lazy_on_entry_def Let_def)
      then show ?thesis using assms by simp
    qed
  qed (use True assms in \<open>simp add: lazy_on_entry_def Let_def\<close>)
qed (use assms in \<open>simp add: lazy_on_entry_def\<close>)

lemma lazy_step_inv:
  assumes inv: "lazy_inv pg s"
  shows "lazy_inv pg (lazy_step pg s e)"
proof (cases e)
  case Lz_Deliver
  show ?thesis
  proof (cases "lz_obs s")
    case (Some ob)
    have "lazy_inv pg (foldl (lazy_on_entry pg) (s\<lparr>lz_obs := Some (snd (io_take ob))\<rparr>) (fst (io_take ob)))"
      by (rule foldl_keep [where P = "lazy_inv pg"]) (use inv in \<open>simp_all add: lazy_on_entry_inv\<close>)
    with Lz_Deliver Some show ?thesis by (simp add: lazy_callback_def)
  qed (use Lz_Deliver inv in simp)
qed (use inv in \<open>auto simp: lazy_inv_def\<close>)

lemma lazy_reach_inv: "lazy_reach pg s \<Longrightarrow> lazy_inv pg s"
  by (induction rule: lazy_reach.induct)
    (simp add: lazy_inv_def lazy_start_def initLazyReveal_def, rule lazy_step_inv)

lemma lazy_on_entry_unobserves:
  assumes "ent_intersecting entry" and "lz_obs s = Some ob"
  shows "lz_obs (lazy_on_entry pg s entry) = Some (io_unobserve (ent_target entry) ob)"
  using assms by (simp add: lazy_on_entry_def Let_def split: option.split)

lemma lazy_on_entry_loads:
  assumes "ent_intersecting entry" and "lz_is_img pg (ent_target entry)"
    and "lz_data_src s (ent_target entry) = Some d" and "d \<noteq> []"
  shows "lz_src (lazy_on_entry pg s entry) (ent_target entry) = Some d
         \<and> lz_data_src (lazy_on_entry pg s entry) (ent_target entry) = None"
  using assms by (simp add: lazy_on_entry_def Let_def)

subsection \<open>Properties of the lazy reveal\<close>

text \<open>C40: In every state of the lazy reveal, an element whose data-src was taken is an image whose markup data-src is non-empty, now its src, with the attribute removed; every other element keeps the src and data-src of the markup and is never marked loaded: the src write, the removeAttribute and the onload handler of lines 327-328 go together.\<close>

theorem lazy_images_consistent:
  assumes "lazy_reach pg s"
  shows "if e \<in> lz_onload s
         then lz_is_img pg e \<and> (\<exists>d. d \<noteq> [] \<and> lz_data_src0 pg e = Some d) \<and>
              lz_src s e = lz_data_src0 pg e \<and> lz_data_src s e = None
         else lz_src s e = lz_src0 pg e \<and> lz_data_src s e = lz_data_src0 pg e \<and> e \<notin> lz_loaded s"
  using lazy_reach_inv [OF assms] unfolding lazy_inv_def by auto

theorem lazy_images_consistent_witness:
  "lz_src (lazy_step lazy_demo (lazy_step lazy_demo (initLazyReveal lazy_demo (lazy_start lazy_demo))
      (Lz_Update 1 (1 / 2) True)) Lz_Deliver) 1 = Some ''a.png''
   \<and> lz_data_src (lazy_step lazy_demo (lazy_step lazy_demo (initLazyReveal lazy_demo (lazy_start lazy_demo))
      (Lz_Update 1 (1 / 2) True)) Lz_Deliver) 1 = None"
proof -
  let ?s = "lazy_step lazy_demo (lazy_step lazy_demo (initLazyReveal lazy_demo (lazy_start lazy_demo))
      (Lz_Update 1 (1 / 2) True)) Lz_Deliver"
  have r: "lazy_reach lazy_demo ?s" by (intro lazy_reach.step lazy_reach.start)
  have o: "1 \<in> lz_onload ?s" by code_simp
  show ?thesis using lazy_images_consistent [OF r, of 1] o by (simp add: lazy_demo_def)
qed

end
