(* ===== verification/Skill_Progress.thy ===== *)
theory Skill_Progress
  imports JS_String Intersection_Observer
begin

text \<open>
  The skill-progress bars (src/script.js, lines 386-471, the IIFE headed
  \<open>skills-progress.js\<close>): the RevealAnimator of the spec.  Each \<open>.progress-bg\<close>
  container holds a \<open>.progress-fill\<close> bar; the \<open>span:last-child\<close> of its
  previous sibling is the percent label.  At start-up the labels read \<open>0%\<close>, the
  bars are 0\% wide and the containers are observed with threshold 0.25.  When a
  container's entry reports it intersecting, its bar and label are animated from 0
  to the bar's \<open>data-width\<close> with an ease-out cubic, over a duration proportional
  to the percentage clamped to 600-1200 ms, and the container is unobserved.  With
  reduced motion the bars get their final width at once and nothing is observed.

  The page structure the script only reads is \<open>skills_dom\<close>; what the script
  writes is \<open>skills_state\<close>: inline widths, label texts, the observer, the
  pending \<open>requestAnimationFrame\<close> callbacks and the clock.  The field
  \<open>sk_triggered\<close> is instrumentation: it logs each container whose intersecting
  entry the callback handled, so that "animated once" can be stated.
\<close>

record skill_row =
  row_bg :: elem
  row_fill :: "elem option"
  row_label :: "elem option"

record skills_dom =
  sd_reduced :: bool
  sd_fills :: "elem list"
  sd_rows :: "skill_row list"
  sd_data_width :: "elem \<Rightarrow> string option"

text \<open>An inline width is either a string the script assigns (\<open>'0%'\<close>, a
  \<open>data-width\<close> value) or a Number followed by \<open>'%'\<close>.\<close>

datatype css_width = Width_Text string | Width_Pct jsnum

text \<open>A pending animation-frame callback: the \<open>step\<close> closure of
  \<open>animateBar\<close> or \<open>animateNumber\<close> with the values it captured
  (element, target, start time, duration).\<close>

datatype anim_task =
    Bar_Step elem jsnum ms jsnum
  | Number_Step elem jsnum ms jsnum

record skills_state =
  sk_width :: "elem \<Rightarrow> css_width option"
  sk_text :: "elem \<Rightarrow> string option"
  sk_obs :: "io_obs option"
  sk_raf :: "anim_task list"
  sk_now :: ms
  sk_triggered :: "elem list"

definition skills_start :: "ms \<Rightarrow> skills_state" where
  "skills_start t0 =
     \<lparr>sk_width = Map.empty, sk_text = Map.empty, sk_obs = None, sk_raf = [],
      sk_now = t0, sk_triggered = []\<rparr>"

subsection \<open>The helpers of the IIFE\<close>

text \<open>\<open>parsePercent\<close> (lines 400-403).\<close>

definition parsePercent :: "string \<Rightarrow> jsnum" where
  "parsePercent p =
     (if p = [] then Fin 0
      else js_or (js_string_to_number (js_replace_first (js_trim p) ''%'' [])) (Fin 0))"

text \<open>\<open>animateNumber\<close> (lines 406-417): the call records the start time and
  requests the first frame; \<open>number_step\<close> is its \<open>step\<close> closure.\<close>

definition animateNumber :: "elem \<Rightarrow> jsnum \<Rightarrow> jsnum \<Rightarrow> skills_state \<Rightarrow> skills_state" where
  "animateNumber el target duration s =
     s\<lparr>sk_raf := sk_raf s @ [Number_Step el target (sk_now s) duration]\<rparr>"

definition number_step :: "elem \<Rightarrow> jsnum \<Rightarrow> ms \<Rightarrow> jsnum \<Rightarrow> ms \<Rightarrow> skills_state \<Rightarrow> skills_state" where
  "number_step el target startTime duration time s =
     (let start = Fin 0;
          progress = js_min (js_div (js_sub (Fin time) (Fin startTime)) duration) (Fin 1);
          eased = js_sub (Fin 1) (js_pow_nat (js_sub (Fin 1) progress) 3);
          value = js_round (js_add start (js_mul (js_sub target start) eased));
          s' = s\<lparr>sk_text := (sk_text s)(el \<mapsto> js_integral_to_string value @ ''%'')\<rparr>
      in if js_less progress (Fin 1)
         then s'\<lparr>sk_raf := sk_raf s' @ [Number_Step el target startTime duration]\<rparr>
         else s')"

text \<open>\<open>animateBar\<close> (lines 420-431) and its \<open>step\<close> closure.\<close>

definition animateBar :: "elem \<Rightarrow> jsnum \<Rightarrow> jsnum \<Rightarrow> skills_state \<Rightarrow> skills_state" where
  "animateBar el targetPercent duration s =
     (let target = js_max (Fin 0) (js_min (Fin 100) targetPercent)
      in s\<lparr>sk_width := (sk_width s)(el \<mapsto> Width_Text ''0%''),
           sk_raf := sk_raf s @ [Bar_Step el target (sk_now s) duration]\<rparr>)"

definition bar_step :: "elem \<Rightarrow> jsnum \<Rightarrow> ms \<Rightarrow> jsnum \<Rightarrow> ms \<Rightarrow> skills_state \<Rightarrow> skills_state" where
  "bar_step el target startTime duration time s =
     (let progress = js_min (js_div (js_sub (Fin time) (Fin startTime)) duration) (Fin 1);
          eased = js_sub (Fin 1) (js_pow_nat (js_sub (Fin 1) progress) 3);
          s' = s\<lparr>sk_width := (sk_width s)(el \<mapsto> Width_Pct (js_mul target eased))\<rparr>
      in if js_less progress (Fin 1)
         then s'\<lparr>sk_raf := sk_raf s' @ [Bar_Step el target startTime duration]\<rparr>
         else s')"

text \<open>One frame: the callbacks requested before the frame run in request order with
  the frame's time stamp; those they request run in the next frame.\<close>

fun run_task :: "ms \<Rightarrow> skills_state \<Rightarrow> anim_task \<Rightarrow> skills_state" where
  "run_task time s (Bar_Step el target st d) = bar_step el target st d time s"
| "run_task time s (Number_Step el target st d) = number_step el target st d time s"

definition skills_frame :: "ms \<Rightarrow> skills_state \<Rightarrow> skills_state" where
  "skills_frame time s = foldl (run_task time) (s\<lparr>sk_raf := [], sk_now := time\<rparr>) (sk_raf s)"

subsection \<open>The observer callback\<close>

text \<open>The duration policy of line 447.\<close>

definition skill_duration :: "jsnum \<Rightarrow> jsnum" where
  "skill_duration pct = js_max (Fin 600) (js_min (Fin 1200) (js_mul pct (Fin 12)))"

text \<open>The container's \<open>.progress-fill\<close> and percent label, as the callback and
  the set-up loop look them up.\<close>

definition find_row :: "skills_dom \<Rightarrow> elem \<Rightarrow> skill_row option" where
  "find_row pg c = find (\<lambda>r. row_bg r = c) (sd_rows pg)"

text \<open>The body of \<open>entries.forEach\<close> (lines 435-456) for one entry.\<close>

definition skill_on_entry :: "skills_dom \<Rightarrow> skills_state \<Rightarrow> io_entry \<Rightarrow> skills_state" where
  "skill_on_entry pg s entry =
     (if \<not> ent_intersecting entry then s
      else
        (let container = ent_target entry;
             row = find_row pg container;
             bar = (case row of Some r \<Rightarrow> row_fill r | None \<Rightarrow> None);
             percentLabel = (case row of Some r \<Rightarrow> row_label r | None \<Rightarrow> None);
             s1 = s\<lparr>sk_triggered := sk_triggered s @ [container]\<rparr>;
             s2 = (case bar of
                     None \<Rightarrow> s1
                   | Some b \<Rightarrow>
                       (let dataWidth = js_str_or (sd_data_width pg b) ''0%'';
                            pct = parsePercent dataWidth;
                            duration = skill_duration pct;
                            s3 = animateBar b pct duration s1
                        in case percentLabel of
                             None \<Rightarrow> s3
                           | Some l \<Rightarrow> animateNumber l pct duration s3))
         in s2\<lparr>sk_obs := map_option (io_unobserve container) (sk_obs s2)\<rparr>))"

definition skill_callback :: "skills_dom \<Rightarrow> io_entry list \<Rightarrow> skills_state \<Rightarrow> skills_state" where
  "skill_callback pg entries s = foldl (skill_on_entry pg) s entries"

subsection \<open>Start-up\<close>

text \<open>Reduced motion (lines 389-397): every \<open>.progress-fill\<close> of the document gets
  its \<open>data-width\<close> (or \<open>'0%'\<close>) at once, and the IIFE returns.\<close>

definition skills_init_reduced :: "skills_dom \<Rightarrow> skills_state \<Rightarrow> skills_state" where
  "skills_init_reduced pg s =
     foldl (\<lambda>s el. s\<lparr>sk_width := (sk_width s)(el \<mapsto> Width_Text (js_str_or (sd_data_width pg el) ''0%''))\<rparr>)
       s (sd_fills pg)"

text \<open>The set-up loop over \<open>.progress-bg\<close> (lines 460-469), one container.\<close>

definition skills_attach :: "skills_state \<Rightarrow> skill_row \<Rightarrow> skills_state" where
  "skills_attach s r =
     (let s1 = (case row_label r of
                  Some l \<Rightarrow> s\<lparr>sk_text := (sk_text s)(l \<mapsto> ''0%'')\<rparr>
                | None \<Rightarrow> s);
          s2 = (case row_fill r of
                  Some f \<Rightarrow> s1\<lparr>sk_width := (sk_width s1)(f \<mapsto> Width_Text ''0%'')\<rparr>
                | None \<Rightarrow> s1)
      in s2\<lparr>sk_obs := map_option (io_observe (row_bg r)) (sk_obs s2)\<rparr>)"

text \<open>The whole IIFE (lines 387-471): the reduced-motion test, then the observer
  with threshold 0.25 and the set-up loop.\<close>

definition skills_init :: "skills_dom \<Rightarrow> skills_state \<Rightarrow> skills_state" where
  "skills_init pg s =
     (if sd_reduced pg then skills_init_reduced pg s
      else foldl skills_attach (s\<lparr>sk_obs := Some (io_new [1 / 4])\<rparr>) (sd_rows pg))"

subsection \<open>The component in its environment\<close>

text \<open>
  After start-up the component reacts to three kinds of event from the browser: an
  intersection update of a target, the delivery of the queued entries to the
  callback, and an animation frame; the clock may also advance between tasks.
\<close>

datatype sk_event = Sk_Update elem rat bool | Sk_Deliver | Sk_Frame ms | Sk_Clock ms

fun skills_step :: "skills_dom \<Rightarrow> skills_state \<Rightarrow> sk_event \<Rightarrow> skills_state" where
  "skills_step pg s (Sk_Update t r i) = s\<lparr>sk_obs := map_option (io_update t r i) (sk_obs s)\<rparr>"
| "skills_step pg s Sk_Deliver =
     (case sk_obs s of
        None \<Rightarrow> s
      | Some ob \<Rightarrow> skill_callback pg (fst (io_take ob)) (s\<lparr>sk_obs := Some (snd (io_take ob))\<rparr>))"
| "skills_step pg s (Sk_Frame t) = skills_frame t s"
| "skills_step pg s (Sk_Clock t) = s\<lparr>sk_now := t\<rparr>"

definition skills_run :: "skills_dom \<Rightarrow> skills_state \<Rightarrow> sk_event list \<Rightarrow> skills_state" where
  "skills_run pg s es = foldl (skills_step pg) s es"

text \<open>
  The browser's side of the contract: time never goes back, intersection updates are
  well formed.  In the strict environment, moreover, no delivered batch holds two
  intersecting entries of one target.
\<close>

definition batch_distinct :: "io_entry list \<Rightarrow> bool" where
  "batch_distinct es = distinct (map ent_target (filter ent_intersecting es))"

fun sk_event_ok :: "bool \<Rightarrow> skills_state \<Rightarrow> sk_event \<Rightarrow> bool" where
  "sk_event_ok strict s (Sk_Update t r i) = io_update_ok r i"
| "sk_event_ok strict s Sk_Deliver =
     (strict \<longrightarrow> (case sk_obs s of None \<Rightarrow> True | Some ob \<Rightarrow> batch_distinct (io_queue ob)))"
| "sk_event_ok strict s (Sk_Frame t) = (sk_now s \<le> t)"
| "sk_event_ok strict s (Sk_Clock t) = (sk_now s \<le> t)"

inductive sk_reach :: "skills_dom \<Rightarrow> bool \<Rightarrow> skills_state \<Rightarrow> bool" for pg strict where
  init: "sk_reach pg strict (skills_init pg (skills_start t0))"
| step: "sk_reach pg strict s \<Longrightarrow> sk_event_ok strict s e \<Longrightarrow> sk_reach pg strict (skills_step pg s e)"

fun sk_run_ok :: "bool \<Rightarrow> skills_dom \<Rightarrow> skills_state \<Rightarrow> sk_event list \<Rightarrow> bool" where
  "sk_run_ok strict pg s [] = True"
| "sk_run_ok strict pg s (e # es) =
     (sk_event_ok strict s e \<and> sk_run_ok strict pg (skills_step pg s e) es)"

subsection \<open>Abstract specification of one animation\<close>

text \<open>
  The contract of the spec (section 4.1): at time \<open>t\<close> an animation from 0 to
  \<open>target\<close> started at \<open>st\<close> with duration \<open>d\<close> shows
  \<open>target * ease(clamp((t - st) / d, 0, 1))\<close> with \<open>ease(p) = 1 - (1 - p)^3\<close>.
\<close>

definition ease_out_cubic :: "rat \<Rightarrow> rat" where
  "ease_out_cubic p = 1 - (1 - p) ^ 3"

definition clamp01 :: "rat \<Rightarrow> rat" where
  "clamp01 x = max 0 (min 1 x)"

definition spec_bar_width :: "rat \<Rightarrow> ms \<Rightarrow> rat \<Rightarrow> ms \<Rightarrow> rat" where
  "spec_bar_width target st d t = target * ease_out_cubic (clamp01 ((t - st) / d))"

subsection \<open>Invariants\<close>

text \<open>A pending frame callback started no later than now; a bar's target is a
  percentage in [0, 100]; every duration lies in [600, 1200].\<close>

definition dur_ok :: "jsnum \<Rightarrow> bool" where
  "dur_ok d = (case d of Fin w \<Rightarrow> 600 \<le> w \<and> w \<le> 1200 | _ \<Rightarrow> False)"

fun task_ok :: "ms \<Rightarrow> anim_task \<Rightarrow> bool" where
  "task_ok now (Bar_Step el tg st d) =
     (st \<le> now \<and> dur_ok d \<and> (case tg of Fin v \<Rightarrow> 0 \<le> v \<and> v \<le> 100 | _ \<Rightarrow> False))"
| "task_ok now (Number_Step el tg st d) = (st \<le> now \<and> dur_ok d)"

text \<open>Every inline width the animated path writes is \<open>'0%'\<close> or a percentage in
  [0, 100].\<close>

fun width_ok :: "css_width \<Rightarrow> bool" where
  "width_ok (Width_Text t) = (t = ''0%'')"
| "width_ok (Width_Pct (Fin v)) = (0 \<le> v \<and> v \<le> 100)"
| "width_ok (Width_Pct _) = False"

definition sk_inv :: "skills_state \<Rightarrow> bool" where
  "sk_inv s =
     (list_all (task_ok (sk_now s)) (sk_raf s) \<and> (\<forall>el w. sk_width s el = Some w \<longrightarrow> width_ok w))"

text \<open>Animate-once: no container was triggered twice, every queued entry belongs to
  an observed container, and a triggered container is no longer observed.\<close>

definition sk_once_inv :: "skills_state \<Rightarrow> bool" where
  "sk_once_inv s =
     (distinct (sk_triggered s) \<and>
      (case sk_obs s of
         None \<Rightarrow> sk_triggered s = []
       | Some ob \<Rightarrow> io_wf ob \<and> (\<forall>c \<in> set (sk_triggered s). io_targets ob c = None)))"

subsection \<open>Set-up predicates and example pages\<close>

text \<open>With reduced motion every fill shows its final width and nothing is pending.\<close>

definition reduced_inv :: "skills_dom \<Rightarrow> skills_state \<Rightarrow> bool" where
  "reduced_inv pg s =
     (sk_raf s = [] \<and> sk_obs s = None \<and>
      (\<forall>el \<in> set (sd_fills pg). sk_width s el = Some (Width_Text (js_str_or (sd_data_width pg el) ''0%''))))"

text \<open>A container is ready after set-up: label \<open>0%\<close>, bar \<open>0%\<close>, observed.\<close>

definition row_ready :: "skill_row \<Rightarrow> skills_state \<Rightarrow> bool" where
  "row_ready r s =
     ((\<forall>l. row_label r = Some l \<longrightarrow> sk_text s l = Some ''0%'') \<and>
      (\<forall>f. row_fill r = Some f \<longrightarrow> sk_width s f = Some (Width_Text ''0%'')) \<and>
      (\<forall>ob. sk_obs s = Some ob \<longrightarrow> io_observing ob (row_bg r)))"

text \<open>An example page with one skill row: container 1, bar 2 with the given
  \<open>data-width\<close>, label 3; and the page's state after a run of browser events
  from start-up at time 0.\<close>

definition pg_width :: "string \<Rightarrow> skills_dom" where
  "pg_width w =
     \<lparr>sd_reduced = False, sd_fills = [2],
      sd_rows = [\<lparr>row_bg = 1, row_fill = Some 2, row_label = Some 3\<rparr>],
      sd_data_width = (\<lambda>e. if e = 2 then Some w else None)\<rparr>"

definition pg_run :: "string \<Rightarrow> sk_event list \<Rightarrow> skills_state" where
  "pg_run w es = skills_run (pg_width w) (skills_init (pg_width w) (skills_start 0)) es"

subsection \<open>Evaluation of the frame steps on finite values\<close>

lemma js_pow_nat_Fin [simp, js_simps]: "js_pow_nat (Fin a) n = Fin (a ^ n)"
  by (cases n) simp_all

lemma anim_progress_Fin [js_simps]:
  "0 < d \<Longrightarrow> js_min (js_div (js_sub (Fin t) (Fin st)) (Fin d)) (Fin 1) = Fin (min ((t - st) / d) 1)"
  by (simp add: js_sub_def)

lemma anim_eased_Fin [js_simps]:
  "js_sub (Fin 1) (js_pow_nat (js_sub (Fin 1) (Fin p)) 3) = Fin (ease_out_cubic p)"
  by (simp add: js_sub_def ease_out_cubic_def)

lemma bar_step_Fin:
  assumes "0 < d"
  shows "bar_step el (Fin tg) st (Fin d) t s =
    (let p = min ((t - st) / d) 1;
         s' = s\<lparr>sk_width := (sk_width s)(el \<mapsto> Width_Pct (Fin (tg * ease_out_cubic p)))\<rparr>
     in if p < 1 then s'\<lparr>sk_raf := sk_raf s' @ [Bar_Step el (Fin tg) st (Fin d)]\<rparr> else s')"
  using assms by (simp add: bar_step_def anim_progress_Fin anim_eased_Fin Let_def)

lemma js_integral_to_string_int [simp]: "js_integral_to_string (Fin (of_int k)) = js_int_to_string k"
  by simp

lemma number_step_Fin:
  assumes "0 < d"
  shows "number_step el (Fin tg) st (Fin d) t s =
    (let p = min ((t - st) / d) 1;
         s' = s\<lparr>sk_text := (sk_text s)(el \<mapsto> js_int_to_string \<lfloor>tg * ease_out_cubic p + 1 / 2\<rfloor> @ ''%'')\<rparr>
     in if p < 1 then s'\<lparr>sk_raf := sk_raf s' @ [Number_Step el (Fin tg) st (Fin d)]\<rparr> else s')"
  using assms by (simp add: number_step_def anim_progress_Fin js_sub_def ease_out_cubic_def Let_def)

lemma ease_bounds: "0 \<le> p \<Longrightarrow> p \<le> 1 \<Longrightarrow> 0 \<le> ease_out_cubic p \<and> ease_out_cubic p \<le> 1"
  unfolding ease_out_cubic_def by (auto simp: power_le_one)

lemma ease_mono: "p \<le> q \<Longrightarrow> q \<le> 1 \<Longrightarrow> ease_out_cubic p \<le> ease_out_cubic q"
  unfolding ease_out_cubic_def by (simp add: power_mono)

lemma ease_one [simp]: "ease_out_cubic 1 = 1"
  by (simp add: ease_out_cubic_def)

lemma progress_bounds:
  "0 < d \<Longrightarrow> st \<le> t \<Longrightarrow> 0 \<le> min ((t - st) / d) 1 \<and> min ((t - st) / d) (1::rat) \<le> 1"
  by simp

lemma progress_lt_one: "0 < d \<Longrightarrow> (min ((t - st) / d) 1 < (1::rat)) = (t < st + d)"
  by (auto simp: min_def divide_less_eq le_divide_eq)

lemma clamp01_progress: "0 < d \<Longrightarrow> st \<le> t \<Longrightarrow> clamp01 ((t - st) / d) = min ((t - st) / d) 1"
  by (simp add: clamp01_def)

subsection \<open>parsePercent never yields NaN\<close>

lemma parsePercent_not_NaN: "parsePercent p \<noteq> NaN"
  by (simp add: parsePercent_def js_or_not_NaN)

lemma skill_duration_ok: "x \<noteq> NaN \<Longrightarrow> dur_ok (skill_duration x)"
  by (cases x) (auto simp: skill_duration_def dur_ok_def js_max_def js_min_def inf_signed_def)

lemma bar_target_ok:
  "x \<noteq> NaN \<Longrightarrow> (case js_max (Fin 0) (js_min (Fin 100) x) of Fin v \<Rightarrow> 0 \<le> v \<and> v \<le> 100 | _ \<Rightarrow> False)"
  by (cases x) (auto simp: js_max_def js_min_def)

subsection \<open>What frames and callbacks leave alone\<close>

lemma run_task_fields [simp]:
  "sk_obs (run_task t s tk) = sk_obs s"
  "sk_triggered (run_task t s tk) = sk_triggered s"
  "sk_now (run_task t s tk) = sk_now s"
  by (cases tk; simp add: bar_step_def number_step_def Let_def)+

lemma skills_frame_fields [simp]:
  "sk_obs (skills_frame t s) = sk_obs s"
  "sk_triggered (skills_frame t s) = sk_triggered s"
  "sk_now (skills_frame t s) = t"
  unfolding skills_frame_def
  by (subst foldl_keep_eq; simp)+

lemma skill_on_entry_fields:
  "sk_triggered (skill_on_entry pg s e) = sk_triggered s @ (if ent_intersecting e then [ent_target e] else [])"
  "sk_obs (skill_on_entry pg s e) =
     (if ent_intersecting e then map_option (io_unobserve (ent_target e)) (sk_obs s) else sk_obs s)"
  "sk_now (skill_on_entry pg s e) = sk_now s"
  by (auto simp: skill_on_entry_def animateBar_def animateNumber_def Let_def split: option.splits)

lemma skill_callback_triggered:
  "sk_triggered (skill_callback pg es s) = sk_triggered s @ map ent_target (filter ent_intersecting es)"
  by (induction es arbitrary: s) (simp_all add: skill_callback_def skill_on_entry_fields)

lemma skill_callback_now [simp]: "sk_now (skill_callback pg es s) = sk_now s"
  unfolding skill_callback_def by (rule foldl_keep_eq) (simp add: skill_on_entry_fields)

lemma skill_callback_None: "sk_obs s = None \<Longrightarrow> sk_obs (skill_callback pg es s) = None"
  unfolding skill_callback_def
  by (rule foldl_keep [where P = "\<lambda>s. sk_obs s = None"]) (simp_all add: skill_on_entry_fields)

lemma skill_callback_obs:
  assumes "sk_obs s = Some ob" and "io_wf ob"
  shows "\<exists>ob'. sk_obs (skill_callback pg es s) = Some ob' \<and> io_wf ob' \<and>
           (\<forall>c. io_targets ob c = None \<longrightarrow> io_targets ob' c = None) \<and>
           (\<forall>e \<in> set es. ent_intersecting e \<longrightarrow> io_targets ob' (ent_target e) = None)"
  using assms
proof (induction es arbitrary: s ob)
  case Nil
  then show ?case by (simp add: skill_callback_def)
next
  case (Cons e es)
  define ob1 where "ob1 = (if ent_intersecting e then io_unobserve (ent_target e) ob else ob)"
  have s1: "sk_obs (skill_on_entry pg s e) = Some ob1" and wf1: "io_wf ob1"
    using Cons.prems by (simp_all add: skill_on_entry_fields ob1_def io_wf_unobserve)
  obtain ob' where ob': "sk_obs (skill_callback pg es (skill_on_entry pg s e)) = Some ob'" "io_wf ob'"
    "\<forall>c. io_targets ob1 c = None \<longrightarrow> io_targets ob' c = None"
    "\<forall>e \<in> set es. ent_intersecting e \<longrightarrow> io_targets ob' (ent_target e) = None"
    using Cons.IH [OF s1 wf1] by blast
  moreover have "skill_callback pg (e # es) s = skill_callback pg es (skill_on_entry pg s e)"
    by (simp add: skill_callback_def)
  moreover have "\<forall>c. io_targets ob c = None \<longrightarrow> io_targets ob1 c = None"
    and "ent_intersecting e \<longrightarrow> io_targets ob1 (ent_target e) = None"
    by (simp_all add: ob1_def)
  ultimately show ?case by auto
qed

subsection \<open>The bounds invariant\<close>

lemma task_ok_mono: "task_ok n tk \<Longrightarrow> n \<le> n' \<Longrightarrow> task_ok n' tk"
  by (cases tk) auto

lemma sk_inv_fields [simp]:
  "sk_inv (s\<lparr>sk_triggered := x\<rparr>) = sk_inv s"
  "sk_inv (s\<lparr>sk_obs := y\<rparr>) = sk_inv s"
  by (simp_all add: sk_inv_def)

lemma bar_value_bounds:
  assumes "0 \<le> v" "v \<le> 100" "0 < d" "st \<le> t"
  shows "0 \<le> v * ease_out_cubic (min ((t - st) / d) 1) \<and> v * ease_out_cubic (min ((t - st) / d) 1) \<le> 100"
proof -
  let ?e = "ease_out_cubic (min ((t - st) / d) 1)"
  have "0 \<le> ?e \<and> ?e \<le> 1"
    using assms(3,4) by (intro ease_bounds) simp_all
  then have "v * ?e \<le> v" and "0 \<le> v * ?e"
    using assms(1) by (simp_all add: mult_left_le)
  with assms(2) show ?thesis by simp
qed

lemma run_task_sk_inv:
  assumes "sk_inv s" and "task_ok (sk_now s) tk"
  shows "sk_inv (run_task (sk_now s) s tk)"
proof (cases tk)
  case (Bar_Step el tg st d)
  with assms(2) obtain v w where tg: "tg = Fin v" "0 \<le> v" "v \<le> 100"
    and d: "d = Fin w" "600 \<le> w" "w \<le> 1200" and st: "st \<le> sk_now s"
    by (auto simp: dur_ok_def split: jsnum.splits)
  have "0 < w" using d by simp
  with tg d st assms(1) show ?thesis
    using bar_value_bounds [OF tg(2,3) \<open>0 < w\<close> st] task_ok_mono
    by (auto simp: Bar_Step bar_step_Fin sk_inv_def Let_def dur_ok_def)
next
  case (Number_Step el tg st d)
  with assms show ?thesis
    by (auto simp: number_step_def sk_inv_def Let_def)
qed

lemma skills_frame_sk_inv:
  assumes "sk_inv s" and "sk_now s \<le> t"
  shows "sk_inv (skills_frame t s)"
proof -
  have "sk_inv (foldl (run_task t) (s\<lparr>sk_raf := [], sk_now := t\<rparr>) (sk_raf s)) \<and>
        sk_now (foldl (run_task t) (s\<lparr>sk_raf := [], sk_now := t\<rparr>) (sk_raf s)) = t"
  proof (rule foldl_keep [where P = "\<lambda>s'. sk_inv s' \<and> sk_now s' = t"])
    show "sk_inv (s\<lparr>sk_raf := [], sk_now := t\<rparr>) \<and> sk_now (s\<lparr>sk_raf := [], sk_now := t\<rparr>) = t"
      using assms(1) by (simp add: sk_inv_def)
  next
    fix s' tk
    assume "sk_inv s' \<and> sk_now s' = t" and "tk \<in> set (sk_raf s)"
    moreover from this(2) assms have "task_ok t tk"
      by (auto simp: sk_inv_def list_all_iff intro: task_ok_mono)
    ultimately show "sk_inv (run_task t s' tk) \<and> sk_now (run_task t s' tk) = t"
      using run_task_sk_inv by fastforce
  qed
  then show ?thesis by (simp add: skills_frame_def)
qed

lemma animateBar_sk_inv:
  "sk_inv s \<Longrightarrow> x \<noteq> NaN \<Longrightarrow> sk_inv (animateBar b x (skill_duration x) s)"
  using bar_target_ok [of x] skill_duration_ok [of x]
  by (auto simp: animateBar_def sk_inv_def Let_def split: jsnum.splits)

lemma animateNumber_sk_inv:
  "sk_inv s \<Longrightarrow> dur_ok d \<Longrightarrow> sk_inv (animateNumber l x d s)"
  by (simp add: animateNumber_def sk_inv_def)

lemma animate_fields [simp]:
  "sk_now (animateBar b x d s) = sk_now s"
  "sk_now (animateNumber l x d s) = sk_now s"
  by (simp_all add: animateBar_def animateNumber_def Let_def)

lemma skill_on_entry_sk_inv:
  assumes "sk_inv s"
  shows "sk_inv (skill_on_entry pg s e)"
proof -
  have "sk_inv (s\<lparr>sk_triggered := sk_triggered s @ [ent_target e]\<rparr>)"
    using assms by simp
  then show ?thesis
    using parsePercent_not_NaN skill_duration_ok
    by (auto simp: skill_on_entry_def Let_def split: option.splits
        intro!: animateNumber_sk_inv animateBar_sk_inv)
qed

lemma skill_callback_sk_inv: "sk_inv s \<Longrightarrow> sk_inv (skill_callback pg es s)"
  unfolding skill_callback_def by (rule foldl_keep) (simp_all add: skill_on_entry_sk_inv)

lemma skills_attach_sk_inv: "sk_inv s \<Longrightarrow> sk_inv (skills_attach s r)"
  by (auto simp: skills_attach_def sk_inv_def Let_def split: option.splits)

lemma skills_init_sk_inv:
  assumes "\<not> sd_reduced pg"
  shows "sk_inv (skills_init pg (skills_start t0))"
proof -
  have "sk_inv (skills_start t0\<lparr>sk_obs := Some (io_new [1 / 4])\<rparr>)"
    by (simp add: sk_inv_def skills_start_def)
  then have "sk_inv (foldl skills_attach (skills_start t0\<lparr>sk_obs := Some (io_new [1 / 4])\<rparr>) (sd_rows pg))"
    by (rule foldl_keep) (rule skills_attach_sk_inv)
  with assms show ?thesis by (simp add: skills_init_def)
qed

lemma sk_inv_clock: "sk_inv s \<Longrightarrow> sk_now s \<le> t \<Longrightarrow> sk_inv (s\<lparr>sk_now := t\<rparr>)"
  by (auto simp: sk_inv_def list_all_iff intro: task_ok_mono)

lemma skills_step_sk_inv:
  assumes "sk_inv s" and "sk_event_ok strict s e"
  shows "sk_inv (skills_step pg s e)"
proof (cases e)
  case Sk_Deliver
  with assms(1) show ?thesis
    by (simp add: skill_callback_sk_inv split: option.splits)
qed (use assms in \<open>simp_all add: skills_frame_sk_inv sk_inv_clock\<close>)

text \<open>C5: in every reachable state of the animated path, every inline width the script has written is \<open>0%\<close> or a percentage between 0 and 100.\<close>

theorem sk_reach_width_bounds:
  assumes "\<not> sd_reduced pg" and "sk_reach pg strict s" and "sk_width s el = Some w"
  shows "width_ok w"
proof -
  from assms(2) have "sk_inv s"
  proof (induction rule: sk_reach.induct)
    case (init t0)
    show ?case using assms(1) by (rule skills_init_sk_inv)
  next
    case (step s e)
    then show ?case by (simp add: skills_step_sk_inv)
  qed
  with assms(3) show ?thesis by (simp add: sk_inv_def)
qed

subsection \<open>Animate-once\<close>

lemma skills_attach_once:
  "sk_obs s = Some ob \<Longrightarrow> sk_triggered s = [] \<Longrightarrow> io_wf ob \<Longrightarrow>
   \<exists>ob'. sk_obs (skills_attach s r) = Some ob' \<and> io_wf ob' \<and> sk_triggered (skills_attach s r) = []"
  by (auto simp: skills_attach_def Let_def io_wf_observe split: option.splits)

lemma skills_init_once: "sk_once_inv (skills_init pg (skills_start t0))"
proof (cases "sd_reduced pg")
  case True
  have "sk_obs (skills_init_reduced pg s) = sk_obs s \<and> sk_triggered (skills_init_reduced pg s) = sk_triggered s" for s
    unfolding skills_init_reduced_def
    by (rule foldl_keep [where P = "\<lambda>s'. sk_obs s' = sk_obs s \<and> sk_triggered s' = sk_triggered s"]) simp_all
  with True show ?thesis
    by (simp add: skills_init_def sk_once_inv_def skills_start_def)
next
  case False
  let ?P = "\<lambda>s. \<exists>ob. sk_obs s = Some ob \<and> io_wf ob \<and> sk_triggered s = []"
  have "?P (foldl skills_attach (skills_start t0\<lparr>sk_obs := Some (io_new [1 / 4])\<rparr>) (sd_rows pg))"
    by (rule foldl_keep) (auto simp: skills_start_def dest: skills_attach_once)
  with False show ?thesis
    by (auto simp: skills_init_def sk_once_inv_def)
qed

lemma deliver_once:
  assumes inv: "sk_once_inv s" and ok: "sk_event_ok True s Sk_Deliver"
  shows "sk_once_inv (skills_step pg s Sk_Deliver)"
proof (cases "sk_obs s")
  case None
  with inv show ?thesis by (simp add: sk_once_inv_def)
next
  case (Some ob)
  let ?s0 = "s\<lparr>sk_obs := Some (snd (io_take ob))\<rparr>"
  let ?new = "map ent_target (filter ent_intersecting (io_queue ob))"
  from inv Some have wf: "io_wf ob" and dist: "distinct (sk_triggered s)"
    and off: "\<forall>c \<in> set (sk_triggered s). io_targets ob c = None"
    by (auto simp: sk_once_inv_def)
  from ok Some have newd: "distinct ?new" by (simp add: batch_distinct_def)
  have on: "\<forall>c \<in> set ?new. io_targets ob c \<noteq> None"
    using wf by (auto simp: io_wf_def)
  obtain ob' where ob': "sk_obs (skill_callback pg (io_queue ob) ?s0) = Some ob'" "io_wf ob'"
    "\<forall>c. io_targets (snd (io_take ob)) c = None \<longrightarrow> io_targets ob' c = None"
    "\<forall>e \<in> set (io_queue ob). ent_intersecting e \<longrightarrow> io_targets ob' (ent_target e) = None"
    using skill_callback_obs [of ?s0 "snd (io_take ob)" pg "io_queue ob"] wf
    by (auto simp: io_wf_take)
  have trig: "sk_triggered (skill_callback pg (io_queue ob) ?s0) = sk_triggered s @ ?new"
    by (simp add: skill_callback_triggered)
  have "set (sk_triggered s) \<inter> set ?new = {}"
    using off on by fastforce
  with dist newd have d2: "distinct (sk_triggered s @ ?new)" by simp
  have o2: "\<forall>c \<in> set (sk_triggered s @ ?new). io_targets ob' c = None"
    using off ob'(3,4) by auto
  have inv': "sk_once_inv (skill_callback pg (io_queue ob) ?s0)"
    unfolding sk_once_inv_def trig using ob'(1,2) d2 o2 by simp
  have eq: "skills_step pg s Sk_Deliver = skill_callback pg (io_queue ob) ?s0"
    using Some by simp
  show ?thesis by (subst eq) (rule inv')
qed

lemma skills_step_once:
  assumes inv: "sk_once_inv s" and ok: "sk_event_ok True s e"
  shows "sk_once_inv (skills_step pg s e)"
proof (cases e)
  case (Sk_Update t r i)
  have "sk_once_inv (s\<lparr>sk_obs := map_option (io_update t r i) (sk_obs s)\<rparr>)"
    using inv by (cases "sk_obs s") (simp_all add: sk_once_inv_def io_wf_update)
  then show ?thesis by (simp add: Sk_Update)
next
  case Sk_Deliver
  then show ?thesis using deliver_once inv ok by blast
next
  case (Sk_Frame t)
  then show ?thesis using inv by (simp add: sk_once_inv_def split: option.splits)
next
  case (Sk_Clock t)
  then show ?thesis using inv by (simp add: sk_once_inv_def split: option.splits)
qed

text \<open>C1: in an environment that never delivers two intersecting entries of one container in the same batch, every container's skill animation is started at most once (the animate-once law of the spec).\<close>

theorem sk_reach_animate_once:
  assumes "sk_reach pg True s"
  shows "distinct (sk_triggered s)"
proof -
  from assms have "sk_once_inv s"
    by (induction rule: sk_reach.induct) (simp_all add: skills_init_once skills_step_once)
  then show ?thesis by (simp add: sk_once_inv_def)
qed

subsection \<open>Runs and the properties of the component\<close>

lemma sk_reach_run:
  "sk_reach pg b s \<Longrightarrow> sk_run_ok b pg s es \<Longrightarrow> sk_reach pg b (skills_run pg s es)"
proof (induction es arbitrary: s)
  case Nil
  then show ?case by (simp add: skills_run_def)
next
  case (Cons e es)
  then have "sk_reach pg b (skills_step pg s e)" by (simp add: sk_reach.step)
  with Cons show ?case by (simp add: skills_run_def)
qed

lemma pg_run_reach:
  "sk_run_ok b (pg_width w) (skills_init (pg_width w) (skills_start 0)) es \<Longrightarrow> sk_reach (pg_width w) b (pg_run w es)"
  unfolding pg_run_def by (rule sk_reach_run [OF sk_reach.init])

theorem sk_reach_animate_once_witness:
  "sk_reach (pg_width ''83%'') True (pg_run ''83%'' [Sk_Update 1 (1 / 2) True, Sk_Deliver]) \<and>
   distinct (sk_triggered (pg_run ''83%'' [Sk_Update 1 (1 / 2) True, Sk_Deliver]))"
proof -
  have r: "sk_reach (pg_width ''83%'') True (pg_run ''83%'' [Sk_Update 1 (1 / 2) True, Sk_Deliver])"
    by (rule pg_run_reach) code_simp
  show ?thesis using r sk_reach_animate_once [OF r] by simp
qed

subsection \<open>A skill row over a run of frames\<close>

lemma no_ws_percent_digits: "\<forall>c \<in> set (nat_to_dec n @ ''%''). \<not> is_js_ws c"
  using nat_to_dec_digits dec_digit_not_ws by (auto simp: is_js_ws_def)

lemma parsePercent_nat: "parsePercent (nat_to_dec n @ ''%'') = Fin (of_nat n)"
proof -
  have trim: "js_trim (nat_to_dec n @ ''%'') = nat_to_dec n @ ''%''"
    by (rule js_trim_id [OF no_ws_percent_digits])
  have "CHR ''%'' \<notin> set (nat_to_dec n)"
    using nat_to_dec_digits digit_not_special by blast
  then have rep: "js_replace_first (nat_to_dec n @ ''%'') ''%'' [] = nat_to_dec n"
    by (simp add: js_replace_first_last)
  have num: "js_string_to_number (nat_to_dec n) = Fin (of_nat n)"
    using string_to_number_digits [OF nat_to_dec_ne nat_to_dec_digits] by simp
  show ?thesis
    by (simp add: parsePercent_def trim rep num js_or_def)
qed

lemma skill_on_entry_row:
  assumes "find_row pg c = Some r" and "row_fill r = Some b" and "row_label r = Some l"
    and "ent_intersecting e" and "ent_target e = c"
  shows "sk_raf (skill_on_entry pg s e) = sk_raf s @
           [Bar_Step b (js_max (Fin 0) (js_min (Fin 100) (parsePercent (js_str_or (sd_data_width pg b) ''0%''))))
              (sk_now s) (skill_duration (parsePercent (js_str_or (sd_data_width pg b) ''0%''))),
            Number_Step l (parsePercent (js_str_or (sd_data_width pg b) ''0%'')) (sk_now s)
              (skill_duration (parsePercent (js_str_or (sd_data_width pg b) ''0%'')))]"
  using assms by (simp add: skill_on_entry_def animateBar_def animateNumber_def Let_def)

lemma skills_frame_pair:
  assumes "0 < d" and "b \<noteq> l"
    and "sk_raf s = [Bar_Step b (Fin tg) st (Fin d), Number_Step l (Fin p) st (Fin d)]"
  shows "sk_raf (skills_frame t s) = (if t < st + d then sk_raf s else [])
         \<and> (st + d \<le> t \<longrightarrow> sk_width (skills_frame t s) b = Some (Width_Pct (Fin tg))
                          \<and> sk_text (skills_frame t s) l = Some (js_int_to_string \<lfloor>p + 1 / 2\<rfloor> @ ''%''))"
proof -
  have m: "st + d \<le> t \<Longrightarrow> min ((t - st) / d) 1 = 1" using assms(1) by (simp add: le_divide_eq)
  show ?thesis using assms m progress_lt_one [OF assms(1), of t st]
    by (auto simp: skills_frame_def bar_step_Fin number_step_Fin Let_def)
qed

lemma skills_frame_idle: "sk_raf s = [] \<Longrightarrow> skills_frame t s = s\<lparr>sk_now := t\<rparr>"
  by (simp add: skills_frame_def)

lemma skills_run_frames_idle:
  "sk_raf s = [] \<Longrightarrow> sk_raf (skills_run pg s (map Sk_Frame ts)) = []
     \<and> sk_width (skills_run pg s (map Sk_Frame ts)) = sk_width s \<and> sk_text (skills_run pg s (map Sk_Frame ts)) = sk_text s"
  by (induction ts arbitrary: s) (simp_all add: skills_run_def skills_frame_idle)

lemma skills_run_frames_pair:
  assumes "0 < d" and "b \<noteq> l"
    and "sk_raf s = [Bar_Step b (Fin tg) st (Fin d), Number_Step l (Fin p) st (Fin d)]"
  shows "sk_raf (skills_run pg s (map Sk_Frame ts)) = (if \<exists>t \<in> set ts. st + d \<le> t then [] else sk_raf s)
         \<and> ((\<exists>t \<in> set ts. st + d \<le> t) \<longrightarrow>
              sk_width (skills_run pg s (map Sk_Frame ts)) b = Some (Width_Pct (Fin tg))
              \<and> sk_text (skills_run pg s (map Sk_Frame ts)) l = Some (js_int_to_string \<lfloor>p + 1 / 2\<rfloor> @ ''%''))"
  using assms(3)
proof (induction ts arbitrary: s)
  case Nil
  then show ?case by (simp add: skills_run_def)
next
  case (Cons t ts)
  have f: "sk_raf (skills_frame t s) = (if t < st + d then sk_raf s else [])
         \<and> (st + d \<le> t \<longrightarrow> sk_width (skills_frame t s) b = Some (Width_Pct (Fin tg))
                          \<and> sk_text (skills_frame t s) l = Some (js_int_to_string \<lfloor>p + 1 / 2\<rfloor> @ ''%''))"
    by (rule skills_frame_pair [OF assms(1,2) Cons.prems])
  have run: "skills_run pg s (map Sk_Frame (t # ts)) = skills_run pg (skills_frame t s) (map Sk_Frame ts)"
    by (simp add: skills_run_def)
  show ?case
  proof (cases "t < st + d")
    case True
    then show ?thesis using f Cons.IH [of "skills_frame t s"] Cons.prems run by auto
  next
    case False
    then have "sk_raf (skills_frame t s) = []" using f by simp
    from skills_run_frames_idle [OF this, of pg ts] show ?thesis using f False run by auto
  qed
qed

lemma skill_row_run:
  assumes "find_row pg c = Some r" and "row_fill r = Some b" and "row_label r = Some l" and "b \<noteq> l"
    and "sd_data_width pg b = Some (nat_to_dec n @ ''%'')"
    and "ent_intersecting e" and "ent_target e = c" and "sk_raf s = []"
  shows "sk_raf (skills_run pg (skill_on_entry pg s e) (map Sk_Frame ts)) =
           (if \<exists>t \<in> set ts. sk_now s + max 600 (min 1200 (of_nat n * 12)) \<le> t then []
            else [Bar_Step b (Fin (min 100 (of_nat n))) (sk_now s) (Fin (max 600 (min 1200 (of_nat n * 12)))),
                  Number_Step l (Fin (of_nat n)) (sk_now s) (Fin (max 600 (min 1200 (of_nat n * 12))))])
         \<and> ((\<exists>t \<in> set ts. sk_now s + max 600 (min 1200 (of_nat n * 12)) \<le> t) \<longrightarrow>
              sk_width (skills_run pg (skill_on_entry pg s e) (map Sk_Frame ts)) b = Some (Width_Pct (Fin (min 100 (of_nat n))))
              \<and> sk_text (skills_run pg (skill_on_entry pg s e) (map Sk_Frame ts)) l = Some (js_int_to_string (int n) @ ''%''))"
proof -
  let ?d = "max 600 (min 1200 (of_nat n * 12)) :: rat"
  have raf: "sk_raf (skill_on_entry pg s e) =
      [Bar_Step b (Fin (min 100 (of_nat n))) (sk_now s) (Fin ?d), Number_Step l (Fin (of_nat n)) (sk_now s) (Fin ?d)]"
    using skill_on_entry_row [OF assms(1,2,3,6,7), of s] assms(5,8)
    by (simp add: parsePercent_nat js_str_or_def skill_duration_def)
  have d: "0 < ?d" by simp
  have fl: "\<lfloor>(of_nat n :: rat) + 1 / 2\<rfloor> = int n" by (simp add: floor_eq_iff)
  show ?thesis
    using skills_run_frames_pair [OF d assms(4) raf, of pg ts] raf skill_on_entry_fields(3) [of pg s e] fl by simp
qed

lemma skill_on_entry_raf: "\<exists>ys. sk_raf (skill_on_entry pg s e) = sk_raf s @ ys"
  by (auto simp: skill_on_entry_def animateBar_def animateNumber_def Let_def split: option.splits)

lemma skill_callback_raf: "\<exists>ys. sk_raf (skill_callback pg es s) = sk_raf s @ ys"
proof (induction es arbitrary: s)
  case Nil
  then show ?case by (simp add: skill_callback_def)
next
  case (Cons e es)
  obtain ys where "sk_raf (skill_on_entry pg s e) = sk_raf s @ ys" using skill_on_entry_raf by blast
  moreover obtain zs where "sk_raf (skill_callback pg es (skill_on_entry pg s e)) = sk_raf (skill_on_entry pg s e) @ zs"
    using Cons.IH by blast
  ultimately show ?case by (simp add: skill_callback_def)
qed

lemma skill_on_entry_bar:
  assumes "find_row pg c = Some r" and "row_fill r = Some b" and "ent_intersecting e" and "ent_target e = c"
  shows "\<exists>ys. sk_raf (skill_on_entry pg s e) = sk_raf s @
           Bar_Step b (js_max (Fin 0) (js_min (Fin 100) (parsePercent (js_str_or (sd_data_width pg b) ''0%''))))
             (sk_now s) (skill_duration (parsePercent (js_str_or (sd_data_width pg b) ''0%''))) # ys"
  using assms by (auto simp: skill_on_entry_def animateBar_def animateNumber_def Let_def split: option.splits)

text \<open>C2: The animate-once law fails when one delivered batch holds two intersecting entries of a container (as when it enters, leaves and enters again between two deliveries): unobserve cannot withdraw entries already delivered, so the callback triggers the container twice and requests two frame loops of the same bar with the same parameters, whatever other entries lie between.\<close>

theorem sk_batch_double_trigger:
  assumes "find_row pg c = Some r" and "row_fill r = Some b"
    and "ent_intersecting e1" and "ent_target e1 = c" and "ent_intersecting e2" and "ent_target e2 = c"
  shows "sk_triggered (skill_callback pg (e1 # mid @ [e2]) s) =
           sk_triggered s @ c # map ent_target (filter ent_intersecting mid) @ [c]
         \<and> (\<exists>tg d. 2 + count_list (sk_raf s) (Bar_Step b tg (sk_now s) d)
                     \<le> count_list (sk_raf (skill_callback pg (e1 # mid @ [e2]) s)) (Bar_Step b tg (sk_now s) d))"
proof
  show "sk_triggered (skill_callback pg (e1 # mid @ [e2]) s) =
          sk_triggered s @ c # map ent_target (filter ent_intersecting mid) @ [c]"
    using assms by (simp add: skill_callback_triggered)
next
  let ?p = "parsePercent (js_str_or (sd_data_width pg b) ''0%'')"
  let ?bt = "Bar_Step b (js_max (Fin 0) (js_min (Fin 100) ?p)) (sk_now s) (skill_duration ?p)"
  let ?s1 = "skill_on_entry pg s e1"
  let ?s2 = "skill_callback pg mid ?s1"
  have split: "skill_callback pg (e1 # mid @ [e2]) s = skill_on_entry pg ?s2 e2"
    by (simp add: skill_callback_def)
  have now: "sk_now ?s2 = sk_now s" by (simp add: skill_on_entry_fields)
  obtain ys1 where 1: "sk_raf ?s1 = sk_raf s @ ?bt # ys1" using skill_on_entry_bar [OF assms(1-4)] by blast
  obtain ys2 where 2: "sk_raf ?s2 = sk_raf ?s1 @ ys2" using skill_callback_raf by blast
  obtain ys3 where 3: "sk_raf (skill_on_entry pg ?s2 e2) = sk_raf ?s2 @ ?bt # ys3"
    using skill_on_entry_bar [OF assms(1,2,5,6), of ?s2] now by auto
  show "\<exists>tg d. 2 + count_list (sk_raf s) (Bar_Step b tg (sk_now s) d)
                \<le> count_list (sk_raf (skill_callback pg (e1 # mid @ [e2]) s)) (Bar_Step b tg (sk_now s) d)"
    using 1 2 3 by (intro exI [of _ "js_max (Fin 0) (js_min (Fin 100) ?p)"] exI [of _ "skill_duration ?p"]) (simp add: split count_list_append)
qed

theorem sk_batch_double_trigger_witness:
  "sk_triggered (skill_callback (pg_width ''83%'')
     (\<lparr>ent_target = 1, ent_intersecting = True, ent_ratio = 1 / 2\<rparr> # [\<lparr>ent_target = 1, ent_intersecting = False, ent_ratio = 0\<rparr>]
        @ [\<lparr>ent_target = 1, ent_intersecting = True, ent_ratio = 1 / 2\<rparr>]) (skills_start 0)) = [1, 1]"
proof -
  have h: "find_row (pg_width ''83%'') 1 = Some \<lparr>row_bg = 1, row_fill = Some 2, row_label = Some 3\<rparr>"
    by (simp add: pg_width_def find_row_def)
  show ?thesis
    using sk_batch_double_trigger [OF h, of 2 "\<lparr>ent_target = 1, ent_intersecting = True, ent_ratio = 1 / 2\<rparr>"
        "\<lparr>ent_target = 1, ent_intersecting = True, ent_ratio = 1 / 2\<rparr>" "[\<lparr>ent_target = 1, ent_intersecting = False, ent_ratio = 0\<rparr>]"
        "skills_start 0"]
    by (simp add: skills_start_def)
qed

lemma bar_step_width_spec:
  assumes "0 < d" and "st \<le> t"
  shows "sk_width (bar_step el (Fin tg) st (Fin d) t s) el = Some (Width_Pct (Fin (spec_bar_width tg st d t)))"
  using assms by (simp add: bar_step_Fin Let_def spec_bar_width_def clamp01_progress)

text \<open>C4: each frame of a bar writes the width of the abstract ease-out-cubic specification, \<open>target * ease(clamp((t - start) / duration, 0, 1))\<close>, and requests another frame exactly while the duration has not elapsed.\<close>

theorem bar_step_refines_spec:
  assumes "0 < d" and "st \<le> t"
  shows "sk_width (bar_step el (Fin tg) st (Fin d) t s) el = Some (Width_Pct (Fin (spec_bar_width tg st d t))) \<and>
         sk_raf (bar_step el (Fin tg) st (Fin d) t s) =
           sk_raf s @ (if t < st + d then [Bar_Step el (Fin tg) st (Fin d)] else [])"
  using assms bar_step_width_spec [OF assms] by (simp add: bar_step_Fin Let_def progress_lt_one)

theorem bar_step_refines_spec_witness:
  "0 < (996::rat) \<and> (0::rat) \<le> 498 \<and>
   sk_width (bar_step 2 (Fin 83) 0 (Fin 996) 498 (skills_start 0)) 2 =
     Some (Width_Pct (Fin (spec_bar_width 83 0 996 498))) \<and>
   sk_raf (bar_step 2 (Fin 83) 0 (Fin 996) 498 (skills_start 0)) =
     sk_raf (skills_start 0) @ (if (498::rat) < 0 + 996 then [Bar_Step 2 (Fin 83) 0 (Fin 996)] else [])"
  using bar_step_refines_spec [of 996 0 498 2 83 "skills_start 0"] by simp

text \<open>C3: a bar's frame loop ends at the first frame at or after start + duration, and that frame writes exactly the target percentage, whatever the earlier frames wrote.\<close>

theorem bar_final_exact:
  assumes "0 < d" and "st + d \<le> t"
  shows "bar_step el (Fin tg) st (Fin d) t s = s\<lparr>sk_width := (sk_width s)(el \<mapsto> Width_Pct (Fin tg))\<rparr>"
proof -
  have "1 \<le> (t - st) / d" using assms by (simp add: le_divide_eq)
  then have "min ((t - st) / d) 1 = 1" by simp
  with assms(1) show ?thesis by (simp add: bar_step_Fin Let_def)
qed

theorem bar_final_exact_witness:
  "0 < (996::rat) \<and> (0::rat) + 996 \<le> 996 \<and>
   bar_step 2 (Fin 83) 0 (Fin 996) 996 (skills_start 0) =
     (skills_start 0)\<lparr>sk_width := (sk_width (skills_start 0))(2 \<mapsto> Width_Pct (Fin 83))\<rparr>"
  using bar_final_exact [of 996 0 996 2 83 "skills_start 0"] by simp

text \<open>C12: the last frame of a label writes \<open>Math.round(target)\<close> followed by \<open>%\<close> and requests no further frame.\<close>

theorem number_final_text:
  assumes "0 < d" and "st + d \<le> t"
  shows "number_step l (Fin p) st (Fin d) t s =
           s\<lparr>sk_text := (sk_text s)(l \<mapsto> js_int_to_string \<lfloor>p + 1 / 2\<rfloor> @ ''%'')\<rparr>"
proof -
  have "1 \<le> (t - st) / d" using assms by (simp add: le_divide_eq)
  then have "min ((t - st) / d) 1 = 1" by simp
  with assms(1) show ?thesis by (simp add: number_step_Fin Let_def)
qed

theorem number_final_text_witness:
  "0 < (996::rat) \<and> (0::rat) + 996 \<le> 996 \<and>
   number_step 3 (Fin (167 / 2)) 0 (Fin 996) 996 (skills_start 0) =
     (skills_start 0)\<lparr>sk_text := (sk_text (skills_start 0))(3 \<mapsto> js_int_to_string \<lfloor>(167 / 2 :: rat) + 1 / 2\<rfloor> @ ''%'')\<rparr>"
  using number_final_text [of 996 0 996 3 "167 / 2" "skills_start 0"] by simp

text \<open>C13: the widths a bar shows over successive frames never decrease.\<close>

theorem bar_width_monotone:
  assumes "0 \<le> tg" and "0 < d" and "st \<le> t1" and "t1 \<le> t2"
    and "sk_width (bar_step el (Fin tg) st (Fin d) t1 s1) el = Some (Width_Pct (Fin v1))"
    and "sk_width (bar_step el (Fin tg) st (Fin d) t2 s2) el = Some (Width_Pct (Fin v2))"
  shows "v1 \<le> v2"
proof -
  have v1: "v1 = spec_bar_width tg st d t1"
    using assms(5) bar_step_width_spec [OF assms(2,3)] by simp
  have v2: "v2 = spec_bar_width tg st d t2"
    using assms(6) bar_step_width_spec [OF assms(2)] assms(3,4) by simp
  have "(t1 - st) / d \<le> (t2 - st) / d"
    using assms(2,4) by (simp add: divide_right_mono)
  then have "ease_out_cubic (min ((t1 - st) / d) 1) \<le> ease_out_cubic (min ((t2 - st) / d) 1)"
    by (intro ease_mono) auto
  then show ?thesis
    using assms(1,2,3,4) by (simp add: v1 v2 spec_bar_width_def clamp01_progress mult_left_mono)
qed

theorem bar_width_monotone_witness:
  "(0::rat) \<le> 83 \<and> (0::rat) < 996 \<and> (0::rat) \<le> 100 \<and> (100::rat) \<le> 500 \<and>
   sk_width (bar_step 2 (Fin 83) 0 (Fin 996) 100 (skills_start 0)) 2 =
     Some (Width_Pct (Fin (83 * ease_out_cubic (100 / 996)))) \<and>
   sk_width (bar_step 2 (Fin 83) 0 (Fin 996) 500 (skills_start 0)) 2 =
     Some (Width_Pct (Fin (83 * ease_out_cubic (500 / 996)))) \<and>
   83 * ease_out_cubic (100 / 996) \<le> 83 * ease_out_cubic (500 / 996)"
proof -
  have w1: "sk_width (bar_step 2 (Fin 83) 0 (Fin 996) 100 (skills_start 0)) 2 =
     Some (Width_Pct (Fin (83 * ease_out_cubic (100 / 996))))"
    by (simp add: bar_step_Fin Let_def)
  have w2: "sk_width (bar_step 2 (Fin 83) 0 (Fin 996) 500 (skills_start 0)) 2 =
     Some (Width_Pct (Fin (83 * ease_out_cubic (500 / 996))))"
    by (simp add: bar_step_Fin Let_def)
  show ?thesis
    using w1 w2 bar_width_monotone [OF _ _ _ _ w1 w2] by simp
qed

text \<open>C6: for any \<open>data-width\<close> string the animation duration is a finite number of milliseconds between 600 and 1200.\<close>

theorem skill_duration_bounds:
  "\<exists>v. skill_duration (parsePercent w) = Fin v \<and> 600 \<le> v \<and> v \<le> 1200"
  using parsePercent_not_NaN [of w]
  by (cases "parsePercent w") (auto simp: skill_duration_def js_max_def js_min_def inf_signed_def)

text \<open>C7: The spec's scenario for every integer percentage n <= 100: when a row with a fill and a label and data-width "n%" is triggered with no frame pending, the bar and the label animate over the same duration clamp(12 n, 600, 1200) from the same start; after any sequence of frames both are still pending if no frame has reached start + duration, and otherwise both have finished, the bar at exactly n% and the label at "n%".\<close>

theorem skill_row_completes_together:
  assumes "find_row pg c = Some r" and "row_fill r = Some b" and "row_label r = Some l" and "b \<noteq> l"
    and "sd_data_width pg b = Some (nat_to_dec n @ ''%'')" and "n \<le> 100"
    and "ent_intersecting e" and "ent_target e = c" and "sk_raf s = []"
  shows "sk_raf (skills_run pg (skill_on_entry pg s e) (map Sk_Frame ts)) =
           (if \<exists>t \<in> set ts. sk_now s + max 600 (min 1200 (of_nat n * 12)) \<le> t then []
            else [Bar_Step b (Fin (of_nat n)) (sk_now s) (Fin (max 600 (min 1200 (of_nat n * 12)))),
                  Number_Step l (Fin (of_nat n)) (sk_now s) (Fin (max 600 (min 1200 (of_nat n * 12))))])
         \<and> ((\<exists>t \<in> set ts. sk_now s + max 600 (min 1200 (of_nat n * 12)) \<le> t) \<longrightarrow>
              sk_width (skills_run pg (skill_on_entry pg s e) (map Sk_Frame ts)) b = Some (Width_Pct (Fin (of_nat n)))
              \<and> sk_text (skills_run pg (skill_on_entry pg s e) (map Sk_Frame ts)) l = Some (js_int_to_string (int n) @ ''%''))"
proof -
  have "min 100 (of_nat n) = (of_nat n :: rat)" using assms(6) by simp
  then show ?thesis using skill_row_run [OF assms(1-5,7-9), of ts] by simp
qed

theorem skill_row_completes_together_witness:
  "sk_raf (skills_run (pg_width (nat_to_dec 83 @ ''%''))
      (skill_on_entry (pg_width (nat_to_dec 83 @ ''%'')) (skills_start 0) \<lparr>ent_target = 1, ent_intersecting = True, ent_ratio = 1 / 2\<rparr>)
      (map Sk_Frame [500, 995])) =
     [Bar_Step 2 (Fin 83) 0 (Fin 996), Number_Step 3 (Fin 83) 0 (Fin 996)]
   \<and> sk_width (skills_run (pg_width (nat_to_dec 83 @ ''%''))
      (skill_on_entry (pg_width (nat_to_dec 83 @ ''%'')) (skills_start 0) \<lparr>ent_target = 1, ent_intersecting = True, ent_ratio = 1 / 2\<rparr>)
      (map Sk_Frame [500, 996])) 2 = Some (Width_Pct (Fin 83))
   \<and> sk_text (skills_run (pg_width (nat_to_dec 83 @ ''%''))
      (skill_on_entry (pg_width (nat_to_dec 83 @ ''%'')) (skills_start 0) \<lparr>ent_target = 1, ent_intersecting = True, ent_ratio = 1 / 2\<rparr>)
      (map Sk_Frame [500, 996])) 3 = Some (js_int_to_string 83 @ ''%'')"
proof -
  let ?pg = "pg_width (nat_to_dec 83 @ ''%'')"
  let ?e = "\<lparr>ent_target = 1, ent_intersecting = True, ent_ratio = 1 / 2\<rparr> :: io_entry"
  have h: "find_row ?pg 1 = Some \<lparr>row_bg = 1, row_fill = Some 2, row_label = Some 3\<rparr>"
    "sd_data_width ?pg 2 = Some (nat_to_dec 83 @ ''%'')" "sk_raf (skills_start 0) = []" "sk_now (skills_start 0) = 0"
    by (simp_all add: pg_width_def find_row_def skills_start_def)
  have a: "sk_raf (skills_run ?pg (skill_on_entry ?pg (skills_start 0) ?e) (map Sk_Frame [500, 995])) =
     [Bar_Step 2 (Fin 83) 0 (Fin 996), Number_Step 3 (Fin 83) 0 (Fin 996)]"
    using skill_row_completes_together [OF h(1), of 2 3 83 ?e "skills_start 0" "[500, 995]"] h by simp
  have b: "sk_width (skills_run ?pg (skill_on_entry ?pg (skills_start 0) ?e) (map Sk_Frame [500, 996])) 2 = Some (Width_Pct (Fin 83))
     \<and> sk_text (skills_run ?pg (skill_on_entry ?pg (skills_start 0) ?e) (map Sk_Frame [500, 996])) 3 = Some (js_int_to_string 83 @ ''%'')"
    using skill_row_completes_together [OF h(1), of 2 3 83 ?e "skills_start 0" "[500, 996]"] h by simp
  show ?thesis using a b by simp
qed

text \<open>C8: \<open>parsePercent\<close> reads back every non-negative integer printed with a percent sign.\<close>

theorem parsePercent_roundtrip: "parsePercent (nat_to_dec n @ ''%'') = Fin (of_nat n)"
  by (rule parsePercent_nat)

lemma init_reduced_width:
  "sk_width (foldl (\<lambda>s el. s\<lparr>sk_width := (sk_width s)(el \<mapsto> W el)\<rparr>) s xs) e =
     (if e \<in> set xs then Some (W e) else sk_width s e)"
  by (induction xs arbitrary: s) auto

lemma init_reduced_fields:
  "sk_raf (skills_init_reduced pg s) = sk_raf s \<and> sk_obs (skills_init_reduced pg s) = sk_obs s"
  unfolding skills_init_reduced_def
  by (rule foldl_keep [where P = "\<lambda>s'. sk_raf s' = sk_raf s \<and> sk_obs s' = sk_obs s"]) simp_all

lemma reduced_inv_step: "reduced_inv pg s \<Longrightarrow> reduced_inv pg (skills_step pg s e)"
  by (cases e) (simp_all add: reduced_inv_def skills_frame_def)

text \<open>C9: with reduced motion no animation frame is ever requested and every \<open>.progress-fill\<close> keeps the width given by its \<open>data-width\<close> (or \<open>0%\<close>).\<close>

theorem sk_reduced_no_animation:
  assumes "sd_reduced pg" and "sk_reach pg strict s" and "el \<in> set (sd_fills pg)"
  shows "sk_raf s = [] \<and> sk_width s el = Some (Width_Text (js_str_or (sd_data_width pg el) ''0%''))"
proof -
  from assms(2) have "reduced_inv pg s"
  proof (induction rule: sk_reach.induct)
    case (init t0)
    show ?case
      using assms(1) init_reduced_fields [of pg "skills_start t0"]
      by (simp add: reduced_inv_def skills_init_def skills_start_def skills_init_reduced_def
          init_reduced_width)
  next
    case (step s e)
    then show ?case by (simp add: reduced_inv_step)
  qed
  with assms(3) show ?thesis by (simp add: reduced_inv_def)
qed

theorem sk_reduced_no_animation_witness:
  "sd_reduced ((pg_width ''83%'')\<lparr>sd_reduced := True\<rparr>) \<and>
   sk_reach ((pg_width ''83%'')\<lparr>sd_reduced := True\<rparr>) False
     (skills_init ((pg_width ''83%'')\<lparr>sd_reduced := True\<rparr>) (skills_start 0)) \<and>
   2 \<in> set (sd_fills ((pg_width ''83%'')\<lparr>sd_reduced := True\<rparr>)) \<and>
   sk_raf (skills_init ((pg_width ''83%'')\<lparr>sd_reduced := True\<rparr>) (skills_start 0)) = [] \<and>
   sk_width (skills_init ((pg_width ''83%'')\<lparr>sd_reduced := True\<rparr>) (skills_start 0)) 2 =
     Some (Width_Text (js_str_or (sd_data_width ((pg_width ''83%'')\<lparr>sd_reduced := True\<rparr>) 2) ''0%''))"
proof -
  let ?pg = "(pg_width ''83%'')\<lparr>sd_reduced := True\<rparr>"
  have r: "sk_reach ?pg False (skills_init ?pg (skills_start 0))" by (rule sk_reach.init)
  have a: "sd_reduced ?pg" and b: "2 \<in> set (sd_fills ?pg)" by (simp_all add: pg_width_def)
  show ?thesis using a r b sk_reduced_no_animation [OF a r b] by simp
qed

text \<open>C11: For a data-width above 100\% (an integer n > 100) the bar ends at 100\% but the label counts to "n%": animateBar clamps its target (line 421) and animateNumber does not, so the two disagree once the 1200 ms have passed.\<close>

theorem label_bar_final_disagree:
  assumes "find_row pg c = Some r" and "row_fill r = Some b" and "row_label r = Some l" and "b \<noteq> l"
    and "sd_data_width pg b = Some (nat_to_dec n @ ''%'')" and "100 < n"
    and "ent_intersecting e" and "ent_target e = c" and "sk_raf s = []"
    and "\<exists>t \<in> set ts. sk_now s + 1200 \<le> t"
  shows "sk_raf (skills_run pg (skill_on_entry pg s e) (map Sk_Frame ts)) = []
         \<and> sk_width (skills_run pg (skill_on_entry pg s e) (map Sk_Frame ts)) b = Some (Width_Pct (Fin 100))
         \<and> sk_text (skills_run pg (skill_on_entry pg s e) (map Sk_Frame ts)) l = Some (js_int_to_string (int n) @ ''%'')"
proof -
  have "min 100 (of_nat n) = (100 :: rat)" and "max 600 (min 1200 (of_nat n * 12)) = (1200 :: rat)"
    using assms(6) by simp_all
  then show ?thesis using skill_row_run [OF assms(1-5,7-9), of ts] assms(10) by simp
qed

theorem label_bar_final_disagree_witness:
  "sk_width (skills_run (pg_width (nat_to_dec 150 @ ''%''))
      (skill_on_entry (pg_width (nat_to_dec 150 @ ''%'')) (skills_start 0) \<lparr>ent_target = 1, ent_intersecting = True, ent_ratio = 1\<rparr>)
      (map Sk_Frame [1200])) 2 = Some (Width_Pct (Fin 100))
   \<and> sk_text (skills_run (pg_width (nat_to_dec 150 @ ''%''))
      (skill_on_entry (pg_width (nat_to_dec 150 @ ''%'')) (skills_start 0) \<lparr>ent_target = 1, ent_intersecting = True, ent_ratio = 1\<rparr>)
      (map Sk_Frame [1200])) 3 = Some (js_int_to_string 150 @ ''%'')"
proof -
  let ?pg = "pg_width (nat_to_dec 150 @ ''%'')"
  have h: "find_row ?pg 1 = Some \<lparr>row_bg = 1, row_fill = Some 2, row_label = Some 3\<rparr>"
    "sd_data_width ?pg 2 = Some (nat_to_dec 150 @ ''%'')" "sk_raf (skills_start 0) = []" "sk_now (skills_start 0) = 0"
    by (simp_all add: pg_width_def find_row_def skills_start_def)
  show ?thesis
    using label_bar_final_disagree [OF h(1), of 2 3 150 "\<lparr>ent_target = 1, ent_intersecting = True, ent_ratio = 1\<rparr>" "skills_start 0" "[1200]"] h
    by simp
qed

lemma skills_attach_ready: "row_ready r (skills_attach s r)"
  by (auto simp: row_ready_def skills_attach_def Let_def split: option.splits)

lemma skills_attach_keeps_ready: "row_ready r s \<Longrightarrow> row_ready r (skills_attach s r')"
  by (auto simp: row_ready_def skills_attach_def Let_def io_observing_keep split: option.splits)

text \<open>C14: after start-up without reduced motion every skill row shows label \<open>0%\<close> and bar \<open>0%\<close>, its container is observed, and no frame is pending.\<close>

theorem skills_init_setup:
  assumes "\<not> sd_reduced pg" and "r \<in> set (sd_rows pg)"
  shows "(\<forall>l. row_label r = Some l \<longrightarrow> sk_text (skills_init pg (skills_start t0)) l = Some ''0%'') \<and>
         (\<forall>f. row_fill r = Some f \<longrightarrow> sk_width (skills_init pg (skills_start t0)) f = Some (Width_Text ''0%'')) \<and>
         (\<exists>ob. sk_obs (skills_init pg (skills_start t0)) = Some ob \<and> io_observing ob (row_bg r)) \<and>
         sk_raf (skills_init pg (skills_start t0)) = []"
proof -
  let ?s0 = "skills_start t0\<lparr>sk_obs := Some (io_new [1 / 4])\<rparr>"
  have ready: "row_ready r (foldl skills_attach ?s0 (sd_rows pg))"
    using assms(2) skills_attach_ready skills_attach_keeps_ready by (rule foldl_establish)
  have some: "\<exists>ob. sk_obs (foldl skills_attach ?s0 (sd_rows pg)) = Some ob \<and>
                sk_raf (foldl skills_attach ?s0 (sd_rows pg)) = []"
    by (rule foldl_keep) (auto simp: skills_start_def skills_attach_def Let_def split: option.splits)
  from ready some assms(1) show ?thesis
    by (auto simp: skills_init_def row_ready_def)
qed

theorem skills_init_setup_witness:
  "\<not> sd_reduced (pg_width ''83%'') \<and>
   \<lparr>row_bg = 1, row_fill = Some 2, row_label = Some 3\<rparr> \<in> set (sd_rows (pg_width ''83%'')) \<and>
   sk_text (skills_init (pg_width ''83%'') (skills_start 0)) 3 = Some ''0%'' \<and>
   sk_width (skills_init (pg_width ''83%'') (skills_start 0)) 2 = Some (Width_Text ''0%'') \<and>
   (\<exists>ob. sk_obs (skills_init (pg_width ''83%'') (skills_start 0)) = Some ob \<and> io_observing ob 1) \<and>
   sk_raf (skills_init (pg_width ''83%'') (skills_start 0)) = []"
proof -
  have a: "\<not> sd_reduced (pg_width ''83%'')"
    and b: "\<lparr>row_bg = 1, row_fill = Some 2, row_label = Some 3\<rparr> \<in> set (sd_rows (pg_width ''83%''))"
    by (simp_all add: pg_width_def)
  show ?thesis using a b skills_init_setup [OF a b, of 0] by simp
qed

theorem sk_reach_width_bounds_witness:
  "\<not> sd_reduced (pg_width ''83%'') \<and>
   sk_reach (pg_width ''83%'') False (pg_run ''83%'' [Sk_Update 1 (1 / 2) True, Sk_Deliver, Sk_Frame 10]) \<and>
   sk_width (pg_run ''83%'' [Sk_Update 1 (1 / 2) True, Sk_Deliver, Sk_Frame 10]) 2
     = Some (Width_Pct (Fin (3682835 / 1488024))) \<and>
   width_ok (Width_Pct (Fin (3682835 / 1488024)))"
proof -
  have a: "\<not> sd_reduced (pg_width ''83%'')" by (simp add: pg_width_def)
  have r: "sk_reach (pg_width ''83%'') False (pg_run ''83%'' [Sk_Update 1 (1 / 2) True, Sk_Deliver, Sk_Frame 10])"
    by (rule pg_run_reach) code_simp
  have w: "sk_width (pg_run ''83%'' [Sk_Update 1 (1 / 2) True, Sk_Deliver, Sk_Frame 10]) 2
     = Some (Width_Pct (Fin (3682835 / 1488024)))"
    by code_simp
  show ?thesis using a r w sk_reach_width_bounds [OF a r w] by blast
qed

end
