(* ===== verification/Script.thy ===== *)
theory Script
  imports Preferences Typewriter Wallet Page Lazy_Reveal Skill_Progress
begin

text \<open>
  The top level of src/script.js: the statements the browser runs once, in file
  order, when it loads the script (lines 29-471).  Each either binds an event
  listener (when its element exists), or runs an IIFE that sets up a component.
  Three of them may throw: \<open>initTheme\<close> (line 46) and \<open>initCookie\<close> (line 283)
  when \<open>localStorage\<close> is unusable, and \<open>typewriterInit\<close> (line 90) when
  \<open>JSON.parse\<close> rejects the \<open>data-text\<close> of the \<open>.typewriter\<close> element.  A throw
  at the top level ends the script: the statements after it never run, while
  the listeners bound before it stay bound.  The service worker registration
  (line 354) has no effect on the page and is left out.

  \<open>exec_stmt\<close> runs one statement in the sum-type error monad; \<open>exec_stmts\<close>
  runs a list of them and keeps, beside the exception, the state in which the
  script stopped (every throwing statement throws before its first effect).
\<close>

datatype script_error = Script_Pref pref_error | Script_Tw tw_error

text \<open>The event listeners the top level binds, in the order of the file.\<close>

datatype listener =
    L_Load | L_Theme | L_Scroll_Progress | L_Mobile | L_Accordion nat | L_Back_To_Top
  | L_Connect | L_Modal_Close | L_Wallet_Button nat | L_Network | L_Copy | L_Newsletter
  | L_Accept | L_Keydown | L_Filter | L_Links

text \<open>The top-level statements, by the line they start on.\<close>

datatype stmt =
    St_Load | St_Init_Theme | St_Theme_Listener | St_Scroll | St_Ticker | St_Typewriter
  | St_Mobile | St_Accordion | St_Back_To_Top | St_Connect | St_Modal_Close | St_Wallet_Buttons
  | St_Network | St_Copy | St_Newsletter | St_Init_Cookie | St_Accept | St_Keydown
  | St_Lazy | St_Filter | St_Links | St_Mint | St_Skills

definition script_stmts :: "stmt list" where
  "script_stmts =
     [St_Load, St_Init_Theme, St_Theme_Listener, St_Scroll, St_Ticker, St_Typewriter,
      St_Mobile, St_Accordion, St_Back_To_Top, St_Connect, St_Modal_Close, St_Wallet_Buttons,
      St_Network, St_Copy, St_Newsletter, St_Init_Cookie, St_Accept, St_Keydown,
      St_Lazy, St_Filter, St_Links, St_Mint, St_Skills]"

text \<open>What the statements read from the page: the pages of the components, the
  typewriter element with its \<open>data-text\<close> and the browser's \<open>JSON.parse\<close>, the
  children of \<open>#tickerTrack\<close>, the random number of the mint demo, and whether the
  elements of the remaining listeners exist.\<close>

record script_page =
  sc_pref :: pref_page
  sc_tw_el :: "string option option"
  sc_json :: "string \<Rightarrow> string list option"
  sc_ticker :: "ticker_child list option"
  sc_mint_r :: rat
  sc_mobile :: bool
  sc_acc :: "acc_item list"
  sc_wallet :: wallet_page
  sc_copy_btn :: bool
  sc_newsletter :: bool
  sc_filter :: bool
  sc_lazy :: lazy_dom
  sc_skills :: skills_dom

record script_state =
  ss_listeners :: "listener list"
  ss_pref :: pref_state
  ss_typewriter :: "(string list \<times> tw_state \<times> ms) option"
  ss_ticker :: "ticker_child list option"
  ss_lazy :: lazy_state
  ss_skills :: skills_state

text \<open>The page before the script runs, over the given storage.\<close>

definition script_start :: "script_page \<Rightarrow> (string, string) mapping \<Rightarrow> bool \<Rightarrow> script_state" where
  "script_start pg st ok =
     \<lparr>ss_listeners = [], ss_pref = pref_fresh (sc_pref pg) st ok 0, ss_typewriter = None,
      ss_ticker = sc_ticker pg, ss_lazy = lazy_start (sc_lazy pg), ss_skills = skills_start 0\<rparr>"

definition bind_if :: "bool \<Rightarrow> listener list \<Rightarrow> script_state \<Rightarrow> script_state" where
  "bind_if c ls s = s\<lparr>ss_listeners := ss_listeners s @ (if c then ls else [])\<rparr>"

fun exec_stmt :: "script_page \<Rightarrow> stmt \<Rightarrow> script_state \<Rightarrow> script_error + script_state" where
  "exec_stmt pg St_Load s = Inr (bind_if True [L_Load] s)"
| "exec_stmt pg St_Init_Theme s =
     (case initTheme (sc_pref pg) (ss_pref s) of
        Inl e \<Rightarrow> Inl (Script_Pref e)
      | Inr p \<Rightarrow> Inr (s\<lparr>ss_pref := p\<rparr>))"
| "exec_stmt pg St_Theme_Listener s = Inr (bind_if (pp_has_toggle (sc_pref pg)) [L_Theme] s)"
| "exec_stmt pg St_Scroll s = Inr (bind_if True [L_Scroll_Progress] s)"
| "exec_stmt pg St_Ticker s = Inr (s\<lparr>ss_ticker := initTicker (ss_ticker s)\<rparr>)"
| "exec_stmt pg St_Typewriter s =
     (case typewriterInit (sc_json pg) (sc_tw_el pg) of
        Inl e \<Rightarrow> Inl (Script_Tw e)
      | Inr r \<Rightarrow> Inr (s\<lparr>ss_typewriter := r\<rparr>))"
| "exec_stmt pg St_Mobile s = Inr (bind_if (sc_mobile pg) [L_Mobile] s)"
| "exec_stmt pg St_Accordion s =
     Inr (bind_if True
            (map L_Accordion (filter (\<lambda>i. acc_header (sc_acc pg ! i) \<and> acc_body (sc_acc pg ! i))
              [0..<length (sc_acc pg)])) s)"
| "exec_stmt pg St_Back_To_Top s = Inr (bind_if True [L_Back_To_Top] s)"
| "exec_stmt pg St_Connect s = Inr (bind_if (wp_connect (sc_wallet pg)) [L_Connect] s)"
| "exec_stmt pg St_Modal_Close s =
     Inr (bind_if (wp_modal (sc_wallet pg) \<and> wp_close (sc_wallet pg)) [L_Modal_Close] s)"
| "exec_stmt pg St_Wallet_Buttons s =
     Inr (bind_if True (map L_Wallet_Button [0..<length (wp_buttons (sc_wallet pg))]) s)"
| "exec_stmt pg St_Network s = Inr (bind_if (wp_network (sc_wallet pg)) [L_Network] s)"
| "exec_stmt pg St_Copy s = Inr (bind_if (sc_copy_btn pg \<and> wp_search (sc_wallet pg)) [L_Copy] s)"
| "exec_stmt pg St_Newsletter s = Inr (bind_if (sc_newsletter pg) [L_Newsletter] s)"
| "exec_stmt pg St_Init_Cookie s =
     (case initCookie (sc_pref pg) (ss_pref s) of
        Inl e \<Rightarrow> Inl (Script_Pref e)
      | Inr p \<Rightarrow> Inr (s\<lparr>ss_pref := p\<rparr>))"
| "exec_stmt pg St_Accept s = Inr (bind_if (pp_has_accept (sc_pref pg)) [L_Accept] s)"
| "exec_stmt pg St_Keydown s = Inr (bind_if True [L_Keydown] s)"
| "exec_stmt pg St_Lazy s = Inr (s\<lparr>ss_lazy := initLazyReveal (sc_lazy pg) (ss_lazy s)\<rparr>)"
| "exec_stmt pg St_Filter s = Inr (bind_if (sc_filter pg) [L_Filter] s)"
| "exec_stmt pg St_Links s = Inr (bind_if True [L_Links] s)"
| "exec_stmt pg St_Mint s = Inr (s\<lparr>ss_ticker := mintDemo (sc_mint_r pg) (ss_ticker s)\<rparr>)"
| "exec_stmt pg St_Skills s = Inr (s\<lparr>ss_skills := skills_init (sc_skills pg) (ss_skills s)\<rparr>)"

fun exec_stmts :: "script_page \<Rightarrow> stmt list \<Rightarrow> script_state \<Rightarrow> script_state \<times> script_error option" where
  "exec_stmts pg [] s = (s, None)"
| "exec_stmts pg (st # sts) s =
     (case exec_stmt pg st s of
        Inl e \<Rightarrow> (s, Some e)
      | Inr s' \<Rightarrow> exec_stmts pg sts s')"

text \<open>Loading the page: the whole top level over the given storage.\<close>

definition script_load :: "script_page \<Rightarrow> (string, string) mapping \<Rightarrow> bool \<Rightarrow> script_state \<times> script_error option" where
  "script_load pg st ok = exec_stmts pg script_stmts (script_start pg st ok)"

text \<open>The typewriter element, if any, has a \<open>data-text\<close> that \<open>JSON.parse\<close>
  accepts (a missing attribute is read as \<open>'[]'\<close>).\<close>

definition tw_parses :: "script_page \<Rightarrow> bool" where
  "tw_parses pg = (case sc_tw_el pg of None \<Rightarrow> True | Some a \<Rightarrow> sc_json pg (js_str_or a ''[]'') \<noteq> None)"

text \<open>The listeners bound before line 87.\<close>

definition listeners_before_typewriter :: "script_page \<Rightarrow> listener list" where
  "listeners_before_typewriter pg = [L_Load] @ (if pp_has_toggle (sc_pref pg) then [L_Theme] else []) @ [L_Scroll_Progress]"

text \<open>A page with every element, an empty typewriter word list, an empty
  accordion, no lazy images and one skill row at 83\%.\<close>

definition script_demo :: script_page where
  "script_demo =
     \<lparr>sc_pref = pref_demo, sc_tw_el = Some (Some ''[]''), sc_json = (\<lambda>x. if x = ''[]'' then Some [] else None),
      sc_ticker = Some [Markup_Child 0], sc_mint_r = 1 / 2, sc_mobile = True, sc_acc = [],
      sc_wallet = wallet_demo, sc_copy_btn = True, sc_newsletter = True, sc_filter = True,
      sc_lazy = \<lparr>lz_elems = [], lz_is_img = (\<lambda>_. False), lz_src0 = (\<lambda>_. None), lz_data_src0 = (\<lambda>_. None)\<rparr>,
      sc_skills = pg_width ''83%''\<rparr>"

subsection \<open>Lemmas\<close>

lemma typewriterInit_fails: "(\<exists>e. typewriterInit (sc_json pg) (sc_tw_el pg) = Inl e) = (\<not> tw_parses pg)"
  by (auto simp: tw_parses_def typewriterInit_def split: option.splits prod.splits)

lemma typewriterInit_json: "\<not> tw_parses pg \<Longrightarrow> typewriterInit (sc_json pg) (sc_tw_el pg) = Inl Tw_Json_Error"
  by (auto simp: tw_parses_def typewriterInit_def split: option.splits)

lemma typewriterInit_parses: "tw_parses pg \<Longrightarrow> \<exists>r. typewriterInit (sc_json pg) (sc_tw_el pg) = Inr r"
  using typewriterInit_fails [of pg] by (cases "typewriterInit (sc_json pg) (sc_tw_el pg)") auto

lemma initTheme_fresh: "\<exists>p. initTheme pg (pref_fresh pg st True 0) = Inr p \<and> ps_storage_ok p \<and> ps_storage p = st"
  using initTheme_ok [of "pref_fresh pg st True 0" pg] by (simp add: pref_fresh_def)

lemma script_load_storage_error:
  "script_load pg st False = ((script_start pg st False)\<lparr>ss_listeners := [L_Load]\<rparr>, Some (Script_Pref Storage_Error))"
  by (simp add: script_load_def script_stmts_def bind_if_def initTheme_def storage_get_def script_start_def pref_fresh_def)

lemma script_load_tw_error:
  assumes "initTheme (sc_pref pg) (pref_fresh (sc_pref pg) st True 0) = Inr p"
    and "typewriterInit (sc_json pg) (sc_tw_el pg) = Inl e"
  shows "script_load pg st True =
    ((script_start pg st True)\<lparr>ss_listeners := listeners_before_typewriter pg,
        ss_pref := p, ss_ticker := initTicker (sc_ticker pg)\<rparr>, Some (Script_Tw e))"
  using assms by (simp add: script_load_def script_stmts_def bind_if_def script_start_def listeners_before_typewriter_def)

lemma script_load_complete:
  assumes "initTheme (sc_pref pg) (pref_fresh (sc_pref pg) st True 0) = Inr p"
    and "typewriterInit (sc_json pg) (sc_tw_el pg) = Inr r"
    and "initCookie (sc_pref pg) p = Inr q"
  shows "snd (script_load pg st True) = None \<and> ss_pref (fst (script_load pg st True)) = q
    \<and> ss_skills (fst (script_load pg st True)) = skills_init (sc_skills pg) (skills_start 0)
    \<and> ss_lazy (fst (script_load pg st True)) = initLazyReveal (sc_lazy pg) (lazy_start (sc_lazy pg))
    \<and> (L_Accept \<in> set (ss_listeners (fst (script_load pg st True)))) = pp_has_accept (sc_pref pg)"
  using assms by (auto simp: script_load_def script_stmts_def bind_if_def script_start_def)

lemma script_load_pref:
  assumes "tw_parses pg"
  shows "pref_init (sc_pref pg) (pref_fresh (sc_pref pg) st True 0) = Inr (ss_pref (fst (script_load pg st True)))"
proof -
  obtain p where p: "initTheme (sc_pref pg) (pref_fresh (sc_pref pg) st True 0) = Inr p" "ps_storage_ok p"
    using initTheme_fresh by blast
  obtain r where r: "typewriterInit (sc_json pg) (sc_tw_el pg) = Inr r" using typewriterInit_parses [OF assms] by blast
  obtain q where q: "initCookie (sc_pref pg) p = Inr q" using initCookie_ok [OF p(2)] by blast
  show ?thesis using script_load_complete [OF p(1) r q] p(1) q by (simp add: pref_init_def)
qed

lemma script_load_theme:
  "\<exists>p. initTheme (sc_pref pg) (pref_fresh (sc_pref pg) st True 0) = Inr p \<and>
       ps_theme (ss_pref (fst (script_load pg st True))) = ps_theme p \<and>
       ps_storage (ss_pref (fst (script_load pg st True))) = st \<and>
       ps_storage_ok (ss_pref (fst (script_load pg st True))) \<and>
       (L_Theme \<in> set (ss_listeners (fst (script_load pg st True)))) = pp_has_toggle (sc_pref pg)"
proof -
  obtain p where p: "initTheme (sc_pref pg) (pref_fresh (sc_pref pg) st True 0) = Inr p" "ps_storage_ok p" "ps_storage p = st"
    using initTheme_fresh by blast
  show ?thesis
  proof (cases "tw_parses pg")
    case True
    obtain r where r: "typewriterInit (sc_json pg) (sc_tw_el pg) = Inr r" using typewriterInit_parses [OF True] by blast
    obtain q where q: "initCookie (sc_pref pg) p = Inr q" using initCookie_ok [OF p(2)] by blast
    have lt: "L_Theme \<in> set (ss_listeners (fst (script_load pg st True))) = pp_has_toggle (sc_pref pg)"
      using p(1) r q by (auto simp: script_load_def script_stmts_def bind_if_def script_start_def)
    have ok: "ps_storage_ok q" using q p(2) by (auto simp: initCookie_def storage_get_def split: if_splits)
    show ?thesis using script_load_complete [OF p(1) r q] initCookie_theme [OF q] p lt ok by auto
  next
    case False
    then show ?thesis using script_load_tw_error [OF p(1) typewriterInit_json [OF False]] p
      by (auto simp: listeners_before_typewriter_def)
  qed
qed

subsection \<open>Properties of the top level\<close>

text \<open>C28: A data-text that JSON.parse rejects ends the whole script at line 90: the exception escapes typewriterInit, only the load, theme and scroll listeners bound before it exist, and nothing after it runs: the cookie bar keeps its markup state, the lazy reveal and the skill bars are never set up, and the mint span is not added to the ticker.\<close>

lemma script_json_abort:
  assumes "sc_tw_el pg = Some attr" and "sc_json pg (js_str_or attr ''[]'') = None"
  shows "snd (script_load pg st True) = Some (Script_Tw Tw_Json_Error)
    \<and> set (ss_listeners (fst (script_load pg st True))) \<subseteq> {L_Load, L_Theme, L_Scroll_Progress}
    \<and> ps_bar_hidden (ss_pref (fst (script_load pg st True))) = pp_bar0 (sc_pref pg)
    \<and> ss_lazy (fst (script_load pg st True)) = lazy_start (sc_lazy pg)
    \<and> ss_skills (fst (script_load pg st True)) = skills_start 0
    \<and> ss_ticker (fst (script_load pg st True)) = initTicker (sc_ticker pg)"
proof -
  have np: "\<not> tw_parses pg" using assms by (simp add: tw_parses_def)
  obtain p where p: "initTheme (sc_pref pg) (pref_fresh (sc_pref pg) st True 0) = Inr p"
    using initTheme_fresh by blast
  have "ps_bar_hidden p = pp_bar0 (sc_pref pg)" using initTheme_keeps [OF p] by (simp add: pref_fresh_def)
  then show ?thesis using script_load_tw_error [OF p typewriterInit_json [OF np]]
    by (auto simp: listeners_before_typewriter_def script_start_def)
qed

lemma script_json_abort_witness:
  "snd (script_load (script_demo\<lparr>sc_tw_el := Some (Some ''[Web3'')\<rparr>) Mapping.empty True) = Some (Script_Tw Tw_Json_Error)
   \<and> ss_skills (fst (script_load (script_demo\<lparr>sc_tw_el := Some (Some ''[Web3'')\<rparr>) Mapping.empty True)) = skills_start 0"
  using script_json_abort [of "script_demo\<lparr>sc_tw_el := Some (Some ''[Web3'')\<rparr>" "Some ''[Web3''" Mapping.empty]
  by (simp add: script_demo_def js_str_or_def)



text \<open>C32: The spec's theme scenario on every page: with no stored preference and a dark system preference the page loads dark and binds the toggle's listener when the toggle exists; one click stores "light", and the page loaded again over that storage is light.\<close>

lemma script_theme_scenario:
  assumes "Mapping.lookup st ''sp-theme'' = None" and "pp_media (sc_pref pg) = Some True"
  shows "ps_theme (ss_pref (fst (script_load pg st True))) = Some ''dark''
    \<and> (L_Theme \<in> set (ss_listeners (fst (script_load pg st True)))) = pp_has_toggle (sc_pref pg)
    \<and> Mapping.lookup (ps_storage (fst (theme_click (sc_pref pg) (ss_pref (fst (script_load pg st True)))))) ''sp-theme''
        = Some ''light''
    \<and> ps_theme (ss_pref (fst (script_load pg
        (ps_storage (fst (theme_click (sc_pref pg) (ss_pref (fst (script_load pg st True)))))) True))) = Some ''light''"
proof -
  let ?s = "ss_pref (fst (script_load pg st True))"
  obtain p where p: "initTheme (sc_pref pg) (pref_fresh (sc_pref pg) st True 0) = Inr p"
      "ps_theme ?s = ps_theme p" "ps_storage ?s = st" "ps_storage_ok ?s"
      "(L_Theme \<in> set (ss_listeners (fst (script_load pg st True)))) = pp_has_toggle (sc_pref pg)"
    using script_load_theme [of pg st] by blast
  have dark: "ps_theme ?s = Some ''dark''"
    using p(1,2) initTheme_ok [of "pref_fresh (sc_pref pg) st True 0" "sc_pref pg"] assms
    by (simp add: pref_fresh_def js_str_or_def)
  let ?st2 = "ps_storage (fst (theme_click (sc_pref pg) ?s))"
  have st2: "Mapping.lookup ?st2 ''sp-theme'' = Some ''light''"
    using theme_click_ok [OF p(4), of "sc_pref pg"] dark by (simp add: js_str_or_def lookup_update)
  obtain p2 where p2: "initTheme (sc_pref pg) (pref_fresh (sc_pref pg) ?st2 True 0) = Inr p2"
      "ps_theme (ss_pref (fst (script_load pg ?st2 True))) = ps_theme p2"
    using script_load_theme [of pg ?st2] by blast
  have "ps_theme p2 = Some ''light''"
    using p2(1) initTheme_ok [of "pref_fresh (sc_pref pg) ?st2 True 0" "sc_pref pg"] st2
    by (simp add: pref_fresh_def js_str_or_def)
  then show ?thesis using dark st2 p(5) p2(2) by simp
qed

lemma script_theme_scenario_witness:
  "ps_theme (ss_pref (fst (script_load script_demo Mapping.empty True))) = Some ''dark''
   \<and> L_Theme \<in> set (ss_listeners (fst (script_load script_demo Mapping.empty True)))
   \<and> ps_theme (ss_pref (fst (script_load script_demo
        (ps_storage (fst (theme_click pref_demo (ss_pref (fst (script_load script_demo Mapping.empty True)))))) True))) = Some ''light''"
  using script_theme_scenario [of Mapping.empty script_demo]
  by (simp add: script_demo_def pref_demo_def)

text \<open>C33: With localStorage unusable the script throws at line 46 (initTheme): only the load listener is bound, no theme is applied, and no other listener or component is ever set up, so the page is not interactive.\<close>

lemma script_storage_disabled:
  "snd (script_load pg st False) = Some (Script_Pref Storage_Error)
   \<and> ss_listeners (fst (script_load pg st False)) = [L_Load]
   \<and> ss_pref (fst (script_load pg st False)) = pref_fresh (sc_pref pg) st False 0
   \<and> ss_typewriter (fst (script_load pg st False)) = None
   \<and> ss_lazy (fst (script_load pg st False)) = lazy_start (sc_lazy pg)
   \<and> ss_skills (fst (script_load pg st False)) = skills_start 0"
  by (simp add: script_load_storage_error script_start_def)



end
