(* ===== verification/Spec2Isabelle.thy ===== *)
theory Spec2Isabelle
  imports Counters Script
begin

text \<open>
  Verification library for the page script of SkillsPassport, src/script.js.

  \<^bold>\<open>The program.\<close>  src/script.js is one browser script of independent features,
  each a top-level statement that binds DOM event handlers, an IntersectionObserver
  or a timer: theme toggle with \<open>localStorage\<close>, scroll progress, ticker,
  typewriter, stat counters, reveal-on-scroll, mobile menu, accordion, back-to-top,
  a simulated wallet modal, network switch, credential copy, newsletter form,
  cookie consent, keyboard shortcuts, lazy reveal, feature filter, smooth links, a
  mint demo and, last, the skill-progress IIFE (lines 386-471).  The features share
  no state but the document; the view-triggered ones are driven by the browser's
  IntersectionObserver and requestAnimationFrame.

  \<^bold>\<open>Library layout.\<close>
  \<^item> Prelude: named theorem collections (\<open>js_simps\<close>, \<open>dom_simps\<close>), the type
    synonyms \<open>ms\<close> (time stamps), \<open>elem\<close> (DOM element handles), and lemmas on
    folds (\<open>foldl_keep\<close>, \<open>foldl_establish\<close>: a callback that runs
    \<open>forEach\<close> over a batch is a left fold) and lists.
  \<^item> JS_Number: the JavaScript Number type as \<open>jsnum\<close> (finite rationals, the two
    infinities, NaN) and the operations the script uses (\<open>+ - * /\<close>,
    \<open>Math.min/max/floor/round/pow\<close>, \<open>||\<close>).
  \<^item> JS_String: \<open>trim\<close>, \<open>replace\<close>, \<open>slice\<close>, \<open>toUpperCase\<close>,
    \<open>includes\<close>, \<open>parseInt\<close>, \<open>Number(string)\<close>, \<open>Number::toString\<close> on
    integers, with the round trips between printing and parsing.
  \<^item> Intersection_Observer: the browser's observer after the W3C specification
    (targets, threshold index, queue, \<open>observe\<close>, \<open>unobserve\<close>, delivery).
    It is the environment of the view-triggered features, not repository code.
  \<^item> Skill_Progress: the skill bars, lines 386-471.  \<open>parsePercent\<close>,
    \<open>animateNumber\<close>/\<open>number_step\<close>, \<open>animateBar\<close>/\<open>bar_step\<close> (the
    \<open>step\<close> closures as \<open>anim_task\<close> values queued for the next frame),
    \<open>skill_duration\<close> (line 447), \<open>skill_on_entry\<close>/\<open>skill_callback\<close> (the
    observer callback), \<open>skills_init_reduced\<close>, \<open>skills_attach\<close>,
    \<open>skills_init\<close> (the IIFE).  The component's state \<open>skills_state\<close> holds
    the inline widths and label texts the script writes, the observer, the pending
    frame callbacks and the clock; \<open>skills_step\<close> lets the browser update an
    intersection, deliver the queued entries, run a frame or advance the clock, and
    \<open>sk_reach\<close> is the set of states reachable from start-up under the browser's
    contract (\<open>sk_event_ok\<close>: time never goes back, ratios are fractions; in the
    strict environment no batch holds two intersecting entries of one target).
  \<^item> Counters: the \<open>load\<close> handler (lines 29-35, \<open>on_load\<close>), \<open>animateValue\<close>
    with its \<open>step\<close> closure (\<open>value_step\<close>, the closure's \<open>startTime\<close> kept in
    the queued \<open>value_task\<close>), \<open>initCounters\<close>, and \<open>revealOnLoad\<close> with its
    observer callback (\<open>reveal_callback\<close>, \<open>reveal_on_entry\<close>), lines 111-152.
    \<open>counters_step\<close> and \<open>ct_reach\<close> play the roles of \<open>skills_step\<close> and
    \<open>sk_reach\<close>, with the load event added.
  \<^item> Typewriter: the IIFE of lines 87-106.  The closure variables \<open>i, pos,
    forward\<close> and the written text are \<open>tw_state\<close>; \<open>tick\<close> returns the new state
    and the delay of the \<open>setTimeout\<close> it schedules; \<open>tw_run\<close> follows the
    timer chain for a given number of ticks and sums the delays, \<open>tw_trace\<close>
    lists the texts written; \<open>typewriterInit\<close> takes \<open>JSON.parse\<close> as a
    parameter and returns its failure as \<open>Inl\<close>.
  \<^item> Toast: \<open>showToast\<close> (lines 13-24), the interface every user-facing handler
    calls: the container's toasts, the two timers a call sets, and
    \<open>toast_advance\<close>, the browser running the timers due by a given time in order.
  \<^item> Preferences: theme (lines 40-63: \<open>applyTheme\<close>, \<open>initTheme\<close>,
    \<open>theme_click\<close>) and cookie consent (lines 280-294: \<open>initCookie\<close>,
    \<open>cookie_accept\<close>) over \<open>localStorage\<close>, a \<open>Mapping\<close> with a flag for
    whether the browser lets the page use it (else \<open>getItem\<close>/\<open>setItem\<close>
    throw).  A throw in the top-level set-up is \<open>Inl\<close>; a throw in a handler is
    returned beside the state the handler reached.  \<open>pref_init\<close> runs the two
    preference statements of the top level as they run when nothing between them
    throws (Script's \<open>script_load_pref\<close> relates it to the whole top level),
    \<open>pref_reload\<close> loads them again over the storage, \<open>pref_step\<close> and
    \<open>pref_reach\<close> are the session's events and states.
  \<^item> Wallet: the wallet modal (lines 193-224: \<open>connect_click\<close>, \<open>close_click\<close>,
    \<open>wallet_click\<close>, modelled statement by statement, with \<open>capitalize\<close> the
    throwing expression of line 218), the network switch (\<open>network_change\<close>, lines 229-235) and
    the keyboard shortcuts (\<open>key_down\<close>, lines 299-312), with \<open>wallet_step\<close>
    and \<open>wallet_reach\<close>; handlers return the exception they end with.
  \<^item> Page: the stateless handlers, each a function from what it reads to what it
    writes: scroll progress, back to top, mobile menu, accordion, feature filter,
    newsletter, credential copy and \<open>generateShortId\<close>, in-page links, ticker and
    mint demo.  Random numbers, the clipboard and \<open>querySelector\<close> on arbitrary
    selectors are arguments.
  \<^item> Lazy_Reveal: \<open>initLazyReveal\<close> (lines 317-335) over the observer model,
    with the image load event, \<open>lazy_reach\<close> and its invariant \<open>lazy_inv\<close>.
  \<^item> Script: the top level itself, lines 29-471.  \<open>script_stmts\<close> lists the
    top-level statements in file order; \<open>exec_stmt\<close> runs one in the sum-type
    error monad (a listener binding when its element exists, or the IIFE of a
    component: \<open>initTheme\<close>, \<open>initTicker\<close>, \<open>typewriterInit\<close>,
    \<open>initCookie\<close>, \<open>initLazyReveal\<close>, \<open>mintDemo\<close>, \<open>skills_init\<close>);
    \<open>exec_stmts\<close> stops at the first throw, keeping the state reached, and
    \<open>script_load\<close> runs the whole top level over a given storage.  This is where
    the components meet: one throw ends the set-up of every later one.

  \<^bold>\<open>What is proved\<close> (claims C1-C14 in Skill_Progress, except C10).
  Animate-once in the strict environment by rule induction over \<open>sk_reach\<close> (C1)
  and, in general, its failure for every batch with two intersecting entries of a
  container (C2); termination of each bar's frame loop with the exact final width
  (C3) and the final label text (C12); refinement of the frame writes by the spec's
  ease-out-cubic contract (C4) and their monotonicity (C13); the width bounds
  invariant (C5) and the duration bounds (C6); the spec's scenario for every
  percentage n <= 100: bar and label run over the same duration and finish in the
  same frame at n (C7, over any sequence of frames); the \<open>parsePercent\<close> round
  trip (C8); the reduced-motion path (C9); the unclamped label for every n > 100
  (C11); the state after set-up (C14).  In Page, C10: after any sequence of clicks
  an accordion item is active exactly when toggled an odd number of times.
  In Counters: the data-animated guard makes the observer animate each display at
  most once (C15, rule induction over \<open>ct_reach\<close>) while the load handler animates
  every display once more (C16); the exact final text and the end of the frame loop
  (C17), the bounds of the intermediate values (C18), what \<open>initCounters\<close>
  schedules (C19, through the \<open>parseInt\<close>/\<open>toString\<close> round trip), the
  monotonicity of the values shown (C20), the agreement and divergence of the two
  \<open>parseInt\<close> radices (C21), the restart after a zero time stamp (C22), and that
  the observer never unobserves (C23, an invariant of \<open>ct_reach\<close>).
  In Typewriter: the whole word is never written (C24, an invariant of
  \<open>tw_reach\<close>), the exact trace over any word (C25), one word takes
  \<open>2 * max 1 (length word)\<close> ticks and \<open>900 + 90 * (2 * max 1 (length word) - 1)\<close>
  ms (C26), and every word is reached (C27).
  In Script, across components: a \<open>data-text\<close> that \<open>JSON.parse\<close> rejects ends
  the script at line 90 with only three listeners bound (C28); the script runs to
  its end exactly when storage is usable and the typewriter's text parses (C29);
  the spec's theme scenario on every page, through load, click and reload (C32);
  unusable storage leaves only the load listener (C33); the cookie bar is shown
  exactly when the script reaches \<open>initCookie\<close> (C35).
  In Preferences: the theme, \<open>aria-pressed\<close> and the stored theme agree in every
  state of a session (C30, rule induction over \<open>pref_reach\<close>); theme and consent
  survive a reload (C31, C34).  In Toast: in every reachable state the container
  is empty 3.2 s later (C36, an invariant of \<open>toast_reach\<close>).  In Wallet: the
  modal's \<open>aria-hidden\<close> and inline display agree (C37) and the connect button's
  class and label stay in step (C38), in every reachable state.  In Page: the
  scroll progress is NaN or a width in [0,100] for every scroll position (C39).
  In Lazy_Reveal: the image attributes the observer writes go together (C40).

  \<^bold>\<open>Modelling choices.\<close>  Numbers are exact rationals: IEEE rounding, the signed
  zero and the finite range of doubles are not modelled, so the bounds and the final
  values are those of exact arithmetic (the final width \<open>target * 1\<close> is exact in
  doubles too).  Strings are ASCII; non-ASCII white space is not modelled.  Time does
  not advance inside one task (\<open>performance.now()\<close> reads the clock of the task).
  CSS validity of assigned widths is not modelled: a width is the value assigned.
  Page structure the script only reads (query results, attributes, the reduced-motion
  preference) is a static record.  No fuel is needed: every loop of the script is a
  \<open>forEach\<close> over a finite list, and the frame loops are unfolded one frame per
  browser event, their termination being C3.  The typewriter's timer chain never
  ends; \<open>tw_run\<close> takes the number of ticks to follow as its argument, and C26/C27
  state how many suffice to reach each word.  The toast and frame queues are run by
  explicit browser events; C7 and C11 hold for every list of frame times.

  \<^bold>\<open>Not modelled.\<close>  The helpers \<open>$\<close> and \<open>$$\<close> (lines 9-10) are
  \<open>querySelector\<close> wrappers: the models take their results as the page records.
  The service worker registration (lines 354-356) is a call whose failure is
  ignored.  \<open>JSON.parse\<close>, \<open>Math.random\<close>, the clipboard and selector parsing are
  browser facilities and enter as arguments; the IntersectionObserver and the
  timer and frame queues are modelled as environment after their specifications.
  Number-to-string conversion of non-integers (the scroll width) and non-ASCII
  text (the wallet label separator, the mint emoji, the newsletter dash) are not
  modelled as written.
\<close>

end
